theory Spec2Isabelle
  imports Main "HOL-Library.Sublist"
begin

section \<open>JavaScript values\<close>

text \<open>
  The tools receive weakly typed data: whatever \<^verbatim>\<open>response.json()\<close> or the Resend
  client returns. A value is a JSON value or \<^verbatim>\<open>undefined\<close>. Numbers are the
  integer-valued ones and \<^verbatim>\<open>NaN\<close>; a string is its list of code units; an object is
  its list of own properties, read by the first entry for a key.
\<close>

datatype jsval =
    Undefined
  | Null
  | Bool bool
  | Num int
  | NaN
  | Str string
  | Arr "jsval list"
  | Obj "(string \<times> jsval) list"

text \<open>
  What a \<^verbatim>\<open>throw\<close> carries, as far as the \<^verbatim>\<open>catch\<close> blocks look at it: an instance of
  \<^verbatim>\<open>Error\<close> with its message, or some other value.
\<close>

datatype exn = Error string | NonError

definition errmsg :: "exn \<Rightarrow> string \<Rightarrow> string" where
  \<comment> \<open>\<^verbatim>\<open>error instanceof Error ? error.message : fallback\<close>\<close>
  "errmsg e fallback = (case e of Error m \<Rightarrow> m | NonError \<Rightarrow> fallback)"

definition bindE :: "exn + 'a \<Rightarrow> ('a \<Rightarrow> exn + 'b) \<Rightarrow> exn + 'b" where
  "bindE m f = (case m of Inl e \<Rightarrow> Inl e | Inr x \<Rightarrow> f x)"

fun mapE :: "('a \<Rightarrow> exn + 'b) \<Rightarrow> 'a list \<Rightarrow> exn + 'b list" where
  "mapE f [] = Inr []"
| "mapE f (x # xs) =
     (case f x of
        Inl e \<Rightarrow> Inl e
      | Inr y \<Rightarrow> (case mapE f xs of Inl e \<Rightarrow> Inl e | Inr ys \<Rightarrow> Inr (y # ys)))"

definition truthy :: "jsval \<Rightarrow> bool" where
  "truthy v =
     (case v of
        Undefined \<Rightarrow> False
      | Null \<Rightarrow> False
      | Bool b \<Rightarrow> b
      | Num n \<Rightarrow> n \<noteq> 0
      | NaN \<Rightarrow> False
      | Str s \<Rightarrow> s \<noteq> []
      | Arr xs \<Rightarrow> True
      | Obj kvs \<Rightarrow> True)"

definition nullish :: "jsval \<Rightarrow> bool" where
  "nullish v = (v = Undefined \<or> v = Null)"

definition coalesce :: "jsval \<Rightarrow> jsval \<Rightarrow> jsval" where
  \<comment> \<open>\<^verbatim>\<open>a ?? b\<close>\<close>
  "coalesce a b = (if nullish a then b else a)"

definition of_opt :: "string option \<Rightarrow> jsval" where
  \<comment> \<open>a \<^verbatim>\<open>string | undefined\<close> as a value\<close>
  "of_opt s = (case s of None \<Rightarrow> Undefined | Some x \<Rightarrow> Str x)"

subsection \<open>Decimal numerals\<close>

definition digit :: "nat \<Rightarrow> char" where
  "digit d = ''0123456789'' ! d"

function decimal :: "nat \<Rightarrow> string" where
  "decimal n = (if n < 10 then [digit n] else decimal (n div 10) @ [digit (n mod 10)])"
  by pat_completeness auto
termination
  by (relation "measure id") auto

declare decimal.simps [simp del]

definition show_int :: "int \<Rightarrow> string" where
  "show_int i = (if i < 0 then CHR ''-'' # decimal (nat (- i)) else decimal (nat i))"

subsection \<open>Property reads\<close>

text \<open>
  \<^verbatim>\<open>v.k\<close> raises a TypeError when \<^verbatim>\<open>v\<close> is \<^verbatim>\<open>null\<close> or \<^verbatim>\<open>undefined\<close>. On any other
  value it is the own property, or \<^verbatim>\<open>undefined\<close>: none of the keys the tools read is
  a property of \<^verbatim>\<open>Object.prototype\<close>, \<^verbatim>\<open>Array.prototype\<close> or a primitive's wrapper.
  The messages of the errors the runtime raises are V8's.
\<close>

fun field :: "jsval \<Rightarrow> string \<Rightarrow> jsval" where
  "field (Obj kvs) k = (case map_of kvs k of None \<Rightarrow> Undefined | Some v \<Rightarrow> v)"
| "field v k = Undefined"

definition read_error :: "jsval \<Rightarrow> string \<Rightarrow> exn" where
  "read_error v k =
     Error (''Cannot read properties of '' @ (if v = Null then ''null'' else ''undefined'')
            @ '' (reading '' @ [CHR 0x27] @ k @ [CHR 0x27] @ '')'')"

definition getp :: "jsval \<Rightarrow> string \<Rightarrow> exn + jsval" where
  "getp v k = (if nullish v then Inl (read_error v k) else Inr (field v k))"

subsection \<open>Conversions\<close>

text \<open>
  \<^verbatim>\<open>String(v)\<close>. An array is joined with commas, \<^verbatim>\<open>null\<close> and \<^verbatim>\<open>undefined\<close> elements
  giving the empty string. An object gives \<^verbatim>\<open>[object Object]\<close> through the inherited
  \<^verbatim>\<open>toString\<close>; an own property of that name shadows it, is no function in parsed
  JSON, and the conversion raises a TypeError.
\<close>

definition not_primitive :: exn where
  "not_primitive = Error ''Cannot convert object to primitive value''"

fun ToString :: "jsval \<Rightarrow> exn + string"
  and join :: "jsval list \<Rightarrow> exn + string"
  and element :: "jsval \<Rightarrow> exn + string"
where
  "ToString Undefined = Inr ''undefined''"
| "ToString Null = Inr ''null''"
| "ToString (Bool b) = Inr (if b then ''true'' else ''false'')"
| "ToString (Num n) = Inr (show_int n)"
| "ToString NaN = Inr ''NaN''"
| "ToString (Str s) = Inr s"
| "ToString (Arr xs) = join xs"
| "ToString (Obj kvs) =
     (if ''toString'' \<in> set (map fst kvs) then Inl not_primitive else Inr ''[object Object]'')"
| "join [] = Inr ''''"
| "join [x] = element x"
| "join (x # y # ys) =
     (case element x of
        Inl e \<Rightarrow> Inl e
      | Inr s \<Rightarrow> (case join (y # ys) of Inl e \<Rightarrow> Inl e | Inr t \<Rightarrow> Inr (s @ '','' @ t)))"
| "element Undefined = Inr ''''"
| "element Null = Inr ''''"
| "element (Bool b) = ToString (Bool b)"
| "element (Num n) = ToString (Num n)"
| "element NaN = ToString NaN"
| "element (Str s) = ToString (Str s)"
| "element (Arr xs) = ToString (Arr xs)"
| "element (Obj kvs) = ToString (Obj kvs)"

definition String :: "jsval \<Rightarrow> exn + jsval" where
  "String v = (case ToString v of Inl e \<Rightarrow> Inl e | Inr s \<Rightarrow> Inr (Str s))"

definition Boolean :: "jsval \<Rightarrow> jsval" where
  "Boolean v = Bool (truthy v)"

text \<open>
  \<^verbatim>\<open>Number(v)\<close>. The numeric value of a string is the runtime's \<^verbatim>\<open>StringToNumber\<close>,
  taken as the parameter \<open>s2n\<close>: \<open>None\<close> is \<^verbatim>\<open>NaN\<close>. Arrays and objects are
  converted through their string.
\<close>

definition of_number :: "int option \<Rightarrow> jsval" where
  "of_number r = (case r of None \<Rightarrow> NaN | Some n \<Rightarrow> Num n)"

definition Number :: "(string \<Rightarrow> int option) \<Rightarrow> jsval \<Rightarrow> exn + jsval" where
  "Number s2n v =
     (case v of
        Undefined \<Rightarrow> Inr NaN
      | Null \<Rightarrow> Inr (Num 0)
      | Bool b \<Rightarrow> Inr (Num (if b then 1 else 0))
      | Num n \<Rightarrow> Inr (Num n)
      | NaN \<Rightarrow> Inr NaN
      | Str s \<Rightarrow> Inr (of_number (s2n s))
      | Arr xs \<Rightarrow> (case ToString v of Inl e \<Rightarrow> Inl e | Inr s \<Rightarrow> Inr (of_number (s2n s)))
      | Obj kvs \<Rightarrow> (case ToString v of Inl e \<Rightarrow> Inl e | Inr s \<Rightarrow> Inr (of_number (s2n s))))"

definition is_number :: "jsval \<Rightarrow> bool" where
  \<comment> \<open>\<^verbatim>\<open>typeof v === "number"\<close>\<close>
  "is_number v = (case v of Num n \<Rightarrow> True | NaN \<Rightarrow> True | _ \<Rightarrow> False)"

text \<open>
  An object literal evaluates its properties in order; the first one that raises ends
  the evaluation.
\<close>

fun props :: "(string \<times> (exn + jsval)) list \<Rightarrow> exn + (string \<times> jsval) list" where
  "props [] = Inr []"
| "props ((k, c) # fs) =
     (case c of
        Inl e \<Rightarrow> Inl e
      | Inr v \<Rightarrow> (case props fs of Inl e \<Rightarrow> Inl e | Inr kvs \<Rightarrow> Inr ((k, v) # kvs)))"

definition object :: "(string \<times> (exn + jsval)) list \<Rightarrow> exn + jsval" where
  "object fs = (case props fs of Inl e \<Rightarrow> Inl e | Inr kvs \<Rightarrow> Inr (Obj kvs))"

definition not_a_function :: "string \<Rightarrow> exn" where
  "not_a_function what = Error (what @ '' is not a function'')"

text \<open>The expressions the projections repeat, over a raw record \<open>raw\<close>.\<close>

definition string_or :: "jsval \<Rightarrow> string \<Rightarrow> jsval \<Rightarrow> exn + jsval" where
  \<comment> \<open>\<^verbatim>\<open>String(raw.k ?? d)\<close>\<close>
  "string_or raw k d = bindE (getp raw k) (\<lambda>v. String (coalesce v d))"

definition string_if :: "jsval \<Rightarrow> string \<Rightarrow> exn + jsval" where
  \<comment> \<open>\<^verbatim>\<open>raw.k ? String(raw.k) : undefined\<close>\<close>
  "string_if raw k = bindE (getp raw k) (\<lambda>v. if truthy v then String v else Inr Undefined)"

definition boolean_if :: "jsval \<Rightarrow> string \<Rightarrow> exn + jsval" where
  \<comment> \<open>\<^verbatim>\<open>raw.k ? Boolean(raw.k) : undefined\<close>\<close>
  "boolean_if raw k =
     bindE (getp raw k) (\<lambda>v. if truthy v then Inr (Boolean v) else Inr Undefined)"

section \<open>The Webflow tools\<close>

subsection \<open>Transport\<close>

datatype http_method = GET | POST | PUT

record request =
  url :: string
  query :: "(string \<times> string) list"
  http_method :: http_method
  headers :: "(string \<times> string) list"
  body :: "jsval option"

record response =
  ok :: bool
  status :: nat
  resp_text :: "exn + string"
  resp_json :: "exn + jsval"

datatype fetch_outcome = Rejects exn | Responds response

text \<open>
  The process environment and the network. \<open>fetch w n req\<close> is what the network does
  with \<open>req\<close> when \<open>n\<close> requests went before it. A computation threads the list of
  the requests made so far.
\<close>

record webflow =
  WEBFLOW_API_KEY :: "string option"
  WEBFLOW_SITE_ID :: "string option"
  fetch :: "nat \<Rightarrow> request \<Rightarrow> fetch_outcome"

type_synonym 'a io = "request list \<Rightarrow> (exn + 'a) \<times> request list"

definition return :: "'a \<Rightarrow> 'a io" where
  "return x = (\<lambda>calls. (Inr x, calls))"

definition lift :: "exn + 'a \<Rightarrow> 'a io" where
  "lift r = (\<lambda>calls. (r, calls))"

definition bindIO :: "'a io \<Rightarrow> ('a \<Rightarrow> 'b io) \<Rightarrow> 'b io" where
  "bindIO m f =
     (\<lambda>calls. case m calls of (Inl e, calls') \<Rightarrow> (Inl e, calls') | (Inr x, calls') \<Rightarrow> f x calls')"

definition catch :: "jsval io \<Rightarrow> (exn \<Rightarrow> jsval) \<Rightarrow> jsval \<times> request list" where
  \<comment> \<open>\<^verbatim>\<open>try { ... } catch (error) { return handler(error) }\<close>, run from no request made\<close>
  "catch m handler =
     (case m [] of (Inl e, calls) \<Rightarrow> (handler e, calls) | (Inr v, calls) \<Rightarrow> (v, calls))"

definition BASE_URL :: string where
  "BASE_URL = ''https://api.webflow.com/v2''"

definition getApiKey :: "webflow \<Rightarrow> exn + string" where
  "getApiKey w =
     (case WEBFLOW_API_KEY w of
        None \<Rightarrow> Inl (Error ''WEBFLOW_API_KEY environment variable is required'')
      | Some apiKey \<Rightarrow>
          if apiKey = [] then Inl (Error ''WEBFLOW_API_KEY environment variable is required'')
          else Inr apiKey)"

fun set_param :: "string \<Rightarrow> string \<Rightarrow> (string \<times> string) list \<Rightarrow> (string \<times> string) list" where
  "set_param k v [] = [(k, v)]"
| "set_param k v ((k', v') # q) =
     (if k' = k then (k, v) # filter (\<lambda>p. fst p \<noteq> k) q else (k', v') # set_param k v q)"

fun searchParams :: "(string \<times> jsval) list \<Rightarrow> (string \<times> string) list \<Rightarrow> exn + (string \<times> string) list" where
  "searchParams [] q = Inr q"
| "searchParams ((k, v) # ps) q =
     (if v \<noteq> Undefined
      then (case ToString v of Inl e \<Rightarrow> Inl e | Inr s \<Rightarrow> searchParams ps (set_param k s q))
      else searchParams ps q)"

text \<open>
  The URL is kept as the base, the path and the query parameters, not parsed. The body
  is the value that \<^verbatim>\<open>JSON.stringify\<close> serialises.
\<close>

definition callApi ::
  "webflow \<Rightarrow> string \<Rightarrow> http_method option \<Rightarrow> jsval option \<Rightarrow> (string \<times> jsval) list option \<Rightarrow> jsval io"
where
  "callApi w path meth body_opt params = (\<lambda>calls.
     case (case params of None \<Rightarrow> Inr [] | Some ps \<Rightarrow> searchParams ps []) of
       Inl e \<Rightarrow> (Inl e, calls)
     | Inr q \<Rightarrow>
        (case getApiKey w of
           Inl e \<Rightarrow> (Inl e, calls)
         | Inr apiKey \<Rightarrow>
            (let req = \<lparr> url = BASE_URL @ path, query = q,
                         http_method = (case meth of None \<Rightarrow> GET | Some m \<Rightarrow> m),
                         headers = (''Authorization'', ''Bearer '' @ apiKey)
                           # (case body_opt of None \<Rightarrow> []
                              | Some b \<Rightarrow> [(''Content-Type'', ''application/json'')]),
                         body = body_opt \<rparr>
             in case fetch w (length calls) req of
                  Rejects e \<Rightarrow> (Inl e, calls @ [req])
                | Responds r \<Rightarrow>
                   if \<not> ok r
                   then (case resp_text r of
                           Inl e \<Rightarrow> (Inl e, calls @ [req])
                         | Inr t \<Rightarrow>
                            (Inl (Error (''Webflow API error '' @ decimal (status r) @ '': '' @ t)),
                             calls @ [req]))
                   else (resp_json r, calls @ [req]))))"

definition getDefaultSiteId :: "webflow \<Rightarrow> string" where
  "getDefaultSiteId w = (case WEBFLOW_SITE_ID w of None \<Rightarrow> '''' | Some s \<Rightarrow> s)"

definition resolveSiteId :: "webflow \<Rightarrow> string option \<Rightarrow> exn + string" where
  "resolveSiteId w siteId =
     (let resolved = (case siteId of
                        None \<Rightarrow> getDefaultSiteId w
                      | Some s \<Rightarrow> if s \<noteq> [] then s else getDefaultSiteId w)
      in if resolved = []
         then Inl (Error ''A site ID is required. Either pass a siteId or set the WEBFLOW_SITE_ID environment variable.'')
         else Inr resolved)"

definition getStringField :: "jsval \<Rightarrow> string \<Rightarrow> string \<Rightarrow> exn + string option" where
  "getStringField obj snakeCase camelCase =
     bindE (getp obj snakeCase) (\<lambda>s.
       if truthy s then (case ToString s of Inl e \<Rightarrow> Inl e | Inr x \<Rightarrow> Inr (Some x))
       else bindE (getp obj camelCase) (\<lambda>c.
         if truthy c then (case ToString c of Inl e \<Rightarrow> Inl e | Inr x \<Rightarrow> Inr (Some x))
         else Inr None))"

definition stringField :: "jsval \<Rightarrow> string \<Rightarrow> string \<Rightarrow> exn + jsval" where
  \<comment> \<open>the result of \<open>getStringField\<close> as the value of a property\<close>
  "stringField obj snakeCase camelCase =
     (case getStringField obj snakeCase camelCase of Inl e \<Rightarrow> Inl e | Inr r \<Rightarrow> Inr (of_opt r))"

subsection \<open>Shared pieces of the projections\<close>

definition template :: "string \<Rightarrow> jsval \<Rightarrow> string \<Rightarrow> exn + jsval" where
  \<comment> \<open>a template literal with one substitution\<close>
  "template pre v post =
     (case ToString v of Inl e \<Rightarrow> Inl e | Inr s \<Rightarrow> Inr (Str (pre @ s @ post)))"

definition array :: "exn + jsval list \<Rightarrow> exn + jsval" where
  "array r = (case r of Inl e \<Rightarrow> Inl e | Inr xs \<Rightarrow> Inr (Arr xs))"

definition array_map :: "string \<Rightarrow> (jsval \<Rightarrow> exn + jsval) \<Rightarrow> jsval \<Rightarrow> exn + jsval list" where
  \<comment> \<open>\<^verbatim>\<open>v.map(f)\<close>: only an array has a \<^verbatim>\<open>map\<close> that can be called\<close>
  "array_map what f v =
     (case v of
        Arr xs \<Rightarrow> mapE f xs
      | _ \<Rightarrow> if nullish v then Inl (read_error v ''map'') else Inl (not_a_function what))"

definition optional_map :: "string \<Rightarrow> (jsval \<Rightarrow> exn + jsval) \<Rightarrow> jsval \<Rightarrow> exn + jsval" where
  \<comment> \<open>\<^verbatim>\<open>v?.map(f)\<close>\<close>
  "optional_map what f v = (if nullish v then Inr Undefined else array (array_map what f v))"

definition domainInfo :: "jsval \<Rightarrow> exn + jsval" where
  "domainInfo d =
     object [(''id'', string_or d ''id'' (Str '''')),
             (''url'', string_or d ''url'' (Str ''''))]"

definition number_or :: "(string \<Rightarrow> int option) \<Rightarrow> jsval \<Rightarrow> string \<Rightarrow> jsval \<Rightarrow> exn + jsval" where
  \<comment> \<open>\<^verbatim>\<open>Number(raw.k ?? d)\<close>\<close>
  "number_or s2n raw k d = bindE (getp raw k) (\<lambda>v. Number s2n (coalesce v d))"

definition paginationInfo :: "(string \<Rightarrow> int option) \<Rightarrow> jsval \<Rightarrow> exn + jsval" where
  \<comment> \<open>\<^verbatim>\<open>pagination ? { limit: ..., offset: ..., total: ... } : undefined\<close>\<close>
  "paginationInfo s2n pagination =
     (if truthy pagination
      then object [(''limit'', number_or s2n pagination ''limit'' (Num 0)),
                   (''offset'', number_or s2n pagination ''offset'' (Num 0)),
                   (''total'', number_or s2n pagination ''total'' (Num 0))]
      else Inr Undefined)"

definition listing :: "string \<Rightarrow> jsval list \<Rightarrow> (string \<times> (exn + jsval)) list \<Rightarrow> exn + jsval" where
  \<comment> \<open>\<^verbatim>\<open>{ items, count: items.length, ... }\<close>\<close>
  "listing key items rest =
     object ((key, Inr (Arr items)) # (''count'', Inr (Num (int (length items)))) # rest)"

definition list_failure :: "string \<Rightarrow> string \<Rightarrow> exn \<Rightarrow> jsval" where
  \<comment> \<open>the \<^verbatim>\<open>catch\<close> block of a list tool\<close>
  "list_failure key fallback e =
     Obj [(key, Arr []), (''count'', Num 0), (''error'', Str (errmsg e fallback))]"

definition number_param :: "int option \<Rightarrow> jsval" where
  "number_param n = (case n of None \<Rightarrow> Undefined | Some i \<Rightarrow> Num i)"

subsection \<open>listSites\<close>

definition siteInfo :: "jsval \<Rightarrow> exn + jsval" where
  "siteInfo raw =
     bindE (getp raw ''customDomains'') (\<lambda>domains.
       object
         [(''id'', string_or raw ''id'' (Str '''')),
          (''displayName'', string_or raw ''displayName'' (Str '''')),
          (''shortName'', string_or raw ''shortName'' (Str '''')),
          (''lastPublished'', stringField raw ''last_published'' ''lastPublished''),
          (''lastUpdated'', stringField raw ''last_updated'' ''lastUpdated''),
          (''previewUrl'', string_if raw ''previewUrl''),
          (''timeZone'', string_if raw ''timeZone''),
          (''designerUrl'',
             bindE (getp raw ''shortName'') (\<lambda>n. template ''https://'' n ''.design.webflow.com'')),
          (''settingsUrl'',
             bindE (getp raw ''shortName'') (\<lambda>n.
               template ''https://webflow.com/dashboard/sites/'' n ''/general'')),
          (''customDomains'', optional_map ''domains?.map'' domainInfo domains)])"

definition listSites_try :: "webflow \<Rightarrow> jsval io" where
  "listSites_try w =
     bindIO (callApi w ''/sites'' None None None) (\<lambda>response.
       lift (bindE (getp response ''sites'') (\<lambda>s.
         bindE (array_map ''rawSites.map'' siteInfo (coalesce s (Arr []))) (\<lambda>sites.
           listing ''sites'' sites []))))"

definition listSites :: "webflow \<Rightarrow> jsval \<times> request list" where
  "listSites w = catch (listSites_try w) (list_failure ''sites'' ''Failed to list sites'')"

subsection \<open>publishSite\<close>

definition publishSite_body :: "string list option \<Rightarrow> bool option \<Rightarrow> jsval" where
  "publishSite_body customDomains publishToWebflowSubdomain =
     Obj ((''publishToWebflowSubdomain'',
            Bool (case publishToWebflowSubdomain of None \<Rightarrow> False | Some b \<Rightarrow> b))
          # (case customDomains of
               None \<Rightarrow> []
             | Some ds \<Rightarrow> if length ds > 0 then [(''customDomains'', Arr (map Str ds))] else []))"

definition publishSite_try :: "webflow \<Rightarrow> string option \<Rightarrow> string list option \<Rightarrow> bool option \<Rightarrow> jsval io" where
  "publishSite_try w siteId customDomains publishToWebflowSubdomain =
     bindIO (lift (resolveSiteId w siteId)) (\<lambda>resolvedSiteId.
       bindIO (callApi w (''/sites/'' @ resolvedSiteId @ ''/publish'') (Some POST)
                 (Some (publishSite_body customDomains publishToWebflowSubdomain)) None)
         (\<lambda>response.
           lift (bindE (getp response ''customDomains'') (\<lambda>domains.
             object [(''success'', Inr (Bool True)),
                     (''publishedDomains'', optional_map ''domains?.map'' domainInfo domains)]))))"

definition publishSite :: "webflow \<Rightarrow> string option \<Rightarrow> string list option \<Rightarrow> bool option \<Rightarrow> jsval \<times> request list" where
  "publishSite w siteId customDomains publishToWebflowSubdomain =
     catch (publishSite_try w siteId customDomains publishToWebflowSubdomain)
       (\<lambda>e. Obj [(''success'', Bool False),
                  (''error'', Str (errmsg e ''Failed to publish site''))])"

subsection \<open>listPages\<close>

definition pageInfo :: "jsval \<Rightarrow> exn + jsval" where
  "pageInfo page =
     bindE (getp page ''seo'') (\<lambda>seo.
       object
         [(''id'', string_or page ''id'' (Str '''')),
          (''title'', string_or page ''title'' (Str '''')),
          (''slug'', string_or page ''slug'' (Str '''')),
          (''archived'', boolean_if page ''archived''),
          (''draft'', boolean_if page ''draft''),
          (''createdOn'', stringField page ''created_on'' ''createdOn''),
          (''lastUpdated'', stringField page ''last_updated'' ''lastUpdated''),
          (''publishedPath'', string_if page ''publishedPath''),
          (''seo'',
             if truthy seo
             then object [(''title'', string_if seo ''title''),
                          (''description'', string_if seo ''description'')]
             else Inr Undefined)])"

definition listPages_try ::
  "webflow \<Rightarrow> (string \<Rightarrow> int option) \<Rightarrow> string option \<Rightarrow> int option \<Rightarrow> int option \<Rightarrow> jsval io"
where
  "listPages_try w s2n siteId limit offset =
     bindIO (lift (resolveSiteId w siteId)) (\<lambda>resolvedSiteId.
       bindIO (callApi w (''/sites/'' @ resolvedSiteId @ ''/pages'') None None
                 (Some [(''limit'', number_param limit), (''offset'', number_param offset)]))
         (\<lambda>response.
           lift (bindE (getp response ''pages'') (\<lambda>p.
             bindE (array_map ''rawPages.map'' pageInfo (coalesce p (Arr []))) (\<lambda>pages.
               bindE (getp response ''pagination'') (\<lambda>pagination.
                 listing ''pages'' pages
                   [(''pagination'', paginationInfo s2n pagination)]))))))"

definition listPages ::
  "webflow \<Rightarrow> (string \<Rightarrow> int option) \<Rightarrow> string option \<Rightarrow> int option \<Rightarrow> int option \<Rightarrow> jsval \<times> request list"
where
  "listPages w s2n siteId limit offset =
     catch (listPages_try w s2n siteId limit offset)
       (list_failure ''pages'' ''Failed to list pages'')"

subsection \<open>listForms\<close>

text \<open>
  \<^verbatim>\<open>Object.entries\<close> of a truthy value: the own properties of an object, the indexed
  elements of an array, the code units of a string, nothing for a number or \<^verbatim>\<open>true\<close>.
\<close>

definition entries :: "jsval \<Rightarrow> (string \<times> jsval) list" where
  "entries v =
     (case v of
        Obj kvs \<Rightarrow> kvs
      | Arr xs \<Rightarrow> zip (map decimal [0 ..< length xs]) xs
      | Str s \<Rightarrow> zip (map decimal [0 ..< length s]) (map (\<lambda>c. Str [c]) s)
      | _ \<Rightarrow> [])"

fun assign :: "string \<Rightarrow> jsval \<Rightarrow> (string \<times> jsval) list \<Rightarrow> (string \<times> jsval) list" where
  \<comment> \<open>\<^verbatim>\<open>fields[k] = v\<close> for an object \<open>v\<close>: the key \<^verbatim>\<open>__proto__\<close> sets the prototype
      and adds no own property\<close>
  "assign k v [] = (if k = ''__proto__'' then [] else [(k, v)])"
| "assign k v ((k', v') # kvs) =
     (if k = ''__proto__'' then (k', v') # kvs
      else if k' = k then (k, v) # kvs
      else (k', v') # assign k v kvs)"

definition fieldInfo :: "jsval \<Rightarrow> exn + jsval" where
  "fieldInfo v =
     object [(''displayName'', string_if v ''displayName''),
             (''type'', string_if v ''type'')]"

fun parseFormFields_loop ::
  "(string \<times> jsval) list \<Rightarrow> (string \<times> jsval) list \<Rightarrow> exn + (string \<times> jsval) list"
where
  "parseFormFields_loop [] flds = Inr flds"
| "parseFormFields_loop ((k, v) # rest) flds =
     (case fieldInfo v of
        Inl e \<Rightarrow> Inl e
      | Inr f \<Rightarrow> parseFormFields_loop rest (assign k f flds))"

definition parseFormFields :: "jsval \<Rightarrow> exn + jsval" where
  "parseFormFields rawFields =
     (if \<not> truthy rawFields then Inr Undefined
      else (case parseFormFields_loop (entries rawFields) [] of
              Inl e \<Rightarrow> Inl e
            | Inr flds \<Rightarrow> Inr (if length flds > 0 then Obj flds else Undefined)))"

definition formInfo :: "jsval \<Rightarrow> exn + jsval" where
  "formInfo form =
     object
       [(''id'', string_or form ''id'' (Str '''')),
        (''displayName'', string_or form ''displayName'' (Str '''')),
        (''pageId'', string_if form ''pageId''),
        (''pageName'', string_if form ''pageName''),
        (''formElementId'', stringField form ''form_element_id'' ''formElementId''),
        (''fields'', bindE (getp form ''fields'') parseFormFields),
        (''createdOn'', stringField form ''created_on'' ''createdOn''),
        (''lastUpdated'', stringField form ''last_updated'' ''lastUpdated'')]"

definition listForms_try ::
  "webflow \<Rightarrow> (string \<Rightarrow> int option) \<Rightarrow> string option \<Rightarrow> int option \<Rightarrow> int option \<Rightarrow> jsval io"
where
  "listForms_try w s2n siteId limit offset =
     bindIO (lift (resolveSiteId w siteId)) (\<lambda>resolvedSiteId.
       bindIO (callApi w (''/sites/'' @ resolvedSiteId @ ''/forms'') None None
                 (Some [(''limit'', number_param limit), (''offset'', number_param offset)]))
         (\<lambda>response.
           lift (bindE (getp response ''forms'') (\<lambda>f.
             bindE (array_map ''rawForms.map'' formInfo (coalesce f (Arr []))) (\<lambda>forms.
               bindE (getp response ''pagination'') (\<lambda>pagination.
                 listing ''forms'' forms
                   [(''pagination'', paginationInfo s2n pagination)]))))))"

definition listForms ::
  "webflow \<Rightarrow> (string \<Rightarrow> int option) \<Rightarrow> string option \<Rightarrow> int option \<Rightarrow> int option \<Rightarrow> jsval \<times> request list"
where
  "listForms w s2n siteId limit offset =
     catch (listForms_try w s2n siteId limit offset)
       (list_failure ''forms'' ''Failed to list forms'')"

subsection \<open>listFormSubmissions\<close>

definition submissionInfo :: "jsval \<Rightarrow> exn + jsval" where
  "submissionInfo submission =
     object
       [(''id'', string_or submission ''id'' (Str '''')),
        (''displayName'', string_if submission ''displayName''),
        (''dateSubmitted'', stringField submission ''date_submitted'' ''dateSubmitted''),
        (''formResponse'',
           bindE (getp submission ''formResponse'') (\<lambda>r. Inr (coalesce r (Obj []))))]"

definition listFormSubmissions_try ::
  "webflow \<Rightarrow> (string \<Rightarrow> int option) \<Rightarrow> string option \<Rightarrow> string option \<Rightarrow> int option \<Rightarrow> int option \<Rightarrow> jsval io"
where
  "listFormSubmissions_try w s2n siteId elementId limit offset =
     bindIO (lift (resolveSiteId w siteId)) (\<lambda>resolvedSiteId.
       bindIO (callApi w (''/sites/'' @ resolvedSiteId @ ''/form_submissions'') None None
                 (Some [(''elementId'', of_opt elementId),
                        (''limit'', number_param limit), (''offset'', number_param offset)]))
         (\<lambda>response.
           lift (bindE (getp response ''formSubmissions'') (\<lambda>s.
             bindE (array_map ''rawSubmissions.map'' submissionInfo (coalesce s (Arr [])))
               (\<lambda>formSubmissions.
                 bindE (getp response ''pagination'') (\<lambda>pagination.
                   listing ''formSubmissions'' formSubmissions
                     [(''pagination'', paginationInfo s2n pagination)]))))))"

definition listFormSubmissions ::
  "webflow \<Rightarrow> (string \<Rightarrow> int option) \<Rightarrow> string option \<Rightarrow> string option \<Rightarrow> int option \<Rightarrow> int option \<Rightarrow> jsval \<times> request list"
where
  "listFormSubmissions w s2n siteId elementId limit offset =
     catch (listFormSubmissions_try w s2n siteId elementId limit offset)
       (list_failure ''formSubmissions'' ''Failed to list form submissions'')"

subsection \<open>listCustomCode\<close>

definition scriptInfo :: "jsval \<Rightarrow> exn + jsval" where
  "scriptInfo script =
     object [(''id'', string_or script ''id'' (Str '''')),
             (''location'', string_or script ''location'' (Str '''')),
             (''version'', string_or script ''version'' (Str ''''))]"

definition blockInfo :: "jsval \<Rightarrow> exn + jsval" where
  "blockInfo block =
     bindE (getp block ''scripts'') (\<lambda>s.
       object
         [(''siteId'', string_or block ''siteId'' (Str '''')),
          (''pageId'', string_if block ''pageId''),
          (''type'', string_if block ''type''),
          (''scripts'', array (array_map ''rawScripts.map'' scriptInfo (coalesce s (Arr [])))),
          (''createdOn'', stringField block ''created_on'' ''createdOn''),
          (''lastUpdated'', stringField block ''last_updated'' ''lastUpdated'')])"

definition listCustomCode_try ::
  "webflow \<Rightarrow> (string \<Rightarrow> int option) \<Rightarrow> string option \<Rightarrow> int option \<Rightarrow> int option \<Rightarrow> jsval io"
where
  "listCustomCode_try w s2n siteId limit offset =
     bindIO (lift (resolveSiteId w siteId)) (\<lambda>resolvedSiteId.
       bindIO (callApi w (''/sites/'' @ resolvedSiteId @ ''/custom_code/blocks'') None None
                 (Some [(''limit'', number_param limit), (''offset'', number_param offset)]))
         (\<lambda>response.
           lift (bindE (getp response ''blocks'') (\<lambda>b.
             bindE (array_map ''rawBlocks.map'' blockInfo (coalesce b (Arr []))) (\<lambda>blocks.
               bindE (getp response ''pagination'') (\<lambda>pagination.
                 listing ''blocks'' blocks
                   [(''pagination'', paginationInfo s2n pagination)]))))))"

definition listCustomCode ::
  "webflow \<Rightarrow> (string \<Rightarrow> int option) \<Rightarrow> string option \<Rightarrow> int option \<Rightarrow> int option \<Rightarrow> jsval \<times> request list"
where
  "listCustomCode w s2n siteId limit offset =
     catch (listCustomCode_try w s2n siteId limit offset)
       (list_failure ''blocks'' ''Failed to list custom code'')"

subsection \<open>addCustomCode\<close>

datatype target = Site | Page

datatype location = Header | Footer

definition location_name :: "location \<Rightarrow> string" where
  "location_name l = (case l of Header \<Rightarrow> ''header'' | Footer \<Rightarrow> ''footer'')"

definition present :: "string option \<Rightarrow> bool" where
  \<comment> \<open>the truthiness of a \<^verbatim>\<open>string | undefined\<close>\<close>
  "present s = (case s of None \<Rightarrow> False | Some x \<Rightarrow> x \<noteq> [])"

definition interpolate :: "string option \<Rightarrow> string" where
  \<comment> \<open>a \<^verbatim>\<open>string | undefined\<close> inside a template literal\<close>
  "interpolate s = (case s of None \<Rightarrow> ''undefined'' | Some x \<Rightarrow> x)"

definition scriptPayload :: "string \<Rightarrow> location \<Rightarrow> string \<Rightarrow> jsval" where
  "scriptPayload scriptId location version =
     Obj [(''scripts'',
           Arr [Obj [(''id'', Str scriptId),
                     (''location'', Str (location_name location)),
                     (''version'', Str version)]])]"

definition addCustomCode_try ::
  "webflow \<Rightarrow> string option \<Rightarrow> target \<Rightarrow> string option \<Rightarrow> string \<Rightarrow> string \<Rightarrow> string \<Rightarrow> location \<Rightarrow> jsval io"
where
  "addCustomCode_try w siteId target pageId sourceCode displayName version location =
     (if target = Page \<and> \<not> present pageId
      then return (Obj [(''success'', Bool False), (''scriptId'', Str ''''),
                        (''error'', Str (''A pageId is required when target is \"page\". ''
                                         @ ''Use listPages to find page IDs.''))])
      else if length sourceCode > 2000
      then return (Obj [(''success'', Bool False), (''scriptId'', Str ''''),
                        (''error'', Str (''Script exceeds the 2000 character limit (''
                                         @ decimal (length sourceCode)
                                         @ '' characters). Consider hosting the script externally.''))])
      else
        bindIO (lift (resolveSiteId w siteId)) (\<lambda>resolvedSiteId.
          bindIO (callApi w (''/sites/'' @ resolvedSiteId @ ''/registered_scripts/inline'')
                    (Some POST)
                    (Some (Obj [(''sourceCode'', Str sourceCode), (''version'', Str version),
                                (''displayName'', Str displayName)]))
                    None)
            (\<lambda>registered.
              bindIO (lift (bindE (getp registered ''id'') (\<lambda>i. ToString (coalesce i (Str '''')))))
                (\<lambda>scriptId.
                  if scriptId = []
                  then return (Obj [(''success'', Bool False), (''scriptId'', Str ''''),
                                    (''error'', Str ''Failed to register script: no script ID returned'')])
                  else
                    bindIO
                      (if target = Page \<and> present pageId
                       then callApi w (''/pages/'' @ interpolate pageId @ ''/custom_code'')
                              (Some PUT) (Some (scriptPayload scriptId location version)) None
                       else callApi w (''/sites/'' @ resolvedSiteId @ ''/custom_code'')
                              (Some PUT) (Some (scriptPayload scriptId location version)) None)
                      (\<lambda>applied.
                        return (Obj [(''success'', Bool True), (''scriptId'', Str scriptId),
                                     (''appliedTo'',
                                        Str (if target = Page
                                             then ''page:'' @ interpolate pageId
                                             else ''site:'' @ resolvedSiteId))]))))))"

definition addCustomCode ::
  "webflow \<Rightarrow> string option \<Rightarrow> target \<Rightarrow> string option \<Rightarrow> string \<Rightarrow> string \<Rightarrow> string \<Rightarrow> location \<Rightarrow> jsval \<times> request list"
where
  "addCustomCode w siteId target pageId sourceCode displayName version location =
     catch (addCustomCode_try w siteId target pageId sourceCode displayName version location)
       (\<lambda>e. Obj [(''success'', Bool False), (''scriptId'', Str ''''),
                  (''error'', Str (errmsg e ''Failed to add custom code''))])"

section \<open>The Resend tools\<close>

text \<open>
  Each call of the Resend client either throws or resolves to \<^verbatim>\<open>{ data, error }\<close>, where
  \<^verbatim>\<open>error\<close> is \<^verbatim>\<open>null\<close> or an \<^verbatim>\<open>ErrorResponse\<close> whose \<^verbatim>\<open>message\<close> is a string. The
  environment gives the key and what each method of the client does with its argument.
\<close>

datatype ErrorResponse = ErrorResponse (message: string)

datatype sdk_outcome = Throws exn | Resolves jsval "ErrorResponse option"

record resend =
  RESEND_API_KEY :: "string option"
  emails_send :: "jsval \<Rightarrow> sdk_outcome"
  emails_get :: "string \<Rightarrow> sdk_outcome"
  emails_list :: sdk_outcome
  batch_send :: "jsval \<Rightarrow> sdk_outcome"
  contacts_create :: "jsval \<Rightarrow> sdk_outcome"
  contacts_list :: sdk_outcome
  contacts_remove :: "jsval \<Rightarrow> sdk_outcome"
  templates_list :: "jsval \<Rightarrow> sdk_outcome"
  templates_get :: "string \<Rightarrow> sdk_outcome"

definition getClient :: "resend \<Rightarrow> exn + unit" where
  "getClient r =
     (case RESEND_API_KEY r of
        None \<Rightarrow> Inl (Error ''RESEND_API_KEY environment variable is required'')
      | Some apiKey \<Rightarrow>
          if apiKey = [] then Inl (Error ''RESEND_API_KEY environment variable is required'')
          else Inr ())"

definition await :: "sdk_outcome \<Rightarrow> exn + jsval \<times> ErrorResponse option" where
  "await c = (case c of Throws e \<Rightarrow> Inl e | Resolves d err \<Rightarrow> Inr (d, err))"

definition catchE :: "exn + jsval \<Rightarrow> (exn \<Rightarrow> jsval) \<Rightarrow> jsval" where
  "catchE m handler = (case m of Inl e \<Rightarrow> handler e | Inr v \<Rightarrow> v)"

definition optional_field :: "jsval \<Rightarrow> string \<Rightarrow> jsval" where
  \<comment> \<open>\<^verbatim>\<open>v?.k\<close>\<close>
  "optional_field v k = (if nullish v then Undefined else field v k)"

definition toStringArray :: "jsval \<Rightarrow> jsval" where
  "toStringArray v = (case v of Arr xs \<Rightarrow> Arr xs | Str s \<Rightarrow> Arr [Str s] | _ \<Rightarrow> Arr [])"

definition stringField_or :: "jsval \<Rightarrow> string \<Rightarrow> string \<Rightarrow> string \<Rightarrow> exn + jsval" where
  \<comment> \<open>\<^verbatim>\<open>getStringField(obj, snake, camel) ?? d\<close>\<close>
  "stringField_or obj snakeCase camelCase d =
     (case getStringField obj snakeCase camelCase of
        Inl e \<Rightarrow> Inl e
      | Inr r \<Rightarrow> Inr (case r of None \<Rightarrow> Str d | Some s \<Rightarrow> Str s))"

definition given :: "string \<Rightarrow> jsval option \<Rightarrow> (string \<times> jsval) list" where
  \<comment> \<open>\<^verbatim>\<open>if (x !== undefined) { params.k = x }\<close>\<close>
  "given k x = (case x of None \<Rightarrow> [] | Some v \<Rightarrow> [(k, v)])"

definition strings :: "string list \<Rightarrow> jsval" where
  "strings xs = Arr (map Str xs)"

subsection \<open>sendEmail\<close>

record sendEmail_input =
  se_from :: string
  se_to :: "string list"
  se_subject :: string
  se_html :: "string option"
  se_text :: "string option"
  se_replyTo :: "jsval option"
  se_cc :: "string list option"
  se_bcc :: "string list option"
  se_scheduledAt :: "string option"
  se_tags :: "jsval option"
  se_attachments :: "jsval option"
  se_template :: "jsval option"
  se_topicId :: "string option"

definition sendEmail_params :: "sendEmail_input \<Rightarrow> jsval" where
  "sendEmail_params i =
     Obj ([(''from'', Str (se_from i)), (''to'', strings (se_to i)),
           (''subject'', Str (se_subject i))]
          @ given ''html'' (map_option Str (se_html i))
          @ given ''text'' (map_option Str (se_text i))
          @ given ''replyTo'' (se_replyTo i)
          @ given ''cc'' (map_option strings (se_cc i))
          @ given ''bcc'' (map_option strings (se_bcc i))
          @ given ''scheduledAt'' (map_option Str (se_scheduledAt i))
          @ given ''tags'' (se_tags i)
          @ given ''attachments'' (se_attachments i)
          @ given ''template'' (se_template i)
          @ given ''topicId'' (map_option Str (se_topicId i)))"

definition sendEmail_try :: "resend \<Rightarrow> sendEmail_input \<Rightarrow> exn + jsval" where
  "sendEmail_try r i =
     bindE (getClient r) (\<lambda>client.
       bindE (await (emails_send r (sendEmail_params i))) (\<lambda>(data, error).
         case error of
           Some err \<Rightarrow> Inr (Obj [(''success'', Bool False), (''id'', Str ''''),
                                (''error'', Str (message err))])
         | None \<Rightarrow> Inr (Obj [(''success'', Bool True),
                             (''id'', coalesce (optional_field data ''id'') (Str ''''))])))"

definition sendEmail :: "resend \<Rightarrow> sendEmail_input \<Rightarrow> jsval" where
  "sendEmail r i =
     catchE (sendEmail_try r i)
       (\<lambda>e. Obj [(''success'', Bool False), (''id'', Str ''''),
                  (''error'', Str (errmsg e ''Failed to send email''))])"

subsection \<open>sendBatchEmails\<close>

definition sendBatchEmails_try :: "resend \<Rightarrow> jsval list \<Rightarrow> exn + jsval" where
  "sendBatchEmails_try r emails =
     bindE (getClient r) (\<lambda>client.
       bindE (await (batch_send r (Arr emails))) (\<lambda>(data, error).
         case error of
           Some err \<Rightarrow> Inr (Obj [(''success'', Bool False), (''ids'', Arr []),
                                (''count'', Num 0), (''error'', Str (message err))])
         | None \<Rightarrow>
             bindE (array_map ''results.map'' (\<lambda>x. getp x ''id'')
                      (coalesce (optional_field data ''data'') (Arr [])))
               (\<lambda>ids. Inr (Obj [(''success'', Bool True), (''ids'', Arr ids),
                                 (''count'', Num (int (length ids)))]))))"

definition sendBatchEmails :: "resend \<Rightarrow> jsval list \<Rightarrow> jsval" where
  "sendBatchEmails r emails =
     catchE (sendBatchEmails_try r emails)
       (\<lambda>e. Obj [(''success'', Bool False), (''ids'', Arr []), (''count'', Num 0),
                  (''error'', Str (errmsg e ''Failed to send batch emails''))])"

subsection \<open>getEmail\<close>

definition getEmail_try :: "resend \<Rightarrow> string \<Rightarrow> exn + jsval" where
  "getEmail_try r emailId =
     bindE (getClient r) (\<lambda>client.
       bindE (await (emails_get r emailId)) (\<lambda>(data, error).
         case error of
           Some err \<Rightarrow> Inr (Obj [(''success'', Bool False), (''id'', Str emailId),
                                (''error'', Str (message err))])
         | None \<Rightarrow>
             object
               [(''success'', Inr (Bool True)),
                (''id'', string_or data ''id'' (Str emailId)),
                (''from'', string_or data ''from'' (Str '''')),
                (''to'', bindE (getp data ''to'') (\<lambda>t. Inr (toStringArray t))),
                (''subject'', string_or data ''subject'' (Str '''')),
                (''lastEvent'', stringField_or data ''last_event'' ''lastEvent'' ''''),
                (''createdAt'', stringField_or data ''created_at'' ''createdAt'' '''')]))"

definition getEmail :: "resend \<Rightarrow> string \<Rightarrow> jsval" where
  "getEmail r emailId =
     catchE (getEmail_try r emailId)
       (\<lambda>e. Obj [(''success'', Bool False), (''id'', Str emailId),
                  (''error'', Str (errmsg e ''Failed to retrieve email''))])"

subsection \<open>listEmails\<close>

definition emailInfo :: "jsval \<Rightarrow> exn + jsval" where
  "emailInfo email =
     object
       [(''id'', string_or email ''id'' (Str '''')),
        (''from'', string_or email ''from'' (Str '''')),
        (''to'', bindE (getp email ''to'') (\<lambda>t. Inr (toStringArray t))),
        (''subject'', string_or email ''subject'' (Str '''')),
        (''lastEvent'', stringField_or email ''last_event'' ''lastEvent'' ''''),
        (''createdAt'', stringField_or email ''created_at'' ''createdAt'' '''')]"

definition listEmails_try :: "resend \<Rightarrow> exn + jsval" where
  "listEmails_try r =
     bindE (getClient r) (\<lambda>client.
       bindE (await (emails_list r)) (\<lambda>(data, error).
         case error of
           Some err \<Rightarrow> Inr (Obj [(''emails'', Arr []), (''count'', Num 0),
                                (''error'', Str (message err))])
         | None \<Rightarrow>
             bindE (array_map ''rawEmails.map'' emailInfo
                      (coalesce (optional_field data ''data'') (Arr [])))
               (\<lambda>emails. listing ''emails'' emails [])))"

definition listEmails :: "resend \<Rightarrow> jsval" where
  "listEmails r = catchE (listEmails_try r) (list_failure ''emails'' ''Failed to list emails'')"

subsection \<open>createContact\<close>

record createContact_input =
  cc_email :: string
  cc_firstName :: "string option"
  cc_lastName :: "string option"
  cc_unsubscribed :: "bool option"
  cc_properties :: "jsval option"
  cc_segments :: "string list option"
  cc_topics :: "jsval option"

definition createContact_params :: "createContact_input \<Rightarrow> jsval" where
  "createContact_params i =
     Obj ([(''email'', Str (cc_email i))]
          @ given ''firstName'' (map_option Str (cc_firstName i))
          @ given ''lastName'' (map_option Str (cc_lastName i))
          @ given ''unsubscribed'' (map_option Bool (cc_unsubscribed i))
          @ given ''properties'' (cc_properties i)
          @ given ''segments''
              (map_option (\<lambda>segments. Arr (map (\<lambda>id. Obj [(''id'', Str id)]) segments))
                 (cc_segments i))
          @ given ''topics'' (cc_topics i))"

definition createContact_try :: "resend \<Rightarrow> createContact_input \<Rightarrow> exn + jsval" where
  "createContact_try r i =
     bindE (getClient r) (\<lambda>client.
       bindE (await (contacts_create r (createContact_params i))) (\<lambda>(data, error).
         case error of
           Some err \<Rightarrow> Inr (Obj [(''success'', Bool False), (''id'', Str ''''),
                                (''error'', Str (message err))])
         | None \<Rightarrow> object [(''success'', Inr (Bool True)),
                            (''id'', string_or data ''id'' (Str ''''))]))"

definition createContact :: "resend \<Rightarrow> createContact_input \<Rightarrow> jsval" where
  "createContact r i =
     catchE (createContact_try r i)
       (\<lambda>e. Obj [(''success'', Bool False), (''id'', Str ''''),
                  (''error'', Str (errmsg e ''Failed to create contact''))])"

subsection \<open>listContacts\<close>

definition contactInfo :: "jsval \<Rightarrow> exn + jsval" where
  "contactInfo contact =
     object
       [(''id'', string_or contact ''id'' (Str '''')),
        (''email'', string_or contact ''email'' (Str '''')),
        (''firstName'', stringField contact ''first_name'' ''firstName''),
        (''lastName'', stringField contact ''last_name'' ''lastName''),
        (''unsubscribed'',
           bindE (getp contact ''unsubscribed'') (\<lambda>u. Inr (Boolean (coalesce u (Bool False)))))]"

definition listContacts_try :: "resend \<Rightarrow> exn + jsval" where
  "listContacts_try r =
     bindE (getClient r) (\<lambda>client.
       bindE (await (contacts_list r)) (\<lambda>(data, error).
         case error of
           Some err \<Rightarrow> Inr (Obj [(''contacts'', Arr []), (''count'', Num 0),
                                (''error'', Str (message err))])
         | None \<Rightarrow>
             bindE (array_map ''rawContacts.map'' contactInfo
                      (coalesce (optional_field data ''data'') (Arr [])))
               (\<lambda>contacts. listing ''contacts'' contacts [])))"

definition listContacts :: "resend \<Rightarrow> jsval" where
  "listContacts r =
     catchE (listContacts_try r) (list_failure ''contacts'' ''Failed to list contacts'')"

subsection \<open>removeContact\<close>

definition removeContact_try :: "resend \<Rightarrow> string \<Rightarrow> exn + jsval" where
  "removeContact_try r id' =
     bindE (getClient r) (\<lambda>client.
       bindE (await (contacts_remove r (Obj [(''id'', Str id')]))) (\<lambda>(data, error).
         case error of
           Some err \<Rightarrow> Inr (Obj [(''success'', Bool False), (''deleted'', Bool False),
                                (''id'', Str id'), (''error'', Str (message err))])
         | None \<Rightarrow>
             object
               [(''success'', Inr (Bool True)),
                (''deleted'',
                   bindE (getp data ''deleted'') (\<lambda>d. Inr (Boolean (coalesce d (Bool True))))),
                (''id'', string_or data ''id'' (Str id'))]))"

definition removeContact :: "resend \<Rightarrow> string \<Rightarrow> jsval" where
  "removeContact r id' =
     catchE (removeContact_try r id')
       (\<lambda>e. Obj [(''success'', Bool False), (''deleted'', Bool False), (''id'', Str id'),
                  (''error'', Str (errmsg e ''Failed to remove contact''))])"

subsection \<open>listTemplates\<close>

definition templateInfo :: "jsval \<Rightarrow> exn + jsval" where
  "templateInfo tmpl =
     object
       [(''id'', string_or tmpl ''id'' (Str '''')),
        (''name'', string_or tmpl ''name'' (Str '''')),
        (''alias'', string_if tmpl ''alias''),
        (''status'', string_or tmpl ''status'' (Str '''')),
        (''createdAt'', stringField tmpl ''created_at'' ''createdAt''),
        (''updatedAt'', stringField tmpl ''updated_at'' ''updatedAt''),
        (''publishedAt'', stringField tmpl ''published_at'' ''publishedAt'')]"

definition listTemplates_params :: "int option \<Rightarrow> string option \<Rightarrow> string option \<Rightarrow> jsval" where
  "listTemplates_params limit after before =
     Obj (given ''limit'' (map_option Num limit)
          @ given ''after'' (map_option Str after)
          @ given ''before'' (map_option Str before))"

definition listTemplates_try :: "resend \<Rightarrow> int option \<Rightarrow> string option \<Rightarrow> string option \<Rightarrow> exn + jsval" where
  "listTemplates_try r limit after before =
     bindE (getClient r) (\<lambda>client.
       bindE (await (templates_list r (listTemplates_params limit after before))) (\<lambda>(data, error).
         case error of
           Some err \<Rightarrow> Inr (Obj [(''templates'', Arr []), (''count'', Num 0),
                                (''error'', Str (message err))])
         | None \<Rightarrow>
             bindE (getp data ''data'') (\<lambda>d.
               bindE (array_map ''rawTemplates.map'' templateInfo (coalesce d (Arr [])))
                 (\<lambda>templates.
                   listing ''templates'' templates
                     [(''hasMore'',
                        bindE (getp data ''has_more'')
                          (\<lambda>h. Inr (Boolean (coalesce h (Bool False)))))]))))"

definition listTemplates :: "resend \<Rightarrow> int option \<Rightarrow> string option \<Rightarrow> string option \<Rightarrow> jsval" where
  "listTemplates r limit after before =
     catchE (listTemplates_try r limit after before)
       (list_failure ''templates'' ''Failed to list templates'')"

subsection \<open>getTemplate\<close>

definition variableInfo :: "jsval \<Rightarrow> exn + jsval" where
  "variableInfo v =
     object
       [(''id'', string_or v ''id'' (Str '''')),
        (''key'', string_or v ''key'' (Str '''')),
        (''type'', string_or v ''type'' (Str ''string'')),
        (''fallbackValue'', stringField v ''fallback_value'' ''fallbackValue'')]"

definition getTemplate_try :: "resend \<Rightarrow> string \<Rightarrow> exn + jsval" where
  "getTemplate_try r id' =
     bindE (getClient r) (\<lambda>client.
       bindE (await (templates_get r id')) (\<lambda>(data, error).
         case error of
           Some err \<Rightarrow> Inr (Obj [(''success'', Bool False), (''id'', Str id'),
                                (''error'', Str (message err))])
         | None \<Rightarrow>
             bindE (getp data ''variables'') (\<lambda>rawVariables.
               bindE (optional_map ''rawVariables?.map'' variableInfo rawVariables) (\<lambda>variables.
                 object
                   [(''success'', Inr (Bool True)),
                    (''id'', string_or data ''id'' (Str id')),
                    (''name'', string_if data ''name''),
                    (''alias'', string_if data ''alias''),
                    (''status'', string_if data ''status''),
                    (''from'', string_if data ''from''),
                    (''subject'', string_if data ''subject''),
                    (''replyTo'', stringField data ''reply_to'' ''replyTo''),
                    (''variables'', Inr variables),
                    (''createdAt'', stringField data ''created_at'' ''createdAt''),
                    (''updatedAt'', stringField data ''updated_at'' ''updatedAt''),
                    (''publishedAt'', stringField data ''published_at'' ''publishedAt'')]))))"

definition getTemplate :: "resend \<Rightarrow> string \<Rightarrow> jsval" where
  "getTemplate r id' =
     catchE (getTemplate_try r id')
       (\<lambda>e. Obj [(''success'', Bool False), (''id'', Str id'),
                  (''error'', Str (errmsg e ''Failed to get template''))])"

section \<open>The declared output shapes\<close>

text \<open>
  The zod schemas that the tools declare for their outputs, as far as fields go: which
  keys an object has, which of them are optional, and the shape of each value.
\<close>

datatype schema =
    SString
  | SNumber
  | SBoolean
  | SUnknown
  | SArray schema
  | SRecord schema
  | SObject "(string \<times> bool \<times> schema) list"

definition required :: "string \<Rightarrow> schema \<Rightarrow> string \<times> bool \<times> schema" where
  "required k s = (k, True, s)"

definition optional :: "string \<Rightarrow> schema \<Rightarrow> string \<times> bool \<times> schema" where
  \<comment> \<open>\<^verbatim>\<open>s.optional()\<close>\<close>
  "optional k s = (k, False, s)"

subsection \<open>Webflow\<close>

definition DomainSchema :: schema where
  \<comment> \<open>the element of \<^verbatim>\<open>customDomains\<close> and of \<^verbatim>\<open>publishedDomains\<close>\<close>
  "DomainSchema = SObject [required ''id'' SString, required ''url'' SString]"

definition SiteInfoSchema :: schema where
  "SiteInfoSchema =
     SObject [required ''id'' SString, required ''displayName'' SString,
              required ''shortName'' SString, optional ''lastPublished'' SString,
              optional ''lastUpdated'' SString, optional ''previewUrl'' SString,
              optional ''timeZone'' SString, optional ''customDomains'' (SArray DomainSchema)]"

definition ListSitesResultSchema :: schema where
  "ListSitesResultSchema =
     SObject [required ''sites'' (SArray SiteInfoSchema), required ''count'' SNumber,
              optional ''error'' SString]"

definition PublishSiteResultSchema :: schema where
  "PublishSiteResultSchema =
     SObject [required ''success'' SBoolean, optional ''publishedDomains'' (SArray DomainSchema),
              optional ''error'' SString]"

definition PageInfoSchema :: schema where
  "PageInfoSchema =
     SObject [required ''id'' SString, required ''title'' SString, required ''slug'' SString,
              optional ''archived'' SBoolean, optional ''draft'' SBoolean,
              optional ''createdOn'' SString, optional ''lastUpdated'' SString,
              optional ''publishedPath'' SString,
              optional ''seo'' (SObject [optional ''title'' SString,
                                         optional ''description'' SString])]"

definition PaginationSchema :: schema where
  \<comment> \<open>written out in each of the four list results\<close>
  "PaginationSchema =
     SObject [required ''limit'' SNumber, required ''offset'' SNumber, required ''total'' SNumber]"

definition ListPagesResultSchema :: schema where
  "ListPagesResultSchema =
     SObject [required ''pages'' (SArray PageInfoSchema), required ''count'' SNumber,
              optional ''pagination'' PaginationSchema, optional ''error'' SString]"

definition FormInfoSchema :: schema where
  "FormInfoSchema =
     SObject [required ''id'' SString, required ''displayName'' SString,
              optional ''pageId'' SString, optional ''pageName'' SString,
              optional ''formElementId'' SString,
              optional ''fields'' (SRecord (SObject [optional ''displayName'' SString,
                                                     optional ''type'' SString])),
              optional ''createdOn'' SString, optional ''lastUpdated'' SString]"

definition ListFormsResultSchema :: schema where
  "ListFormsResultSchema =
     SObject [required ''forms'' (SArray FormInfoSchema), required ''count'' SNumber,
              optional ''pagination'' PaginationSchema, optional ''error'' SString]"

definition FormSubmissionSchema :: schema where
  "FormSubmissionSchema =
     SObject [required ''id'' SString, optional ''displayName'' SString,
              optional ''dateSubmitted'' SString, optional ''formResponse'' (SRecord SUnknown)]"

definition ListFormSubmissionsResultSchema :: schema where
  "ListFormSubmissionsResultSchema =
     SObject [required ''formSubmissions'' (SArray FormSubmissionSchema),
              required ''count'' SNumber, optional ''pagination'' PaginationSchema,
              optional ''error'' SString]"

definition CustomCodeBlockSchema :: schema where
  "CustomCodeBlockSchema =
     SObject [required ''siteId'' SString, optional ''pageId'' SString, optional ''type'' SString,
              required ''scripts''
                (SArray (SObject [required ''id'' SString, required ''location'' SString,
                                  required ''version'' SString])),
              optional ''createdOn'' SString, optional ''lastUpdated'' SString]"

definition ListCustomCodeResultSchema :: schema where
  "ListCustomCodeResultSchema =
     SObject [required ''blocks'' (SArray CustomCodeBlockSchema), required ''count'' SNumber,
              optional ''pagination'' PaginationSchema, optional ''error'' SString]"

definition AddCustomCodeResultSchema :: schema where
  "AddCustomCodeResultSchema =
     SObject [required ''success'' SBoolean, required ''scriptId'' SString,
              optional ''appliedTo'' SString, optional ''error'' SString]"

subsection \<open>Resend\<close>

definition SendResultSchema :: schema where
  "SendResultSchema =
     SObject [required ''success'' SBoolean, required ''id'' SString, optional ''error'' SString]"

definition BatchSendResultSchema :: schema where
  "BatchSendResultSchema =
     SObject [required ''success'' SBoolean, required ''ids'' (SArray SString),
              required ''count'' SNumber, optional ''error'' SString]"

definition EmailInfoSchema :: schema where
  "EmailInfoSchema =
     SObject [required ''id'' SString, required ''from'' SString,
              required ''to'' (SArray SString), required ''subject'' SString,
              optional ''lastEvent'' SString, optional ''createdAt'' SString]"

definition GetEmailResultSchema :: schema where
  "GetEmailResultSchema =
     SObject [required ''success'' SBoolean, required ''id'' SString, optional ''from'' SString,
              optional ''to'' (SArray SString), optional ''subject'' SString,
              optional ''lastEvent'' SString, optional ''createdAt'' SString,
              optional ''error'' SString]"

definition ListEmailsResultSchema :: schema where
  "ListEmailsResultSchema =
     SObject [required ''emails'' (SArray EmailInfoSchema), required ''count'' SNumber,
              optional ''error'' SString]"

definition CreateContactResultSchema :: schema where
  "CreateContactResultSchema =
     SObject [required ''success'' SBoolean, required ''id'' SString, optional ''error'' SString]"

definition ContactInfoSchema :: schema where
  "ContactInfoSchema =
     SObject [required ''id'' SString, required ''email'' SString,
              optional ''firstName'' SString, optional ''lastName'' SString,
              required ''unsubscribed'' SBoolean]"

definition ListContactsResultSchema :: schema where
  "ListContactsResultSchema =
     SObject [required ''contacts'' (SArray ContactInfoSchema), required ''count'' SNumber,
              optional ''error'' SString]"

definition RemoveContactResultSchema :: schema where
  "RemoveContactResultSchema =
     SObject [required ''success'' SBoolean, required ''deleted'' SBoolean,
              required ''id'' SString, optional ''error'' SString]"

definition TemplateVariableSchema :: schema where
  "TemplateVariableSchema =
     SObject [required ''id'' SString, required ''key'' SString, required ''type'' SString,
              optional ''fallbackValue'' SString]"

definition TemplateInfoSchema :: schema where
  "TemplateInfoSchema =
     SObject [required ''id'' SString, required ''name'' SString, optional ''alias'' SString,
              required ''status'' SString, optional ''createdAt'' SString,
              optional ''updatedAt'' SString, optional ''publishedAt'' SString]"

definition GetTemplateResultSchema :: schema where
  "GetTemplateResultSchema =
     SObject [required ''success'' SBoolean, required ''id'' SString, optional ''name'' SString,
              optional ''alias'' SString, optional ''status'' SString, optional ''from'' SString,
              optional ''subject'' SString, optional ''replyTo'' SString,
              optional ''variables'' (SArray TemplateVariableSchema),
              optional ''createdAt'' SString, optional ''updatedAt'' SString,
              optional ''publishedAt'' SString, optional ''error'' SString]"

definition ListTemplatesResultSchema :: schema where
  "ListTemplatesResultSchema =
     SObject [required ''templates'' (SArray TemplateInfoSchema), required ''count'' SNumber,
              optional ''hasMore'' SBoolean, optional ''error'' SString]"

subsection \<open>Populated fields\<close>

text \<open>
  A value has the required fields of a shape populated when every required key of every
  object in it is there (its value is not \<^verbatim>\<open>undefined\<close>), down through arrays, records
  and the fields that are present. A leaf is not looked into.
\<close>

fun populated :: "schema \<Rightarrow> jsval \<Rightarrow> bool"
  and populated_fields :: "(string \<times> bool \<times> schema) list \<Rightarrow> jsval \<Rightarrow> bool"
  and populated_all :: "schema \<Rightarrow> jsval list \<Rightarrow> bool"
  and populated_values :: "schema \<Rightarrow> (string \<times> jsval) list \<Rightarrow> bool"
where
  "populated (SObject fs) v = (case v of Obj kvs \<Rightarrow> populated_fields fs v | _ \<Rightarrow> False)"
| "populated (SArray s) v = (case v of Arr xs \<Rightarrow> populated_all s xs | _ \<Rightarrow> False)"
| "populated (SRecord s) v = (case v of Obj kvs \<Rightarrow> populated_values s kvs | _ \<Rightarrow> True)"
| "populated SString v = True"
| "populated SNumber v = True"
| "populated SBoolean v = True"
| "populated SUnknown v = True"
| "populated_fields [] v = True"
| "populated_fields ((k, req, s) # fs) v =
     ((if field v k = Undefined then \<not> req else populated s (field v k))
      \<and> populated_fields fs v)"
| "populated_all s [] = True"
| "populated_all s (x # xs) = (populated s x \<and> populated_all s xs)"
| "populated_values s [] = True"
| "populated_values s ((k, x) # kvs) = (populated s x \<and> populated_values s kvs)"

definition optional_keys :: "schema \<Rightarrow> string list" where
  "optional_keys s =
     (case s of SObject fs \<Rightarrow> map fst (filter (\<lambda>f. \<not> fst (snd f)) fs) | _ \<Rightarrow> [])"

text \<open>
  \<open>from_upstream sources raw out\<close>: each field of \<open>out\<close> that \<open>sources\<close> lists is
  absent unless the raw record \<open>raw\<close> has a truthy value under one of the keys listed
  for it.
\<close>

definition from_upstream :: "(string \<times> string list) list \<Rightarrow> jsval \<Rightarrow> jsval \<Rightarrow> bool" where
  "from_upstream sources raw out =
     list_all (\<lambda>(k, ks). field out k = Undefined \<or> list_ex (\<lambda>s. truthy (field raw s)) ks)
       sources"

text \<open>
  \<open>projected f raws items\<close>: \<open>items\<close> is the array of the records that the projection
  \<open>f\<close> returns on the elements of the array \<open>raws\<close>, one for one.
\<close>

definition projected :: "(jsval \<Rightarrow> exn + jsval) \<Rightarrow> jsval \<Rightarrow> jsval \<Rightarrow> bool" where
  "projected f raws items =
     (case raws of
        Arr xs \<Rightarrow> (case items of Arr ys \<Rightarrow> list_all2 (\<lambda>x y. f x = Inr y) xs ys | _ \<Rightarrow> False)
      | _ \<Rightarrow> False)"

section \<open>Observations and test doubles\<close>

definition keys :: "jsval \<Rightarrow> string list" where
  \<comment> \<open>\<^verbatim>\<open>Object.keys\<close>\<close>
  "keys v = map fst (entries v)"

text \<open>
  The doubles of the test suites: a network that answers the \<open>n\<close>-th request with the
  \<open>n\<close>-th prepared response, under the environment the tests stub, and a network that
  is never reached.
\<close>

definition mockApiResponse :: "jsval \<Rightarrow> string \<Rightarrow> bool \<Rightarrow> nat \<Rightarrow> response" where
  "mockApiResponse v t success code =
     \<lparr> ok = success, status = code, resp_text = Inr t, resp_json = Inr v \<rparr>"

definition mockFetch :: "response list \<Rightarrow> nat \<Rightarrow> request \<Rightarrow> fetch_outcome" where
  "mockFetch rs n req = (if n < length rs then Responds (rs ! n) else Rejects NonError)"

definition stubEnv :: "response list \<Rightarrow> webflow" where
  "stubEnv rs =
     \<lparr> WEBFLOW_API_KEY = Some ''test-api-key'', WEBFLOW_SITE_ID = Some ''test-site-id'',
       fetch = mockFetch rs \<rparr>"

definition unreachable :: "nat \<Rightarrow> request \<Rightarrow> fetch_outcome" where
  "unreachable n req = Rejects NonError"

definition offline :: webflow where
  "offline = \<lparr> WEBFLOW_API_KEY = None, WEBFLOW_SITE_ID = None, fetch = unreachable \<rparr>"

definition is_pagination :: "jsval \<Rightarrow> bool" where
  \<comment> \<open>an object \<^verbatim>\<open>{limit, offset, total}\<close> of numbers\<close>
  "is_pagination p =
     (case p of
        Obj kvs \<Rightarrow> map fst kvs = [''limit'', ''offset'', ''total'']
                   \<and> is_number (field p ''limit'') \<and> is_number (field p ''offset'')
                   \<and> is_number (field p ''total'')
      | _ \<Rightarrow> False)"


definition nonnumeric :: "string \<Rightarrow> int option" where
  \<comment> \<open>a stand-in for \<^verbatim>\<open>StringToNumber\<close> that reads the empty string as 0 and nothing
      else as a number\<close>
  "nonnumeric s = (if s = [] then Some 0 else None)"

text \<open>A Resend client whose every method has the same outcome, under the key the tests stub.\<close>

definition mockResend :: "sdk_outcome \<Rightarrow> resend" where
  "mockResend c =
     \<lparr> RESEND_API_KEY = Some ''test-api-key'',
       emails_send = (\<lambda>params. c), emails_get = (\<lambda>emailId. c), emails_list = c,
       batch_send = (\<lambda>emails. c), contacts_create = (\<lambda>params. c), contacts_list = c,
       contacts_remove = (\<lambda>params. c), templates_list = (\<lambda>params. c),
       templates_get = (\<lambda>t. c) \<rparr>"







definition john :: createContact_input where
  "john =
     \<lparr> cc_email = ''john@example.com'', cc_firstName = Some ''John'', cc_lastName = Some ''Doe'',
       cc_unsubscribed = None, cc_properties = None, cc_segments = None, cc_topics = None \<rparr>"


text \<open>Upstream records for the doubles, and a Webflow response that carries one of each.\<close>

definition raw_domain :: jsval where
  "raw_domain = Obj [(''id'', Str ''dom-1''), (''url'', Str ''example.com'')]"

definition raw_site :: jsval where
  "raw_site =
     Obj [(''id'', Str ''site-1''), (''displayName'', Str ''My Site''),
          (''shortName'', Str ''my-site''), (''lastPublished'', Str ''2025-01-01T00:00:00Z''),
          (''customDomains'', Arr [raw_domain])]"

definition raw_page :: jsval where
  "raw_page =
     Obj [(''id'', Str ''page-1''), (''title'', Str ''Home''), (''slug'', Str ''home''),
          (''draft'', Bool True), (''archived'', Bool False),
          (''seo'', Obj [(''title'', Str ''Home Page'')])]"

definition raw_form :: jsval where
  "raw_form =
     Obj [(''id'', Str ''form-1''), (''displayName'', Str ''Contact Form''),
          (''pageId'', Str ''page-1''),
          (''fields'', Obj [(''field-1'', Obj [(''displayName'', Str ''Name''),
                                               (''type'', Str ''Plain'')])])]"

definition raw_submission :: jsval where
  "raw_submission =
     Obj [(''id'', Str ''sub-1''), (''displayName'', Str ''Contact Form''),
          (''dateSubmitted'', Str ''2025-01-15T12:00:00Z''),
          (''formResponse'', Obj [(''name'', Str ''Alice'')])]"

definition raw_block :: jsval where
  "raw_block =
     Obj [(''siteId'', Str ''site-1''), (''type'', Str ''site''),
          (''scripts'', Arr [Obj [(''id'', Str ''script-1''), (''location'', Str ''header''),
                                  (''version'', Str ''1.0.0'')]])]"

definition one_of_each :: jsval where
  "one_of_each =
     Obj [(''sites'', Arr [raw_site]), (''pages'', Arr [raw_page]), (''forms'', Arr [raw_form]),
          (''formSubmissions'', Arr [raw_submission]), (''blocks'', Arr [raw_block]),
          (''customDomains'', Arr [raw_domain]),
          (''pagination'', Obj [(''limit'', Num 100), (''offset'', Num 0), (''total'', Num 1)])]"

definition populous :: webflow where
  "populous = stubEnv [mockApiResponse one_of_each [] True 200]"

definition raw_contact :: jsval where
  "raw_contact =
     Obj [(''id'', Str ''contact-1''), (''email'', Str ''john@example.com''),
          (''first_name'', Str ''John''), (''unsubscribed'', Bool False)]"

definition raw_template :: jsval where
  "raw_template =
     Obj [(''id'', Str ''template-1''), (''name'', Str ''Welcome Email''),
          (''alias'', Str ''welcome''), (''status'', Str ''published''),
          (''created_at'', Str ''2024-01-01T00:00:00.000Z''),
          (''variables'', Arr [Obj [(''key'', Str ''company''), (''type'', Str ''string''),
                                    (''fallback_value'', Str ''Acme'')]])]"

definition raw_email :: jsval where
  "raw_email =
     Obj [(''id'', Str ''email-1''), (''from'', Str ''hello@example.com''),
          (''to'', Arr [Str ''user1@example.com'']), (''subject'', Str ''Email 1'')]"

definition raw_variable :: jsval where
  "raw_variable =
     Obj [(''key'', Str ''company''), (''type'', Str ''string''),
          (''fallback_value'', Str ''Acme'')]"

section \<open>Properties\<close>

subsection \<open>The transport helper\<close>

text \<open>A call makes at most one request, and none unless it goes on to \<^verbatim>\<open>fetch\<close>.\<close>

lemma callApi_calls:
  "callApi w path m b ps calls = (r, calls') \<Longrightarrow>
     calls' = calls \<or>
     (\<exists>req. calls' = calls @ [req] \<and> url req = BASE_URL @ path
        \<and> http_method req = (case m of None \<Rightarrow> GET | Some x \<Rightarrow> x) \<and> body req = b)"
  by (auto simp: callApi_def Let_def split: sum.splits fetch_outcome.splits if_splits option.splits)

lemma callApi_Inr:
  "callApi w path m b ps calls = (Inr v, calls') \<Longrightarrow>
     \<exists>req. calls' = calls @ [req] \<and> url req = BASE_URL @ path
        \<and> http_method req = (case m of None \<Rightarrow> GET | Some x \<Rightarrow> x) \<and> body req = b"
  by (auto simp: callApi_def Let_def split: sum.splits fetch_outcome.splits if_splits option.splits)

subsection \<open>When a computation returns\<close>

lemma bindE_Inr_iff: "bindE m f = Inr y \<longleftrightarrow> (\<exists>x. m = Inr x \<and> f x = Inr y)"
  by (cases m) (simp_all add: bindE_def)

lemma getp_Inr_iff: "getp v k = Inr x \<longleftrightarrow> \<not> nullish v \<and> x = field v k"
  by (auto simp: getp_def)

lemma props_Cons_Inr_iff:
  "props ((k, c) # fs) = Inr kvs \<longleftrightarrow> (\<exists>v r. c = Inr v \<and> props fs = Inr r \<and> kvs = (k, v) # r)"
  by (auto split: sum.splits)

lemma props_Nil_Inr_iff: "props [] = Inr kvs \<longleftrightarrow> kvs = []"
  by auto

declare props.simps [simp del]

lemma object_Inr_iff: "object fs = Inr v \<longleftrightarrow> (\<exists>kvs. props fs = Inr kvs \<and> v = Obj kvs)"
  by (auto simp: object_def split: sum.splits)

lemma bindIO_Inr_iff:
  "bindIO m f calls = (Inr y, calls'') \<longleftrightarrow>
     (\<exists>x calls'. m calls = (Inr x, calls') \<and> f x calls' = (Inr y, calls''))"
  by (auto simp: bindIO_def split: prod.splits sum.splits)

lemma lift_Inr_iff: "lift r calls = (Inr x, calls') \<longleftrightarrow> r = Inr x \<and> calls' = calls"
  by (auto simp: lift_def)

lemma array_map_Inr_iff:
  "array_map what f v = Inr ys \<longleftrightarrow> (\<exists>xs. v = Arr xs \<and> mapE f xs = Inr ys)"
  by (cases v) (auto simp: array_map_def)

lemma listing_Inr_iff:
  "listing key items rest = Inr out \<longleftrightarrow>
     (\<exists>kvs. props rest = Inr kvs
        \<and> out = Obj ((key, Arr items) # (''count'', Num (int (length items))) # kvs))"
  by (auto simp: listing_def object_Inr_iff props_Cons_Inr_iff)

lemmas returns = bindIO_Inr_iff lift_Inr_iff bindE_Inr_iff getp_Inr_iff listing_Inr_iff
  object_Inr_iff props_Cons_Inr_iff props_Nil_Inr_iff

lemma callApi_first:
  assumes "fetch w 0 = (\<lambda>req. Responds r)" "ok r" "resp_json r = Inr response"
    and "callApi w path m b ps [] = (Inr v, calls)"
  shows "v = response"
  using assms by (auto simp: callApi_def Let_def split: sum.splits)

text \<open>What a list tool has done when its \<^verbatim>\<open>try\<close> block returns.\<close>

lemma listSites_try_Inr:
  assumes "listSites_try w [] = (Inr out, calls)"
  shows "\<exists>response sites.
           callApi w ''/sites'' None None None [] = (Inr response, calls) \<and>
           \<not> nullish response \<and>
           array_map ''rawSites.map'' siteInfo (coalesce (field response ''sites'') (Arr []))
             = Inr sites \<and>
           out = Obj [(''sites'', Arr sites), (''count'', Num (int (length sites)))]"
  using assms by (auto simp: listSites_try_def returns)

lemma listPages_try_Inr:
  assumes "listPages_try w s2n siteId limit offset [] = (Inr out, calls)"
  shows "\<exists>resolvedSiteId response pages p.
           resolveSiteId w siteId = Inr resolvedSiteId \<and>
           callApi w (''/sites/'' @ resolvedSiteId @ ''/pages'') None None
             (Some [(''limit'', number_param limit), (''offset'', number_param offset)]) []
             = (Inr response, calls) \<and>
           \<not> nullish response \<and>
           array_map ''rawPages.map'' pageInfo (coalesce (field response ''pages'') (Arr []))
             = Inr pages \<and>
           paginationInfo s2n (field response ''pagination'') = Inr p \<and>
           out = Obj [(''pages'', Arr pages), (''count'', Num (int (length pages))),
                      (''pagination'', p)]"
  using assms by (auto simp: listPages_try_def returns)

lemma listForms_try_Inr:
  assumes "listForms_try w s2n siteId limit offset [] = (Inr out, calls)"
  shows "\<exists>resolvedSiteId response forms p.
           resolveSiteId w siteId = Inr resolvedSiteId \<and>
           callApi w (''/sites/'' @ resolvedSiteId @ ''/forms'') None None
             (Some [(''limit'', number_param limit), (''offset'', number_param offset)]) []
             = (Inr response, calls) \<and>
           \<not> nullish response \<and>
           array_map ''rawForms.map'' formInfo (coalesce (field response ''forms'') (Arr []))
             = Inr forms \<and>
           paginationInfo s2n (field response ''pagination'') = Inr p \<and>
           out = Obj [(''forms'', Arr forms), (''count'', Num (int (length forms))),
                      (''pagination'', p)]"
  using assms by (auto simp: listForms_try_def returns)

lemma listFormSubmissions_try_Inr:
  assumes "listFormSubmissions_try w s2n siteId elementId limit offset [] = (Inr out, calls)"
  shows "\<exists>resolvedSiteId response formSubmissions p.
           resolveSiteId w siteId = Inr resolvedSiteId \<and>
           callApi w (''/sites/'' @ resolvedSiteId @ ''/form_submissions'') None None
             (Some [(''elementId'', of_opt elementId),
                    (''limit'', number_param limit), (''offset'', number_param offset)]) []
             = (Inr response, calls) \<and>
           \<not> nullish response \<and>
           array_map ''rawSubmissions.map'' submissionInfo
             (coalesce (field response ''formSubmissions'') (Arr [])) = Inr formSubmissions \<and>
           paginationInfo s2n (field response ''pagination'') = Inr p \<and>
           out = Obj [(''formSubmissions'', Arr formSubmissions),
                      (''count'', Num (int (length formSubmissions))), (''pagination'', p)]"
  using assms by (auto simp: listFormSubmissions_try_def returns)

lemma listCustomCode_try_Inr:
  assumes "listCustomCode_try w s2n siteId limit offset [] = (Inr out, calls)"
  shows "\<exists>resolvedSiteId response blocks p.
           resolveSiteId w siteId = Inr resolvedSiteId \<and>
           callApi w (''/sites/'' @ resolvedSiteId @ ''/custom_code/blocks'') None None
             (Some [(''limit'', number_param limit), (''offset'', number_param offset)]) []
             = (Inr response, calls) \<and>
           \<not> nullish response \<and>
           array_map ''rawBlocks.map'' blockInfo (coalesce (field response ''blocks'') (Arr []))
             = Inr blocks \<and>
           paginationInfo s2n (field response ''pagination'') = Inr p \<and>
           out = Obj [(''blocks'', Arr blocks), (''count'', Num (int (length blocks))),
                      (''pagination'', p)]"
  using assms by (auto simp: listCustomCode_try_def returns)

lemma Number_is_number: "Number s2n v = Inr n \<Longrightarrow> is_number n"
  by (cases v)
     (auto simp: Number_def is_number_def of_number_def split: sum.splits option.splits if_splits)

lemma number_or_is_number: "number_or s2n p k d = Inr n \<Longrightarrow> is_number n"
  by (auto simp: number_or_def bindE_Inr_iff dest: Number_is_number)

lemma paginationInfo_echo:
  "paginationInfo s2n p = Inr v \<Longrightarrow> (if truthy p then is_pagination v else v = Undefined)"
  by (auto simp: paginationInfo_def is_pagination_def object_Inr_iff props_Cons_Inr_iff
        props_Nil_Inr_iff dest: number_or_is_number split: if_splits)

text \<open>The equations that evaluate a tool on a concrete environment.\<close>

lemmas run_webflow = catch_def bindIO_def lift_def return_def bindE_def callApi_def getApiKey_def
  resolveSiteId_def getDefaultSiteId_def BASE_URL_def stubEnv_def mockFetch_def
  mockApiResponse_def number_param_def of_opt_def

lemmas run_values = getp_def nullish_def coalesce_def truthy_def object_def props.simps
  listing_def array_map_def optional_map_def array_def string_or_def string_if_def
  boolean_if_def Boolean_def String_def stringField_def getStringField_def template_def
  paginationInfo_def number_or_def Number_def of_number_def is_number_def

subsection \<open>When a call of the Resend client returns\<close>

lemma sdk_call_Inr_iff:
  "bindE (getClient r)
     (\<lambda>client. bindE (await c)
        (\<lambda>(data, error). case error of None \<Rightarrow> G data | Some err \<Rightarrow> Inr (F err))) = Inr out
   \<longleftrightarrow> getClient r = Inr () \<and>
       (\<exists>data. (\<exists>err. c = Resolves data (Some err) \<and> out = F err)
              \<or> (c = Resolves data None \<and> G data = Inr out))"
  by (cases c) (auto simp: bindE_def await_def split: sum.splits option.splits)

lemma String_Inr_iff: "String v = Inr x \<longleftrightarrow> (\<exists>s. ToString v = Inr s \<and> x = Str s)"
  by (auto simp: String_def split: sum.splits)

lemma string_or_Str: "string_or raw k d = Inr v \<Longrightarrow> \<exists>s. v = Str s"
  by (auto simp: string_or_def String_Inr_iff bindE_Inr_iff)

lemma removeContact_try_Inr:
  assumes "removeContact_try r id' = Inr out"
  shows "(\<exists>data err. contacts_remove r (Obj [(''id'', Str id')]) = Resolves data (Some err) \<and>
            out = Obj [(''success'', Bool False), (''deleted'', Bool False), (''id'', Str id'),
                       (''error'', Str (message err))]) \<or>
         (\<exists>data i. contacts_remove r (Obj [(''id'', Str id')]) = Resolves data None \<and>
            \<not> nullish data \<and> string_or data ''id'' (Str id') = Inr i \<and>
            out = Obj [(''success'', Bool True),
                       (''deleted'', Boolean (coalesce (field data ''deleted'') (Bool True))),
                       (''id'', i)])"
  using assms unfolding removeContact_try_def sdk_call_Inr_iff
  by (auto simp: returns)

lemma mockResend_simps:
  "RESEND_API_KEY (mockResend c) = Some ''test-api-key''"
  "emails_send (mockResend c) x = c" "emails_get (mockResend c) y = c"
  "emails_list (mockResend c) = c" "batch_send (mockResend c) x = c"
  "contacts_create (mockResend c) x = c" "contacts_list (mockResend c) = c"
  "contacts_remove (mockResend c) x = c" "templates_list (mockResend c) x = c"
  "templates_get (mockResend c) y = c"
  by (simp_all add: mockResend_def)

lemma getClient_mockResend: "getClient (mockResend c) = Inr ()"
  by (simp add: getClient_def mockResend_simps)

lemmas run_resend = catchE_def bindE_def await_def getClient_mockResend mockResend_simps

subsection \<open>Failures of the Webflow API\<close>





subsection \<open>What the projections populate\<close>

lemma string_or_defined: "string_or raw k d = Inr v \<Longrightarrow> v \<noteq> Undefined"
  by (auto dest: string_or_Str)

lemma string_if_upstream: "string_if raw k = Inr v \<Longrightarrow> v = Undefined \<or> truthy (field raw k)"
  by (auto simp: string_if_def bindE_Inr_iff getp_Inr_iff split: if_splits)

lemma boolean_if_upstream: "boolean_if raw k = Inr v \<Longrightarrow> v = Undefined \<or> truthy (field raw k)"
  by (auto simp: boolean_if_def bindE_Inr_iff getp_Inr_iff split: if_splits)

lemma getStringField_upstream:
  "getStringField raw s c = Inr (Some x) \<Longrightarrow> truthy (field raw s) \<or> truthy (field raw c)"
  by (auto simp: getStringField_def bindE_Inr_iff getp_Inr_iff split: if_splits sum.splits)

lemma stringField_upstream:
  "stringField raw s c = Inr v \<Longrightarrow> v = Undefined \<or> truthy (field raw s) \<or> truthy (field raw c)"
  by (auto simp: stringField_def of_opt_def split: sum.splits option.splits
           dest: getStringField_upstream)

lemma mapE_populated:
  assumes "mapE f xs = Inr ys" "\<And>x y. f x = Inr y \<Longrightarrow> populated S y"
  shows "populated_all S ys"
  using assms by (induction xs arbitrary: ys) (auto split: sum.splits)

lemma array_map_populated:
  assumes "array_map what f v = Inr ys" "\<And>x y. f x = Inr y \<Longrightarrow> populated S y"
  shows "populated_all S ys"
  using assms by (auto simp: array_map_Inr_iff intro: mapE_populated)

lemma array_Inr_iff: "array r = Inr v \<longleftrightarrow> (\<exists>xs. r = Inr xs \<and> v = Arr xs)"
  by (auto simp: array_def split: sum.splits)

lemma optional_map_populated:
  assumes "optional_map what f v = Inr out" "\<And>x y. f x = Inr y \<Longrightarrow> populated S y"
  shows "out = Undefined \<or> populated (SArray S) out"
proof (cases "nullish v")
  case True
  with assms(1) show ?thesis by (simp add: optional_map_def)
next
  case False
  with assms(1) obtain ys where "array_map what f v = Inr ys" "out = Arr ys"
    by (auto simp: optional_map_def array_Inr_iff)
  with array_map_populated [OF _ assms(2)] show ?thesis by simp
qed

lemma optional_map_upstream:
  "optional_map what f v = Inr out \<Longrightarrow> out = Undefined \<or> truthy v"
  by (auto simp: optional_map_def array_Inr_iff array_map_Inr_iff truthy_def split: if_splits)

lemma domainInfo_populated: "domainInfo d = Inr out \<Longrightarrow> populated DomainSchema out"
  by (auto simp: domainInfo_def DomainSchema_def required_def returns dest!: string_or_defined)

lemma siteInfo_populated:
  assumes "siteInfo raw = Inr out"
  shows "populated SiteInfoSchema out"
proof -
  from assms obtain a b c d e f g h i j where
    out: "out = Obj [(''id'', a), (''displayName'', b), (''shortName'', c),
                     (''lastPublished'', d), (''lastUpdated'', e), (''previewUrl'', f),
                     (''timeZone'', g), (''designerUrl'', h), (''settingsUrl'', i),
                     (''customDomains'', j)]"
    and req: "string_or raw ''id'' (Str '''') = Inr a"
      "string_or raw ''displayName'' (Str '''') = Inr b"
      "string_or raw ''shortName'' (Str '''') = Inr c"
    and doms: "optional_map ''domains?.map'' domainInfo (field raw ''customDomains'') = Inr j"
    by (auto simp: siteInfo_def returns)
  from req have "a \<noteq> Undefined" "b \<noteq> Undefined" "c \<noteq> Undefined"
    by (auto dest: string_or_defined)
  moreover from optional_map_populated [OF doms domainInfo_populated]
  have "j = Undefined \<or> populated (SArray DomainSchema) j" by simp
  ultimately show ?thesis
    unfolding out by (auto simp: SiteInfoSchema_def required_def optional_def)
qed

lemma siteInfo_upstream:
  assumes "siteInfo raw = Inr out"
  shows "from_upstream
           [(''lastPublished'', [''last_published'', ''lastPublished'']),
            (''lastUpdated'', [''last_updated'', ''lastUpdated'']),
            (''previewUrl'', [''previewUrl'']), (''timeZone'', [''timeZone'']),
            (''customDomains'', [''customDomains''])] raw out"
proof -
  from assms obtain a b c d e f g h i j where
    out: "out = Obj [(''id'', a), (''displayName'', b), (''shortName'', c),
                     (''lastPublished'', d), (''lastUpdated'', e), (''previewUrl'', f),
                     (''timeZone'', g), (''designerUrl'', h), (''settingsUrl'', i),
                     (''customDomains'', j)]"
    and opt: "stringField raw ''last_published'' ''lastPublished'' = Inr d"
      "stringField raw ''last_updated'' ''lastUpdated'' = Inr e"
      "string_if raw ''previewUrl'' = Inr f" "string_if raw ''timeZone'' = Inr g"
      "optional_map ''domains?.map'' domainInfo (field raw ''customDomains'') = Inr j"
    by (auto simp: siteInfo_def returns)
  from opt show ?thesis
    unfolding out
    by (auto simp: from_upstream_def
          dest: stringField_upstream string_if_upstream optional_map_upstream)
qed

lemma populated_all_leaf:
  "populated_all SString xs" "populated_all SNumber xs" "populated_all SBoolean xs"
  "populated_all SUnknown xs"
  by (induction xs) simp_all

lemma populated_values_leaf:
  "populated_values SString kvs" "populated_values SUnknown kvs"
  by (induction kvs) auto

lemma toStringArray_populated: "populated (SArray SString) (toStringArray v)"
  by (cases v) (simp_all add: toStringArray_def populated_all_leaf)

lemma stringField_or_defined: "stringField_or raw s c d = Inr v \<Longrightarrow> v \<noteq> Undefined"
  by (auto simp: stringField_or_def split: sum.splits option.splits)

lemma pageInfo_populated:
  assumes "pageInfo page = Inr out"
  shows "populated PageInfoSchema out"
    and "from_upstream
           [(''archived'', [''archived'']), (''draft'', [''draft'']),
            (''createdOn'', [''created_on'', ''createdOn'']),
            (''lastUpdated'', [''last_updated'', ''lastUpdated'']),
            (''publishedPath'', [''publishedPath'']), (''seo'', [''seo''])] page out"
    and "field out ''seo'' = Undefined \<or>
         from_upstream [(''title'', [''title'']), (''description'', [''description''])]
           (field page ''seo'') (field out ''seo'')"
proof -
  from assms obtain a b c d e f g h i where
    out: "out = Obj [(''id'', a), (''title'', b), (''slug'', c), (''archived'', d),
                     (''draft'', e), (''createdOn'', f), (''lastUpdated'', g),
                     (''publishedPath'', h), (''seo'', i)]"
    and req: "string_or page ''id'' (Str '''') = Inr a" "string_or page ''title'' (Str '''') = Inr b"
      "string_or page ''slug'' (Str '''') = Inr c"
    and opt: "boolean_if page ''archived'' = Inr d" "boolean_if page ''draft'' = Inr e"
      "stringField page ''created_on'' ''createdOn'' = Inr f"
      "stringField page ''last_updated'' ''lastUpdated'' = Inr g"
      "string_if page ''publishedPath'' = Inr h"
    and seo: "(if truthy (field page ''seo'')
               then object [(''title'', string_if (field page ''seo'') ''title''),
                            (''description'', string_if (field page ''seo'') ''description'')]
               else Inr Undefined) = Inr i"
    by (auto simp: pageInfo_def returns)
  from req have defined: "a \<noteq> Undefined" "b \<noteq> Undefined" "c \<noteq> Undefined"
    by (auto dest: string_or_defined)
  from seo have i: "i = Undefined \<and> \<not> truthy (field page ''seo'') \<or>
      truthy (field page ''seo'') \<and>
      (\<exists>x y. i = Obj [(''title'', x), (''description'', y)]
         \<and> string_if (field page ''seo'') ''title'' = Inr x
         \<and> string_if (field page ''seo'') ''description'' = Inr y)"
    by (auto simp: returns split: if_splits)
  from defined i show "populated PageInfoSchema out"
    unfolding out by (auto simp: PageInfoSchema_def required_def optional_def)
  from opt i show "from_upstream
           [(''archived'', [''archived'']), (''draft'', [''draft'']),
            (''createdOn'', [''created_on'', ''createdOn'']),
            (''lastUpdated'', [''last_updated'', ''lastUpdated'']),
            (''publishedPath'', [''publishedPath'']), (''seo'', [''seo''])] page out"
    unfolding out
    by (auto simp: from_upstream_def
          dest: stringField_upstream string_if_upstream boolean_if_upstream)
  from i show "field out ''seo'' = Undefined \<or>
         from_upstream [(''title'', [''title'']), (''description'', [''description''])]
           (field page ''seo'') (field out ''seo'')"
    unfolding out by (auto simp: from_upstream_def dest: string_if_upstream)
qed

lemma submissionInfo_populated:
  assumes "submissionInfo submission = Inr out"
  shows "populated FormSubmissionSchema out"
    and "from_upstream
           [(''displayName'', [''displayName'']),
            (''dateSubmitted'', [''date_submitted'', ''dateSubmitted''])] submission out"
proof -
  from assms obtain a b c d where
    out: "out = Obj [(''id'', a), (''displayName'', b), (''dateSubmitted'', c),
                     (''formResponse'', d)]"
    and req: "string_or submission ''id'' (Str '''') = Inr a"
    and opt: "string_if submission ''displayName'' = Inr b"
      "stringField submission ''date_submitted'' ''dateSubmitted'' = Inr c"
    by (auto simp: submissionInfo_def returns)
  from req have "a \<noteq> Undefined" by (auto dest: string_or_defined)
  then show "populated FormSubmissionSchema out"
    unfolding out
    by (auto simp: FormSubmissionSchema_def required_def optional_def populated_values_leaf
             split: jsval.splits)
  from opt show "from_upstream
           [(''displayName'', [''displayName'']),
            (''dateSubmitted'', [''date_submitted'', ''dateSubmitted''])] submission out"
    unfolding out by (auto simp: from_upstream_def dest: stringField_upstream string_if_upstream)
qed

lemma scriptInfo_populated:
  "scriptInfo script = Inr out \<Longrightarrow>
     populated (SObject [required ''id'' SString, required ''location'' SString,
                         required ''version'' SString]) out"
  by (auto simp: scriptInfo_def required_def returns dest!: string_or_defined)

lemma blockInfo_populated:
  assumes "blockInfo block = Inr out"
  shows "populated CustomCodeBlockSchema out"
    and "from_upstream
           [(''pageId'', [''pageId'']), (''type'', [''type'']),
            (''createdOn'', [''created_on'', ''createdOn'']),
            (''lastUpdated'', [''last_updated'', ''lastUpdated''])] block out"
proof -
  from assms obtain a b c d e f where
    out: "out = Obj [(''siteId'', a), (''pageId'', b), (''type'', c), (''scripts'', d),
                     (''createdOn'', e), (''lastUpdated'', f)]"
    and req: "string_or block ''siteId'' (Str '''') = Inr a"
      "array (array_map ''rawScripts.map'' scriptInfo
                (coalesce (field block ''scripts'') (Arr []))) = Inr d"
    and opt: "string_if block ''pageId'' = Inr b" "string_if block ''type'' = Inr c"
      "stringField block ''created_on'' ''createdOn'' = Inr e"
      "stringField block ''last_updated'' ''lastUpdated'' = Inr f"
    by (auto simp: blockInfo_def returns)
  from req(1) have a: "a \<noteq> Undefined" by (auto dest: string_or_defined)
  from req(2) obtain ys where ys: "d = Arr ys"
      "array_map ''rawScripts.map'' scriptInfo (coalesce (field block ''scripts'') (Arr [])) = Inr ys"
    by (auto simp: array_Inr_iff)
  from array_map_populated [OF ys(2) scriptInfo_populated]
  have "populated_all (SObject [required ''id'' SString, required ''location'' SString,
                         required ''version'' SString]) ys" by simp
  with a ys(1) show "populated CustomCodeBlockSchema out"
    unfolding out by (simp add: CustomCodeBlockSchema_def required_def optional_def)
  from opt show "from_upstream
           [(''pageId'', [''pageId'']), (''type'', [''type'']),
            (''createdOn'', [''created_on'', ''createdOn'']),
            (''lastUpdated'', [''last_updated'', ''lastUpdated''])] block out"
    unfolding out by (auto simp: from_upstream_def dest: stringField_upstream string_if_upstream)
qed

lemma emailInfo_populated:
  assumes "emailInfo email = Inr out"
  shows "populated EmailInfoSchema out"
proof -
  from assms obtain a b c d e f where
    out: "out = Obj [(''id'', a), (''from'', b), (''to'', c), (''subject'', d),
                     (''lastEvent'', e), (''createdAt'', f)]"
    and req: "string_or email ''id'' (Str '''') = Inr a" "string_or email ''from'' (Str '''') = Inr b"
      "c = toStringArray (field email ''to'')" "string_or email ''subject'' (Str '''') = Inr d"
    by (auto simp: emailInfo_def returns)
  from req have "a \<noteq> Undefined" "b \<noteq> Undefined" "d \<noteq> Undefined"
    by (auto dest: string_or_defined)
  moreover have "c \<noteq> Undefined" "populated (SArray SString) c"
    unfolding req(3) by (cases "field email ''to''"; simp add: toStringArray_def populated_all_leaf)+
  ultimately show ?thesis
    unfolding out by (simp add: EmailInfoSchema_def required_def optional_def)
qed

lemma contactInfo_populated:
  assumes "contactInfo contact = Inr out"
  shows "populated ContactInfoSchema out"
    and "from_upstream
           [(''firstName'', [''first_name'', ''firstName'']),
            (''lastName'', [''last_name'', ''lastName''])] contact out"
proof -
  from assms obtain a b c d e where
    out: "out = Obj [(''id'', a), (''email'', b), (''firstName'', c), (''lastName'', d),
                     (''unsubscribed'', e)]"
    and req: "string_or contact ''id'' (Str '''') = Inr a"
      "string_or contact ''email'' (Str '''') = Inr b"
      "e = Boolean (coalesce (field contact ''unsubscribed'') (Bool False))"
    and opt: "stringField contact ''first_name'' ''firstName'' = Inr c"
      "stringField contact ''last_name'' ''lastName'' = Inr d"
    by (auto simp: contactInfo_def returns)
  from req have "a \<noteq> Undefined" "b \<noteq> Undefined" "e \<noteq> Undefined"
    by (auto dest: string_or_defined simp: Boolean_def)
  then show "populated ContactInfoSchema out"
    unfolding out by (simp add: ContactInfoSchema_def required_def optional_def)
  from opt show "from_upstream
           [(''firstName'', [''first_name'', ''firstName'']),
            (''lastName'', [''last_name'', ''lastName''])] contact out"
    unfolding out by (auto simp: from_upstream_def dest: stringField_upstream)
qed

lemma templateInfo_populated:
  assumes "templateInfo tmpl = Inr out"
  shows "populated TemplateInfoSchema out"
    and "from_upstream
           [(''alias'', [''alias'']), (''createdAt'', [''created_at'', ''createdAt'']),
            (''updatedAt'', [''updated_at'', ''updatedAt'']),
            (''publishedAt'', [''published_at'', ''publishedAt''])] tmpl out"
proof -
  from assms obtain a b c d e f g where
    out: "out = Obj [(''id'', a), (''name'', b), (''alias'', c), (''status'', d),
                     (''createdAt'', e), (''updatedAt'', f), (''publishedAt'', g)]"
    and req: "string_or tmpl ''id'' (Str '''') = Inr a" "string_or tmpl ''name'' (Str '''') = Inr b"
      "string_or tmpl ''status'' (Str '''') = Inr d"
    and opt: "string_if tmpl ''alias'' = Inr c"
      "stringField tmpl ''created_at'' ''createdAt'' = Inr e"
      "stringField tmpl ''updated_at'' ''updatedAt'' = Inr f"
      "stringField tmpl ''published_at'' ''publishedAt'' = Inr g"
    by (auto simp: templateInfo_def returns)
  from req have "a \<noteq> Undefined" "b \<noteq> Undefined" "d \<noteq> Undefined"
    by (auto dest: string_or_defined)
  then show "populated TemplateInfoSchema out"
    unfolding out by (simp add: TemplateInfoSchema_def required_def optional_def)
  from opt show "from_upstream
           [(''alias'', [''alias'']), (''createdAt'', [''created_at'', ''createdAt'']),
            (''updatedAt'', [''updated_at'', ''updatedAt'']),
            (''publishedAt'', [''published_at'', ''publishedAt''])] tmpl out"
    unfolding out by (auto simp: from_upstream_def dest: stringField_upstream string_if_upstream)
qed

lemma variableInfo_populated:
  assumes "variableInfo v = Inr out"
  shows "populated TemplateVariableSchema out"
    and "from_upstream [(''fallbackValue'', [''fallback_value'', ''fallbackValue''])] v out"
proof -
  from assms obtain a b c d where
    out: "out = Obj [(''id'', a), (''key'', b), (''type'', c), (''fallbackValue'', d)]"
    and req: "string_or v ''id'' (Str '''') = Inr a" "string_or v ''key'' (Str '''') = Inr b"
      "string_or v ''type'' (Str ''string'') = Inr c"
    and opt: "stringField v ''fallback_value'' ''fallbackValue'' = Inr d"
    by (auto simp: variableInfo_def returns)
  from req have "a \<noteq> Undefined" "b \<noteq> Undefined" "c \<noteq> Undefined"
    by (auto dest: string_or_defined)
  then show "populated TemplateVariableSchema out"
    unfolding out by (simp add: TemplateVariableSchema_def required_def optional_def)
  from opt show "from_upstream [(''fallbackValue'', [''fallback_value'', ''fallbackValue''])] v out"
    unfolding out by (auto simp: from_upstream_def dest: stringField_upstream)
qed

lemma fieldInfo_Inr:
  assumes "fieldInfo v = Inr f"
  shows "populated (SObject [optional ''displayName'' SString, optional ''type'' SString]) f"
    and "from_upstream [(''displayName'', [''displayName'']), (''type'', [''type''])] v f"
proof -
  from assms obtain a b where f: "f = Obj [(''displayName'', a), (''type'', b)]"
    and opt: "string_if v ''displayName'' = Inr a" "string_if v ''type'' = Inr b"
    by (auto simp: fieldInfo_def returns)
  show "populated (SObject [optional ''displayName'' SString, optional ''type'' SString]) f"
    unfolding f by (simp add: optional_def)
  from opt show "from_upstream [(''displayName'', [''displayName'']), (''type'', [''type''])] v f"
    unfolding f by (auto simp: from_upstream_def dest: string_if_upstream)
qed

lemma set_assign: "set (assign k f acc) \<subseteq> insert (k, f) (set acc)"
  by (induction acc) (auto split: if_splits)

lemma parseFormFields_loop_entries:
  assumes "parseFormFields_loop es acc = Inr flds"
    and "\<forall>(k, f) \<in> set acc. Q k f"
    and "\<forall>(k, v) \<in> set es. \<forall>f. fieldInfo v = Inr f \<longrightarrow> Q k f"
  shows "\<forall>(k, f) \<in> set flds. Q k f"
  using assms
proof (induction es arbitrary: acc)
  case Nil
  then show ?case by simp
next
  case (Cons e es)
  obtain k v where e: "e = (k, v)" by (cases e)
  from Cons.prems(1) obtain f where f: "fieldInfo v = Inr f"
    and rest: "parseFormFields_loop es (assign k f acc) = Inr flds"
    unfolding e by (auto split: sum.splits)
  from Cons.prems(3) f have "Q k f" unfolding e by auto
  with Cons.prems(2) set_assign [of k f acc]
  have "\<forall>(k, f) \<in> set (assign k f acc). Q k f" by auto
  moreover from Cons.prems(3) have "\<forall>(k, v) \<in> set es. \<forall>f. fieldInfo v = Inr f \<longrightarrow> Q k f"
    by auto
  ultimately show ?case using Cons.IH [OF rest] by blast
qed

lemma populated_values_all:
  "(\<forall>(k, f) \<in> set kvs. populated S f) \<Longrightarrow> populated_values S kvs"
  by (induction kvs) auto

lemma parseFormFields_Inr:
  assumes "parseFormFields rawFields = Inr v"
  shows "v = Undefined \<or> truthy rawFields"
    and "v = Undefined \<or>
         populated (SRecord (SObject [optional ''displayName'' SString,
                                      optional ''type'' SString])) v"
    and "\<forall>(k, f) \<in> set (entries v).
           \<exists>x. (k, x) \<in> set (entries rawFields) \<and>
               from_upstream [(''displayName'', [''displayName'']), (''type'', [''type''])] x f"
proof -
  from assms show "v = Undefined \<or> truthy rawFields"
    by (auto simp: parseFormFields_def split: if_splits)
  show "v = Undefined \<or>
         populated (SRecord (SObject [optional ''displayName'' SString,
                                      optional ''type'' SString])) v"
  proof (cases "v = Undefined")
    case False
    with assms obtain flds where l: "parseFormFields_loop (entries rawFields) [] = Inr flds"
      and v: "v = Obj flds"
      by (auto simp: parseFormFields_def split: if_splits sum.splits)
    have "\<forall>(k, f) \<in> set flds.
            populated (SObject [optional ''displayName'' SString, optional ''type'' SString]) f"
      by (rule parseFormFields_loop_entries [OF l]) (auto dest: fieldInfo_Inr(1))
    then show ?thesis unfolding v by (simp add: populated_values_all)
  qed simp
  show "\<forall>(k, f) \<in> set (entries v).
           \<exists>x. (k, x) \<in> set (entries rawFields) \<and>
               from_upstream [(''displayName'', [''displayName'']), (''type'', [''type''])] x f"
  proof (cases "v = Undefined")
    case True
    then show ?thesis by (simp add: entries_def)
  next
    case False
    with assms obtain flds where l: "parseFormFields_loop (entries rawFields) [] = Inr flds"
      and v: "v = Obj flds"
      by (auto simp: parseFormFields_def split: if_splits sum.splits)
    have "\<forall>(k, f) \<in> set flds.
            \<exists>x. (k, x) \<in> set (entries rawFields) \<and>
               from_upstream [(''displayName'', [''displayName'']), (''type'', [''type''])] x f"
      by (rule parseFormFields_loop_entries [OF l]) (auto dest: fieldInfo_Inr(2))
    then show ?thesis unfolding v by (simp add: entries_def)
  qed
qed

lemma formInfo_populated:
  assumes "formInfo form = Inr out"
  shows "populated FormInfoSchema out"
    and "from_upstream
           [(''pageId'', [''pageId'']), (''pageName'', [''pageName'']),
            (''formElementId'', [''form_element_id'', ''formElementId'']),
            (''fields'', [''fields'']),
            (''createdOn'', [''created_on'', ''createdOn'']),
            (''lastUpdated'', [''last_updated'', ''lastUpdated''])] form out"
    and "\<forall>(k, f) \<in> set (entries (field out ''fields'')).
           \<exists>x. (k, x) \<in> set (entries (field form ''fields'')) \<and>
               from_upstream [(''displayName'', [''displayName'']), (''type'', [''type''])] x f"
proof -
  from assms obtain a b c d e f g h where
    out: "out = Obj [(''id'', a), (''displayName'', b), (''pageId'', c), (''pageName'', d),
                     (''formElementId'', e), (''fields'', f), (''createdOn'', g),
                     (''lastUpdated'', h)]"
    and req: "string_or form ''id'' (Str '''') = Inr a"
      "string_or form ''displayName'' (Str '''') = Inr b"
    and opt: "string_if form ''pageId'' = Inr c" "string_if form ''pageName'' = Inr d"
      "stringField form ''form_element_id'' ''formElementId'' = Inr e"
      "stringField form ''created_on'' ''createdOn'' = Inr g"
      "stringField form ''last_updated'' ''lastUpdated'' = Inr h"
    and flds: "parseFormFields (field form ''fields'') = Inr f"
    by (auto simp: formInfo_def returns)
  from req have "a \<noteq> Undefined" "b \<noteq> Undefined" by (auto dest: string_or_defined)
  with parseFormFields_Inr(2) [OF flds] show "populated FormInfoSchema out"
    unfolding out by (auto simp: FormInfoSchema_def required_def optional_def)
  from opt parseFormFields_Inr(1) [OF flds] show "from_upstream
           [(''pageId'', [''pageId'']), (''pageName'', [''pageName'']),
            (''formElementId'', [''form_element_id'', ''formElementId'']),
            (''fields'', [''fields'']),
            (''createdOn'', [''created_on'', ''createdOn'']),
            (''lastUpdated'', [''last_updated'', ''lastUpdated''])] form out"
    unfolding out by (auto simp: from_upstream_def dest: stringField_upstream string_if_upstream)
  from parseFormFields_Inr(3) [OF flds]
  show "\<forall>(k, f) \<in> set (entries (field out ''fields'')).
           \<exists>x. (k, x) \<in> set (entries (field form ''fields'')) \<and>
               from_upstream [(''displayName'', [''displayName'']), (''type'', [''type''])] x f"
    unfolding out by simp
qed

subsection \<open>What the tools populate\<close>

lemma catch_cases:
  obtains (raised) e calls where "m [] = (Inl e, calls)" "catch m h = (h e, calls)"
  | (returned) out calls where "m [] = (Inr out, calls)" "catch m h = (out, calls)"
proof (cases "m []")
  case (Pair res calls)
  then show ?thesis by (cases res) (auto simp: catch_def intro: raised returned)
qed

lemma catchE_cases:
  obtains (raised) e where "m = Inl e" "catchE m h = h e"
  | (returned) out where "m = Inr out" "catchE m h = out"
  by (cases m) (auto simp: catchE_def)

lemma is_pagination_populated: "is_pagination v \<Longrightarrow> populated PaginationSchema v"
  by (cases v) (auto simp: is_pagination_def PaginationSchema_def required_def is_number_def
        split: jsval.splits option.splits)

lemma paginationInfo_populated:
  "paginationInfo s2n p = Inr v \<Longrightarrow> v = Undefined \<or> populated PaginationSchema v"
  by (auto dest!: paginationInfo_echo is_pagination_populated split: if_splits)

lemma paginationInfo_upstream:
  "paginationInfo s2n p = Inr v \<Longrightarrow> v = Undefined \<or> truthy p"
  by (auto dest!: paginationInfo_echo split: if_splits)

lemma coalesce_defined: "d \<noteq> Undefined \<Longrightarrow> coalesce x d \<noteq> Undefined"
  by (auto simp: coalesce_def nullish_def)

lemma listSites_populated: "populated ListSitesResultSchema (fst (listSites w))"
proof (cases "listSites_try w" "list_failure ''sites'' ''Failed to list sites''" rule: catch_cases)
  case (raised e calls)
  then show ?thesis
    by (simp add: listSites_def ListSitesResultSchema_def list_failure_def required_def optional_def)
next
  case (returned out calls)
  from listSites_try_Inr [OF returned(1)] obtain response sites where
    s: "array_map ''rawSites.map'' siteInfo (coalesce (field response ''sites'') (Arr [])) = Inr sites"
    and out: "out = Obj [(''sites'', Arr sites), (''count'', Num (int (length sites)))]"
    by blast
  from array_map_populated [OF s siteInfo_populated] returned(2) show ?thesis
    unfolding out by (simp add: listSites_def ListSitesResultSchema_def required_def optional_def)
qed

lemma publishSite_try_Inr:
  assumes "publishSite_try w siteId customDomains publishToWebflowSubdomain [] = (Inr out, calls)"
  shows "\<exists>resolvedSiteId response j.
           resolveSiteId w siteId = Inr resolvedSiteId \<and>
           callApi w (''/sites/'' @ resolvedSiteId @ ''/publish'') (Some POST)
             (Some (publishSite_body customDomains publishToWebflowSubdomain)) None []
             = (Inr response, calls) \<and>
           \<not> nullish response \<and>
           optional_map ''domains?.map'' domainInfo (field response ''customDomains'') = Inr j \<and>
           out = Obj [(''success'', Bool True), (''publishedDomains'', j)]"
  using assms by (auto simp: publishSite_try_def returns)

lemma publishSite_populated:
  "populated PublishSiteResultSchema
     (fst (publishSite w siteId customDomains publishToWebflowSubdomain))"
proof (cases "publishSite_try w siteId customDomains publishToWebflowSubdomain"
         "\<lambda>e. Obj [(''success'', Bool False), (''error'', Str (errmsg e ''Failed to publish site''))]"
         rule: catch_cases)
  case (raised e calls)
  then show ?thesis
    by (simp add: publishSite_def PublishSiteResultSchema_def required_def optional_def)
next
  case (returned out calls)
  from publishSite_try_Inr [OF returned(1)] obtain response j where
    j: "optional_map ''domains?.map'' domainInfo (field response ''customDomains'') = Inr j"
    and out: "out = Obj [(''success'', Bool True), (''publishedDomains'', j)]"
    by blast
  from optional_map_populated [OF j domainInfo_populated] returned(2) show ?thesis
    unfolding out by (auto simp: publishSite_def PublishSiteResultSchema_def required_def optional_def)
qed

lemma listPages_populated:
  "populated ListPagesResultSchema (fst (listPages w s2n siteId limit offset))"
proof (cases "listPages_try w s2n siteId limit offset"
         "list_failure ''pages'' ''Failed to list pages''" rule: catch_cases)
  case (raised e calls)
  then show ?thesis
    by (simp add: listPages_def ListPagesResultSchema_def list_failure_def required_def optional_def)
next
  case (returned out calls)
  from listPages_try_Inr [OF returned(1)] obtain response pages p where
    s: "array_map ''rawPages.map'' pageInfo (coalesce (field response ''pages'') (Arr [])) = Inr pages"
    and p: "paginationInfo s2n (field response ''pagination'') = Inr p"
    and out: "out = Obj [(''pages'', Arr pages), (''count'', Num (int (length pages))),
                         (''pagination'', p)]"
    by blast
  from array_map_populated [OF s pageInfo_populated(1)] paginationInfo_populated [OF p] returned(2)
  show ?thesis
    unfolding out by (auto simp: listPages_def ListPagesResultSchema_def required_def optional_def)
qed

lemma listForms_populated:
  "populated ListFormsResultSchema (fst (listForms w s2n siteId limit offset))"
proof (cases "listForms_try w s2n siteId limit offset"
         "list_failure ''forms'' ''Failed to list forms''" rule: catch_cases)
  case (raised e calls)
  then show ?thesis
    by (simp add: listForms_def ListFormsResultSchema_def list_failure_def required_def optional_def)
next
  case (returned out calls)
  from listForms_try_Inr [OF returned(1)] obtain response forms p where
    s: "array_map ''rawForms.map'' formInfo (coalesce (field response ''forms'') (Arr [])) = Inr forms"
    and p: "paginationInfo s2n (field response ''pagination'') = Inr p"
    and out: "out = Obj [(''forms'', Arr forms), (''count'', Num (int (length forms))),
                         (''pagination'', p)]"
    by blast
  from array_map_populated [OF s formInfo_populated(1)] paginationInfo_populated [OF p] returned(2)
  show ?thesis
    unfolding out by (auto simp: listForms_def ListFormsResultSchema_def required_def optional_def)
qed

lemma listFormSubmissions_populated:
  "populated ListFormSubmissionsResultSchema
     (fst (listFormSubmissions w s2n siteId elementId limit offset))"
proof (cases "listFormSubmissions_try w s2n siteId elementId limit offset"
         "list_failure ''formSubmissions'' ''Failed to list form submissions''" rule: catch_cases)
  case (raised e calls)
  then show ?thesis
    by (simp add: listFormSubmissions_def ListFormSubmissionsResultSchema_def list_failure_def required_def optional_def)
next
  case (returned out calls)
  from listFormSubmissions_try_Inr [OF returned(1)] obtain response formSubmissions p where
    s: "array_map ''rawSubmissions.map'' submissionInfo
          (coalesce (field response ''formSubmissions'') (Arr [])) = Inr formSubmissions"
    and p: "paginationInfo s2n (field response ''pagination'') = Inr p"
    and out: "out = Obj [(''formSubmissions'', Arr formSubmissions),
                         (''count'', Num (int (length formSubmissions))), (''pagination'', p)]"
    by blast
  from array_map_populated [OF s submissionInfo_populated(1)] paginationInfo_populated [OF p]
    returned(2)
  show ?thesis
    unfolding out by (auto simp: listFormSubmissions_def ListFormSubmissionsResultSchema_def required_def optional_def)
qed

lemma listCustomCode_populated:
  "populated ListCustomCodeResultSchema (fst (listCustomCode w s2n siteId limit offset))"
proof (cases "listCustomCode_try w s2n siteId limit offset"
         "list_failure ''blocks'' ''Failed to list custom code''" rule: catch_cases)
  case (raised e calls)
  then show ?thesis
    by (simp add: listCustomCode_def ListCustomCodeResultSchema_def list_failure_def required_def optional_def)
next
  case (returned out calls)
  from listCustomCode_try_Inr [OF returned(1)] obtain response blocks p where
    s: "array_map ''rawBlocks.map'' blockInfo (coalesce (field response ''blocks'') (Arr []))
          = Inr blocks"
    and p: "paginationInfo s2n (field response ''pagination'') = Inr p"
    and out: "out = Obj [(''blocks'', Arr blocks), (''count'', Num (int (length blocks))),
                         (''pagination'', p)]"
    by blast
  from array_map_populated [OF s blockInfo_populated(1)] paginationInfo_populated [OF p] returned(2)
  show ?thesis
    unfolding out by (auto simp: listCustomCode_def ListCustomCodeResultSchema_def required_def optional_def)
qed

lemma addCustomCode_try_Inr:
  assumes "addCustomCode_try w siteId target pageId sourceCode displayName version location []
             = (Inr out, calls)"
  shows "\<exists>b s k m. out = Obj [(''success'', Bool b), (''scriptId'', Str s), (k, Str m)]
           \<and> (k = ''error'' \<or> k = ''appliedTo'')"
  using assms
  by (auto simp: addCustomCode_try_def return_def returns split: if_splits)

lemma addCustomCode_populated:
  "populated AddCustomCodeResultSchema
     (fst (addCustomCode w siteId target pageId sourceCode displayName version location))"
proof (cases "addCustomCode_try w siteId target pageId sourceCode displayName version location"
         "\<lambda>e. Obj [(''success'', Bool False), (''scriptId'', Str ''''),
                    (''error'', Str (errmsg e ''Failed to add custom code''))]"
         rule: catch_cases)
  case (raised e calls)
  then show ?thesis
    by (simp add: addCustomCode_def AddCustomCodeResultSchema_def required_def optional_def)
next
  case (returned out calls)
  from addCustomCode_try_Inr [OF returned(1)] returned(2) show ?thesis
    by (auto simp: addCustomCode_def AddCustomCodeResultSchema_def required_def optional_def)
qed

lemma sendEmail_populated: "populated SendResultSchema (sendEmail r i)"
proof (cases "sendEmail_try r i"
         "\<lambda>e. Obj [(''success'', Bool False), (''id'', Str ''''),
                    (''error'', Str (errmsg e ''Failed to send email''))]" rule: catchE_cases)
  case (raised e)
  then show ?thesis
    by (simp add: sendEmail_def SendResultSchema_def required_def optional_def)
next
  case (returned out)
  from returned(1) have "(\<exists>err. out = Obj [(''success'', Bool False), (''id'', Str ''''),
                                           (''error'', Str (message err))]) \<or>
      (\<exists>data. out = Obj [(''success'', Bool True),
                          (''id'', coalesce (optional_field data ''id'') (Str ''''))])"
    unfolding sendEmail_try_def sdk_call_Inr_iff by auto
  with returned(2) show ?thesis
    by (auto simp: sendEmail_def SendResultSchema_def required_def optional_def coalesce_defined)
qed

lemma sendBatchEmails_populated: "populated BatchSendResultSchema (sendBatchEmails r emails)"
proof (cases "sendBatchEmails_try r emails"
         "\<lambda>e. Obj [(''success'', Bool False), (''ids'', Arr []), (''count'', Num 0),
                    (''error'', Str (errmsg e ''Failed to send batch emails''))]"
         rule: catchE_cases)
  case (raised e)
  then show ?thesis
    by (simp add: sendBatchEmails_def BatchSendResultSchema_def required_def optional_def)
next
  case (returned out)
  from returned(1) have "(\<exists>err. out = Obj [(''success'', Bool False), (''ids'', Arr []),
                                           (''count'', Num 0), (''error'', Str (message err))]) \<or>
      (\<exists>ids. out = Obj [(''success'', Bool True), (''ids'', Arr ids),
                         (''count'', Num (int (length ids)))])"
    unfolding sendBatchEmails_try_def sdk_call_Inr_iff by (auto simp: returns)
  with returned(2) show ?thesis
    by (auto simp: sendBatchEmails_def BatchSendResultSchema_def required_def optional_def
          populated_all_leaf)
qed

lemma getEmail_populated: "populated GetEmailResultSchema (getEmail r emailId)"
proof (cases "getEmail_try r emailId"
         "\<lambda>e. Obj [(''success'', Bool False), (''id'', Str emailId),
                    (''error'', Str (errmsg e ''Failed to retrieve email''))]" rule: catchE_cases)
  case (raised e)
  then show ?thesis
    by (simp add: getEmail_def GetEmailResultSchema_def required_def optional_def)
next
  case (returned out)
  from returned(1) have "(\<exists>err. out = Obj [(''success'', Bool False), (''id'', Str emailId),
                                           (''error'', Str (message err))]) \<or>
      (\<exists>data a b d e f. string_or data ''id'' (Str emailId) = Inr a \<and>
         out = Obj [(''success'', Bool True), (''id'', a), (''from'', b),
                    (''to'', toStringArray (field data ''to'')), (''subject'', d),
                    (''lastEvent'', e), (''createdAt'', f)])"
    unfolding getEmail_try_def sdk_call_Inr_iff by (auto simp: returns)
  with returned(2) toStringArray_populated show ?thesis
    by (auto simp: getEmail_def GetEmailResultSchema_def required_def optional_def
          dest: string_or_defined)
qed

lemma listEmails_populated: "populated ListEmailsResultSchema (listEmails r)"
proof (cases "listEmails_try r" "list_failure ''emails'' ''Failed to list emails''"
         rule: catchE_cases)
  case (raised e)
  then show ?thesis
    by (simp add: listEmails_def ListEmailsResultSchema_def list_failure_def required_def
          optional_def)
next
  case (returned out)
  from returned(1) have "(\<exists>err. out = Obj [(''emails'', Arr []), (''count'', Num 0),
                                           (''error'', Str (message err))]) \<or>
      (\<exists>data emails.
         array_map ''rawEmails.map'' emailInfo (coalesce (optional_field data ''data'') (Arr []))
           = Inr emails \<and>
         out = Obj [(''emails'', Arr emails), (''count'', Num (int (length emails)))])"
    unfolding listEmails_try_def sdk_call_Inr_iff by (auto simp: returns)
  with returned(2) show ?thesis
    by (auto simp: listEmails_def ListEmailsResultSchema_def required_def optional_def
          dest: array_map_populated [OF _ emailInfo_populated])
qed

lemma createContact_populated: "populated CreateContactResultSchema (createContact r c)"
proof (cases "createContact_try r c"
         "\<lambda>e. Obj [(''success'', Bool False), (''id'', Str ''''),
                    (''error'', Str (errmsg e ''Failed to create contact''))]" rule: catchE_cases)
  case (raised e)
  then show ?thesis
    by (simp add: createContact_def CreateContactResultSchema_def required_def optional_def)
next
  case (returned out)
  from returned(1) have "(\<exists>err. out = Obj [(''success'', Bool False), (''id'', Str ''''),
                                           (''error'', Str (message err))]) \<or>
      (\<exists>data a. string_or data ''id'' (Str '''') = Inr a \<and>
         out = Obj [(''success'', Bool True), (''id'', a)])"
    unfolding createContact_try_def sdk_call_Inr_iff by (auto simp: returns)
  with returned(2) show ?thesis
    by (auto simp: createContact_def CreateContactResultSchema_def required_def optional_def
          dest: string_or_defined)
qed

lemma listContacts_populated: "populated ListContactsResultSchema (listContacts r)"
proof (cases "listContacts_try r" "list_failure ''contacts'' ''Failed to list contacts''"
         rule: catchE_cases)
  case (raised e)
  then show ?thesis
    by (simp add: listContacts_def ListContactsResultSchema_def list_failure_def required_def
          optional_def)
next
  case (returned out)
  from returned(1) have "(\<exists>err. out = Obj [(''contacts'', Arr []), (''count'', Num 0),
                                           (''error'', Str (message err))]) \<or>
      (\<exists>data contacts.
         array_map ''rawContacts.map'' contactInfo
           (coalesce (optional_field data ''data'') (Arr [])) = Inr contacts \<and>
         out = Obj [(''contacts'', Arr contacts), (''count'', Num (int (length contacts)))])"
    unfolding listContacts_try_def sdk_call_Inr_iff by (auto simp: returns)
  with returned(2) show ?thesis
    by (auto simp: listContacts_def ListContactsResultSchema_def required_def optional_def
          dest: array_map_populated [OF _ contactInfo_populated(1)])
qed

lemma removeContact_populated: "populated RemoveContactResultSchema (removeContact r id')"
proof (cases "removeContact_try r id'"
         "\<lambda>e. Obj [(''success'', Bool False), (''deleted'', Bool False), (''id'', Str id'),
                    (''error'', Str (errmsg e ''Failed to remove contact''))]" rule: catchE_cases)
  case (raised e)
  then show ?thesis
    by (simp add: removeContact_def RemoveContactResultSchema_def required_def optional_def)
next
  case (returned out)
  from removeContact_try_Inr [OF returned(1)] returned(2) show ?thesis
    by (auto simp: removeContact_def RemoveContactResultSchema_def required_def optional_def
          Boolean_def dest: string_or_defined)
qed

lemma listTemplates_try_Inr:
  assumes "listTemplates_try r lim after before = Inr out"
  shows "(\<exists>data err.
            templates_list r (listTemplates_params lim after before) = Resolves data (Some err) \<and>
            out = Obj [(''templates'', Arr []), (''count'', Num 0),
                       (''error'', Str (message err))]) \<or>
         (\<exists>data templates.
            templates_list r (listTemplates_params lim after before) = Resolves data None \<and>
            \<not> nullish data \<and>
            array_map ''rawTemplates.map'' templateInfo (coalesce (field data ''data'') (Arr []))
              = Inr templates \<and>
            out = Obj [(''templates'', Arr templates), (''count'', Num (int (length templates))),
                       (''hasMore'', Boolean (coalesce (field data ''has_more'') (Bool False)))])"
  using assms unfolding listTemplates_try_def sdk_call_Inr_iff by (auto simp: returns)

lemma listTemplates_populated:
  "populated ListTemplatesResultSchema (listTemplates r lim after before)"
proof (cases "listTemplates_try r lim after before"
         "list_failure ''templates'' ''Failed to list templates''" rule: catchE_cases)
  case (raised e)
  then show ?thesis
    by (simp add: listTemplates_def ListTemplatesResultSchema_def list_failure_def required_def
          optional_def)
next
  case (returned out)
  from listTemplates_try_Inr [OF returned(1)] returned(2) show ?thesis
    by (auto simp: listTemplates_def ListTemplatesResultSchema_def required_def optional_def
          Boolean_def dest: array_map_populated [OF _ templateInfo_populated(1)])
qed

lemma getTemplate_try_Inr:
  assumes "getTemplate_try r id' = Inr out"
  shows "(\<exists>data err.
            templates_get r id' = Resolves data (Some err) \<and>
            out = Obj [(''success'', Bool False), (''id'', Str id'),
                       (''error'', Str (message err))]) \<or>
         (\<exists>data a b c d e f g h i j k.
            templates_get r id' = Resolves data None \<and>
            \<not> nullish data \<and>
            optional_map ''rawVariables?.map'' variableInfo (field data ''variables'') = Inr h \<and>
            string_or data ''id'' (Str id') = Inr a \<and>
            string_if data ''name'' = Inr b \<and> string_if data ''alias'' = Inr c \<and>
            string_if data ''status'' = Inr d \<and> string_if data ''from'' = Inr e \<and>
            string_if data ''subject'' = Inr f \<and>
            stringField data ''reply_to'' ''replyTo'' = Inr g \<and>
            stringField data ''created_at'' ''createdAt'' = Inr i \<and>
            stringField data ''updated_at'' ''updatedAt'' = Inr j \<and>
            stringField data ''published_at'' ''publishedAt'' = Inr k \<and>
            out = Obj [(''success'', Bool True), (''id'', a), (''name'', b), (''alias'', c),
                       (''status'', d), (''from'', e), (''subject'', f), (''replyTo'', g),
                       (''variables'', h), (''createdAt'', i), (''updatedAt'', j),
                       (''publishedAt'', k)])"
  using assms unfolding getTemplate_try_def sdk_call_Inr_iff by (auto simp: returns)

lemma getTemplate_populated: "populated GetTemplateResultSchema (getTemplate r id')"
proof (cases "getTemplate_try r id'"
         "\<lambda>e. Obj [(''success'', Bool False), (''id'', Str id'),
                    (''error'', Str (errmsg e ''Failed to get template''))]" rule: catchE_cases)
  case (raised e)
  then show ?thesis
    by (simp add: getTemplate_def GetTemplateResultSchema_def required_def optional_def)
next
  case (returned out)
  from getTemplate_try_Inr [OF returned(1)] show ?thesis
  proof (elim disjE exE conjE)
    fix data err
    assume "out = Obj [(''success'', Bool False), (''id'', Str id'),
                       (''error'', Str (message err))]"
    with returned(2) show ?thesis
      by (simp add: getTemplate_def GetTemplateResultSchema_def required_def optional_def)
  next
    fix data a b c d e f g h i j k
    assume h: "optional_map ''rawVariables?.map'' variableInfo (field data ''variables'') = Inr h"
      and a: "string_or data ''id'' (Str id') = Inr a"
      and out: "out = Obj [(''success'', Bool True), (''id'', a), (''name'', b), (''alias'', c),
                       (''status'', d), (''from'', e), (''subject'', f), (''replyTo'', g),
                       (''variables'', h), (''createdAt'', i), (''updatedAt'', j),
                       (''publishedAt'', k)]"
    from a have "a \<noteq> Undefined" by (rule string_or_defined)
    moreover from optional_map_populated [OF h variableInfo_populated(1)]
    have "h = Undefined \<or> populated (SArray TemplateVariableSchema) h" by simp
    ultimately show ?thesis
      using returned(2) unfolding out
      by (auto simp: getTemplate_def GetTemplateResultSchema_def required_def optional_def)
  qed
qed

subsection \<open>Where the records of an output come from\<close>

lemma mapE_list_all2: "mapE f xs = Inr ys \<Longrightarrow> list_all2 (\<lambda>x y. f x = Inr y) xs ys"
  by (induction xs arbitrary: ys) (auto split: sum.splits)

lemma array_map_projected: "array_map what f v = Inr ys \<Longrightarrow> projected f v (Arr ys)"
  by (auto simp: array_map_Inr_iff projected_def dest: mapE_list_all2)

lemma webflow_sources:
  assumes "fetch w 0 = (\<lambda>req. Responds r)" "ok r" "resp_json r = Inr response"
  shows "listSites_try w [] = (Inr out, calls) \<Longrightarrow>
           projected siteInfo (coalesce (field response ''sites'') (Arr [])) (field out ''sites'')"
    and "publishSite_try w siteId customDomains publishToWebflowSubdomain [] = (Inr out, calls) \<Longrightarrow>
           from_upstream [(''publishedDomains'', [''customDomains''])] response out"
    and "listPages_try w s2n siteId limit offset [] = (Inr out, calls) \<Longrightarrow>
           projected pageInfo (coalesce (field response ''pages'') (Arr [])) (field out ''pages'')
           \<and> from_upstream [(''pagination'', [''pagination''])] response out"
    and "listForms_try w s2n siteId limit offset [] = (Inr out, calls) \<Longrightarrow>
           projected formInfo (coalesce (field response ''forms'') (Arr [])) (field out ''forms'')
           \<and> from_upstream [(''pagination'', [''pagination''])] response out"
    and "listFormSubmissions_try w s2n siteId elementId limit offset [] = (Inr out, calls) \<Longrightarrow>
           projected submissionInfo (coalesce (field response ''formSubmissions'') (Arr []))
             (field out ''formSubmissions'')
           \<and> from_upstream [(''pagination'', [''pagination''])] response out"
    and "listCustomCode_try w s2n siteId limit offset [] = (Inr out, calls) \<Longrightarrow>
           projected blockInfo (coalesce (field response ''blocks'') (Arr [])) (field out ''blocks'')
           \<and> from_upstream [(''pagination'', [''pagination''])] response out"
proof -
  note first = callApi_first [OF assms]
  show "projected siteInfo (coalesce (field response ''sites'') (Arr [])) (field out ''sites'')"
    if "listSites_try w [] = (Inr out, calls)"
    using listSites_try_Inr [OF that] by (auto dest!: first array_map_projected)
  show "from_upstream [(''publishedDomains'', [''customDomains''])] response out"
    if "publishSite_try w siteId customDomains publishToWebflowSubdomain [] = (Inr out, calls)"
    using publishSite_try_Inr [OF that]
    by (auto simp: from_upstream_def dest!: first optional_map_upstream)
  show "projected pageInfo (coalesce (field response ''pages'') (Arr [])) (field out ''pages'')
           \<and> from_upstream [(''pagination'', [''pagination''])] response out"
    if "listPages_try w s2n siteId limit offset [] = (Inr out, calls)"
    using listPages_try_Inr [OF that]
    by (auto simp: from_upstream_def dest!: first array_map_projected paginationInfo_upstream)
  show "projected formInfo (coalesce (field response ''forms'') (Arr [])) (field out ''forms'')
           \<and> from_upstream [(''pagination'', [''pagination''])] response out"
    if "listForms_try w s2n siteId limit offset [] = (Inr out, calls)"
    using listForms_try_Inr [OF that]
    by (auto simp: from_upstream_def dest!: first array_map_projected paginationInfo_upstream)
  show "projected submissionInfo (coalesce (field response ''formSubmissions'') (Arr []))
             (field out ''formSubmissions'')
           \<and> from_upstream [(''pagination'', [''pagination''])] response out"
    if "listFormSubmissions_try w s2n siteId elementId limit offset [] = (Inr out, calls)"
    using listFormSubmissions_try_Inr [OF that]
    by (auto simp: from_upstream_def dest!: first array_map_projected paginationInfo_upstream)
  show "projected blockInfo (coalesce (field response ''blocks'') (Arr [])) (field out ''blocks'')
           \<and> from_upstream [(''pagination'', [''pagination''])] response out"
    if "listCustomCode_try w s2n siteId limit offset [] = (Inr out, calls)"
    using listCustomCode_try_Inr [OF that]
    by (auto simp: from_upstream_def dest!: first array_map_projected paginationInfo_upstream)
qed

lemma resend_sources:
  shows "emails_list r = Resolves data None \<Longrightarrow> listEmails_try r = Inr out \<Longrightarrow>
           projected emailInfo (coalesce (optional_field data ''data'') (Arr []))
             (field out ''emails'')"
    and "contacts_list r = Resolves data None \<Longrightarrow> listContacts_try r = Inr out \<Longrightarrow>
           projected contactInfo (coalesce (optional_field data ''data'') (Arr []))
             (field out ''contacts'')"
    and "templates_list r (listTemplates_params lim after before) = Resolves data None \<Longrightarrow>
         listTemplates_try r lim after before = Inr out \<Longrightarrow>
           projected templateInfo (coalesce (field data ''data'') (Arr []))
             (field out ''templates'')"
    and "templates_get r id' = Resolves data None \<Longrightarrow> getTemplate_try r id' = Inr out \<Longrightarrow>
           (field out ''variables'' = Undefined
             \<or> projected variableInfo (field data ''variables'') (field out ''variables''))
           \<and> from_upstream
               [(''name'', [''name'']), (''alias'', [''alias'']), (''status'', [''status'']),
                (''from'', [''from'']), (''subject'', [''subject'']),
                (''replyTo'', [''reply_to'', ''replyTo'']), (''variables'', [''variables'']),
                (''createdAt'', [''created_at'', ''createdAt'']),
                (''updatedAt'', [''updated_at'', ''updatedAt'']),
                (''publishedAt'', [''published_at'', ''publishedAt''])] data out"
proof -
  show "projected emailInfo (coalesce (optional_field data ''data'') (Arr []))
             (field out ''emails'')"
    if "emails_list r = Resolves data None" "listEmails_try r = Inr out"
    using that unfolding listEmails_try_def sdk_call_Inr_iff
    by (auto simp: returns dest!: array_map_projected)
  show "projected contactInfo (coalesce (optional_field data ''data'') (Arr []))
             (field out ''contacts'')"
    if "contacts_list r = Resolves data None" "listContacts_try r = Inr out"
    using that unfolding listContacts_try_def sdk_call_Inr_iff
    by (auto simp: returns dest!: array_map_projected)
  show "projected templateInfo (coalesce (field data ''data'') (Arr []))
             (field out ''templates'')"
    if "templates_list r (listTemplates_params lim after before) = Resolves data None"
      "listTemplates_try r lim after before = Inr out"
    using listTemplates_try_Inr [OF that(2)] that(1)
    by (auto dest!: array_map_projected)
  show "(field out ''variables'' = Undefined
             \<or> projected variableInfo (field data ''variables'') (field out ''variables''))
           \<and> from_upstream
               [(''name'', [''name'']), (''alias'', [''alias'']), (''status'', [''status'']),
                (''from'', [''from'']), (''subject'', [''subject'']),
                (''replyTo'', [''reply_to'', ''replyTo'']), (''variables'', [''variables'']),
                (''createdAt'', [''created_at'', ''createdAt'']),
                (''updatedAt'', [''updated_at'', ''updatedAt'']),
                (''publishedAt'', [''published_at'', ''publishedAt''])] data out"
    if "templates_get r id' = Resolves data None" "getTemplate_try r id' = Inr out"
    using getTemplate_try_Inr [OF that(2)] that(1)
  proof (elim disjE exE conjE)
    fix d err
    assume "templates_get r id' = Resolves data None"
      "templates_get r id' = Resolves d (Some err)"
    then show ?thesis by simp
  next
    fix d a b c dd e f g h i j k
    assume d: "templates_get r id' = Resolves data None" "templates_get r id' = Resolves d None"
      and h: "optional_map ''rawVariables?.map'' variableInfo (field d ''variables'') = Inr h"
      and opt: "string_if d ''name'' = Inr b" "string_if d ''alias'' = Inr c"
        "string_if d ''status'' = Inr dd" "string_if d ''from'' = Inr e"
        "string_if d ''subject'' = Inr f" "stringField d ''reply_to'' ''replyTo'' = Inr g"
        "stringField d ''created_at'' ''createdAt'' = Inr i"
        "stringField d ''updated_at'' ''updatedAt'' = Inr j"
        "stringField d ''published_at'' ''publishedAt'' = Inr k"
      and out: "out = Obj [(''success'', Bool True), (''id'', a), (''name'', b), (''alias'', c),
                       (''status'', dd), (''from'', e), (''subject'', f), (''replyTo'', g),
                       (''variables'', h), (''createdAt'', i), (''updatedAt'', j),
                       (''publishedAt'', k)]"
    from d have [simp]: "d = data" by simp
    from h have hv: "h = Undefined \<or> projected variableInfo (field data ''variables'') h"
      by (auto simp: optional_map_def array_Inr_iff split: if_splits dest!: array_map_projected)
    from opt h hv show ?thesis
      unfolding out
      by (auto simp: from_upstream_def
            dest: stringField_upstream string_if_upstream optional_map_upstream)
  qed
qed

subsection \<open>Identifier resolution\<close>

text \<open>
  Claim C7. For every explicit \<open>siteId\<close> argument and every configured default:
  resolution returns the explicit argument when it is non-empty; otherwise the configured
  default when that is non-empty; otherwise it fails with the configuration error. An
  explicit non-empty argument takes precedence whatever the default is.
\<close>

theorem resolveSiteId_precedence:
  "(siteId = Some s \<and> s \<noteq> [] \<longrightarrow> resolveSiteId w siteId = Inr s) \<and>
   (\<not> present siteId \<and> WEBFLOW_SITE_ID w = Some d \<and> d \<noteq> [] \<longrightarrow>
      resolveSiteId w siteId = Inr d) \<and>
   (\<not> present siteId \<and> \<not> present (WEBFLOW_SITE_ID w) \<longrightarrow>
      resolveSiteId w siteId =
        Inl (Error ''A site ID is required. Either pass a siteId or set the WEBFLOW_SITE_ID environment variable.''))"
  by (auto simp: resolveSiteId_def getDefaultSiteId_def present_def Let_def split: option.splits)

theorem resolveSiteId_precedence_witness:
  "resolveSiteId (stubEnv []) (Some ''site-1'') = Inr ''site-1'' \<and>
   resolveSiteId (stubEnv []) None = Inr ''test-site-id'' \<and>
   resolveSiteId (stubEnv []) (Some '''') = Inr ''test-site-id'' \<and>
   resolveSiteId offline None =
     Inl (Error ''A site ID is required. Either pass a siteId or set the WEBFLOW_SITE_ID environment variable.'')"
  using resolveSiteId_precedence [where w = "stubEnv []" and siteId = "Some ''site-1''" and s = "''site-1''"]
    resolveSiteId_precedence [where w = "stubEnv []" and siteId = None and d = "''test-site-id''"]
    resolveSiteId_precedence [where w = "stubEnv []" and siteId = "Some ''''" and d = "''test-site-id''"]
    resolveSiteId_precedence [where w = offline and siteId = None]
  by (simp add: present_def stubEnv_def offline_def)

subsection \<open>Field normalisation\<close>



subsection \<open>publishSite\<close>

text \<open>
  Claim C3. For every input of \<open>publishSite\<close>, the body of the outgoing request has the
  key \<^verbatim>\<open>publishToWebflowSubdomain\<close>, equal to the caller's value when supplied and to
  \<open>false\<close> when omitted; it has the key \<^verbatim>\<open>customDomains\<close> exactly when the caller
  supplies a non-empty list, and then the value is that list. Every request the tool
  makes carries this body.
\<close>

theorem publishSite_body_keys:
  "field (publishSite_body customDomains publishToWebflowSubdomain) ''publishToWebflowSubdomain''
     = Bool (case publishToWebflowSubdomain of None \<Rightarrow> False | Some b \<Rightarrow> b) \<and>
   ''publishToWebflowSubdomain''
     \<in> set (keys (publishSite_body customDomains publishToWebflowSubdomain)) \<and>
   (''customDomains'' \<in> set (keys (publishSite_body customDomains publishToWebflowSubdomain))
      \<longleftrightarrow> (\<exists>ds. customDomains = Some ds \<and> ds \<noteq> [])) \<and>
   (\<forall>ds. customDomains = Some ds \<and> ds \<noteq> [] \<longrightarrow>
      field (publishSite_body customDomains publishToWebflowSubdomain) ''customDomains''
        = Arr (map Str ds)) \<and>
   (\<forall>req \<in> set (snd (publishSite w siteId customDomains publishToWebflowSubdomain)).
      body req = Some (publishSite_body customDomains publishToWebflowSubdomain))"
proof -
  have calls: "\<forall>req \<in> set (snd (publishSite w siteId customDomains publishToWebflowSubdomain)).
      body req = Some (publishSite_body customDomains publishToWebflowSubdomain)"
    by (auto simp: publishSite_def publishSite_try_def catch_def bindIO_def lift_def
             split: sum.splits prod.splits dest!: callApi_calls)
  show ?thesis using calls
    by (auto simp: publishSite_body_def keys_def entries_def split: option.splits)
qed

theorem publishSite_body_keys_witness:
  "publishSite_body (Some [''dom-1'']) None
     = Obj [(''publishToWebflowSubdomain'', Bool False), (''customDomains'', Arr [Str ''dom-1''])] \<and>
   publishSite_body None (Some True) = Obj [(''publishToWebflowSubdomain'', Bool True)] \<and>
   publishSite_body (Some []) None = Obj [(''publishToWebflowSubdomain'', Bool False)] \<and>
   map body (snd (publishSite (stubEnv [mockApiResponse (Obj []) ''{}'' True 200])
                    (Some ''site-1'') (Some [''dom-1'']) None))
     = [Some (Obj [(''publishToWebflowSubdomain'', Bool False),
                   (''customDomains'', Arr [Str ''dom-1''])])]"
  using
    publishSite_body_keys
      [where customDomains = "Some [''dom-1'']" and publishToWebflowSubdomain = None
         and w = "stubEnv [mockApiResponse (Obj []) ''{}'' True 200]" and siteId = "Some ''site-1''"]
  by (simp add: publishSite_body_def publishSite_def publishSite_try_def catch_def bindIO_def
        lift_def resolveSiteId_def callApi_def getApiKey_def stubEnv_def mockFetch_def
        mockApiResponse_def getp_def nullish_def bindE_def object_def props.simps optional_map_def)

subsection \<open>addCustomCode\<close>

text \<open>
  Claim C2, as amended. For every input of \<open>addCustomCode\<close> with target \<open>page\<close> and no
  \<open>pageId\<close>, the tool makes no remote call and returns \<open>success: false\<close> with an error
  containing ``pageId is required''. For every input that passes this first check and
  whose source code is longer than 2000 characters, the tool makes no remote call and
  returns \<open>success: false\<close> with an error containing the decimal length of the source
  code.
\<close>

theorem addCustomCode_validation:
  "(target = Page \<and> \<not> present pageId \<longrightarrow>
      snd (addCustomCode w siteId target pageId sourceCode displayName version location) = [] \<and>
      field (fst (addCustomCode w siteId target pageId sourceCode displayName version location))
        ''success'' = Bool False \<and>
      (\<exists>m. field (fst (addCustomCode w siteId target pageId sourceCode displayName version location))
             ''error'' = Str m
           \<and> sublist ''pageId is required'' m)) \<and>
   (\<not> (target = Page \<and> \<not> present pageId) \<and> length sourceCode > 2000 \<longrightarrow>
      snd (addCustomCode w siteId target pageId sourceCode displayName version location) = [] \<and>
      field (fst (addCustomCode w siteId target pageId sourceCode displayName version location))
        ''success'' = Bool False \<and>
      (\<exists>m. field (fst (addCustomCode w siteId target pageId sourceCode displayName version location))
             ''error'' = Str m
           \<and> sublist (decimal (length sourceCode)) m))"
proof (intro conjI impI)
  assume a: "target = Page \<and> \<not> present pageId"
  have m: "sublist ''pageId is required''
             (''A pageId is required when target is \"page\". '' @ ''Use listPages to find page IDs.'')"
    by (simp add: sublist_code)
  from a show "snd (addCustomCode w siteId target pageId sourceCode displayName version location) = []"
    by (simp add: addCustomCode_def addCustomCode_try_def catch_def return_def)
  from a show "field (fst (addCustomCode w siteId target pageId sourceCode displayName version location))
                 ''success'' = Bool False"
    by (simp add: addCustomCode_def addCustomCode_try_def catch_def return_def)
  from a m show "\<exists>m. field (fst (addCustomCode w siteId target pageId sourceCode displayName version location))
                        ''error'' = Str m
                    \<and> sublist ''pageId is required'' m"
    by (simp add: addCustomCode_def addCustomCode_try_def catch_def return_def)
next
  assume a: "\<not> (target = Page \<and> \<not> present pageId) \<and> length sourceCode > 2000"
  have m: "sublist (decimal (length sourceCode))
             (''Script exceeds the 2000 character limit ('' @ decimal (length sourceCode)
              @ '' characters). Consider hosting the script externally.'')"
    unfolding sublist_def by blast
  from a show "snd (addCustomCode w siteId target pageId sourceCode displayName version location) = []"
    by (auto simp add: addCustomCode_def addCustomCode_try_def catch_def return_def)
  from a show "field (fst (addCustomCode w siteId target pageId sourceCode displayName version location))
                 ''success'' = Bool False"
    by (auto simp add: addCustomCode_def addCustomCode_try_def catch_def return_def)
  from a m show "\<exists>m. field (fst (addCustomCode w siteId target pageId sourceCode displayName version location))
                        ''error'' = Str m
                    \<and> sublist (decimal (length sourceCode)) m"
    by (auto simp add: addCustomCode_def addCustomCode_try_def catch_def return_def)
qed

text \<open>
  The claim as first stated asks the length in the error of every over-long input. The
  \<open>pageId\<close> check comes first: an over-long script for target \<open>page\<close> without a
  \<open>pageId\<close> is answered with the \<open>pageId\<close> error, which does not name the length.
\<close>

theorem addCustomCode_length_counterexample:
  "2000 < length (replicate 2001 CHR ''x'') \<and>
   field (fst (addCustomCode offline None Page None (replicate 2001 CHR ''x'')
                 ''Too Long'' ''1.0.0'' Footer)) ''error''
     = Str ''A pageId is required when target is \"page\". Use listPages to find page IDs.'' \<and>
   \<not> sublist (decimal (length (replicate 2001 CHR ''x'')))
        ''A pageId is required when target is \"page\". Use listPages to find page IDs.''"
proof -
  have d: "decimal 2001 = ''2001''" by code_simp
  show ?thesis
    by (simp add: d addCustomCode_def addCustomCode_try_def catch_def return_def present_def
          sublist_code)
qed

theorem addCustomCode_validation_witness:
  "snd (addCustomCode offline (Some ''site-1'') Page None ''console.log(1);''
          ''Oops'' ''1.0.0'' Footer) = [] \<and>
   fst (addCustomCode offline (Some ''site-1'') Page None ''console.log(1);''
          ''Oops'' ''1.0.0'' Footer)
     = Obj [(''success'', Bool False), (''scriptId'', Str ''''),
            (''error'', Str ''A pageId is required when target is \"page\". Use listPages to find page IDs.'')] \<and>
   snd (addCustomCode offline (Some ''site-1'') Site None (replicate 2001 CHR ''x'')
          ''Too Long'' ''1.0.0'' Footer) = [] \<and>
   fst (addCustomCode offline (Some ''site-1'') Site None (replicate 2001 CHR ''x'')
          ''Too Long'' ''1.0.0'' Footer)
     = Obj [(''success'', Bool False), (''scriptId'', Str ''''),
            (''error'', Str ''Script exceeds the 2000 character limit (2001 characters). Consider hosting the script externally.'')] \<and>
   sublist ''2001''
     ''Script exceeds the 2000 character limit (2001 characters). Consider hosting the script externally.''"
proof -
  have d: "decimal 2001 = ''2001''" by code_simp
  show ?thesis
    using
      addCustomCode_validation
        [where w = offline and siteId = "Some ''site-1''" and target = Page and pageId = None
           and sourceCode = "''console.log(1);''" and displayName = "''Oops''"
           and version = "''1.0.0''" and location = Footer]
      addCustomCode_validation
        [where w = offline and siteId = "Some ''site-1''" and target = Site and pageId = None
           and sourceCode = "replicate 2001 CHR ''x''" and displayName = "''Too Long''"
           and version = "''1.0.0''" and location = Footer]
    by (simp add: d addCustomCode_def addCustomCode_try_def catch_def return_def present_def
          sublist_code)
qed

text \<open>
  Claim C5. For every invocation of \<open>addCustomCode\<close> that passes validation, if the
  response of the registration call yields no script identifier (the extracted id string
  is empty), the tool returns \<open>success: false\<close> with the error ``Failed to register
  script: no script ID returned'' and does not make the apply call: the registration
  request is the only request made.
\<close>

theorem addCustomCode_no_script_id:
  assumes valid: "\<not> (target = Page \<and> \<not> present pageId)" "length sourceCode \<le> 2000"
    and site: "resolveSiteId w siteId = Inr resolvedSiteId"
    and register:
      "callApi w (''/sites/'' @ resolvedSiteId @ ''/registered_scripts/inline'') (Some POST)
         (Some (Obj [(''sourceCode'', Str sourceCode), (''version'', Str version),
                     (''displayName'', Str displayName)])) None []
       = (Inr registered, calls)"
    and no_id: "bindE (getp registered ''id'') (\<lambda>i. ToString (coalesce i (Str ''''))) = Inr ''''"
  shows "addCustomCode w siteId target pageId sourceCode displayName version location
           = (Obj [(''success'', Bool False), (''scriptId'', Str ''''),
                   (''error'', Str ''Failed to register script: no script ID returned'')], calls)
         \<and> length calls = 1"
proof -
  from callApi_Inr [OF register] have one: "length calls = 1" by auto
  from valid have v: "\<not> (target = Page \<and> \<not> present pageId)" "\<not> 2000 < length sourceCode"
    by auto
  show ?thesis
    using one register
    by (simp add: addCustomCode_def addCustomCode_try_def catch_def bindIO_def lift_def
          return_def v site no_id)
qed

theorem addCustomCode_no_script_id_witness:
  "addCustomCode (stubEnv [mockApiResponse (Obj []) ''{}'' True 200]) (Some ''site-1'') Site None
      ''console.log(1);'' ''Hello Script'' ''1.0.0'' Footer
    = (Obj [(''success'', Bool False), (''scriptId'', Str ''''),
            (''error'', Str ''Failed to register script: no script ID returned'')],
       [\<lparr> url = ''https://api.webflow.com/v2/sites/site-1/registered_scripts/inline'',
           query = [], http_method = POST,
           headers = [(''Authorization'', ''Bearer test-api-key''),
                      (''Content-Type'', ''application/json'')],
           body = Some (Obj [(''sourceCode'', Str ''console.log(1);''),
                             (''version'', Str ''1.0.0''),
                             (''displayName'', Str ''Hello Script'')]) \<rparr>])"
proof -
  let ?w = "stubEnv [mockApiResponse (Obj []) ''{}'' True 200]"
  have 1: "\<not> (Site = Page \<and> \<not> present None)" by simp
  have 2: "length ''console.log(1);'' \<le> 2000" by simp
  have 3: "resolveSiteId ?w (Some ''site-1'') = Inr ''site-1''"
    by (simp add: resolveSiteId_def)
  have 4: "callApi ?w (''/sites/'' @ ''site-1'' @ ''/registered_scripts/inline'') (Some POST)
         (Some (Obj [(''sourceCode'', Str ''console.log(1);''), (''version'', Str ''1.0.0''),
                     (''displayName'', Str ''Hello Script'')])) None []
       = (Inr (Obj []),
          [\<lparr> url = ''https://api.webflow.com/v2/sites/site-1/registered_scripts/inline'',
              query = [], http_method = POST,
              headers = [(''Authorization'', ''Bearer test-api-key''),
                         (''Content-Type'', ''application/json'')],
              body = Some (Obj [(''sourceCode'', Str ''console.log(1);''),
                                (''version'', Str ''1.0.0''),
                                (''displayName'', Str ''Hello Script'')]) \<rparr>])"
    by (simp add: callApi_def stubEnv_def mockFetch_def mockApiResponse_def getApiKey_def
          BASE_URL_def)
  have 5: "bindE (getp (Obj []) ''id'') (\<lambda>i. ToString (coalesce i (Str ''''))) = Inr ''''"
    by (simp add: bindE_def getp_def nullish_def coalesce_def)
  show ?thesis
    using addCustomCode_no_script_id [OF 1 2 3 4 5, where location = Footer] by simp
qed



subsection \<open>Pagination echo\<close>



subsection \<open>removeContact\<close>



subsection \<open>The error contract\<close>






subsection \<open>The invariant of the output records\<close>

lemma optional_fields_declared:
  "optional_keys SiteInfoSchema
     = [''lastPublished'', ''lastUpdated'', ''previewUrl'', ''timeZone'', ''customDomains'']"
  "optional_keys PublishSiteResultSchema = [''publishedDomains'', ''error'']"
  "optional_keys PageInfoSchema
     = [''archived'', ''draft'', ''createdOn'', ''lastUpdated'', ''publishedPath'', ''seo'']"
  "optional_keys ListPagesResultSchema = [''pagination'', ''error'']"
  "optional_keys FormInfoSchema
     = [''pageId'', ''pageName'', ''formElementId'', ''fields'', ''createdOn'', ''lastUpdated'']"
  "optional_keys FormSubmissionSchema = [''displayName'', ''dateSubmitted'', ''formResponse'']"
  "optional_keys CustomCodeBlockSchema = [''pageId'', ''type'', ''createdOn'', ''lastUpdated'']"
  "optional_keys AddCustomCodeResultSchema = [''appliedTo'', ''error'']"
  "optional_keys EmailInfoSchema = [''lastEvent'', ''createdAt'']"
  "optional_keys GetEmailResultSchema
     = [''from'', ''to'', ''subject'', ''lastEvent'', ''createdAt'', ''error'']"
  "optional_keys ContactInfoSchema = [''firstName'', ''lastName'']"
  "optional_keys TemplateVariableSchema = [''fallbackValue'']"
  "optional_keys TemplateInfoSchema = [''alias'', ''createdAt'', ''updatedAt'', ''publishedAt'']"
  "optional_keys GetTemplateResultSchema
     = [''name'', ''alias'', ''status'', ''from'', ''subject'', ''replyTo'', ''variables'',
        ''createdAt'', ''updatedAt'', ''publishedAt'', ''error'']"
  "optional_keys ListTemplatesResultSchema = [''hasMore'', ''error'']"
  by (simp_all add: optional_keys_def required_def optional_def SiteInfoSchema_def
        PublishSiteResultSchema_def PageInfoSchema_def ListPagesResultSchema_def
        FormInfoSchema_def FormSubmissionSchema_def CustomCodeBlockSchema_def
        AddCustomCodeResultSchema_def EmailInfoSchema_def GetEmailResultSchema_def
        ContactInfoSchema_def TemplateVariableSchema_def TemplateInfoSchema_def
        GetTemplateResultSchema_def ListTemplatesResultSchema_def)

lemma required_fields_populated:
  "populated ListSitesResultSchema (fst (listSites w)) \<and>
   populated PublishSiteResultSchema
     (fst (publishSite w siteId customDomains publishToWebflowSubdomain)) \<and>
   populated ListPagesResultSchema (fst (listPages w s2n siteId limit offset)) \<and>
   populated ListFormsResultSchema (fst (listForms w s2n siteId limit offset)) \<and>
   populated ListFormSubmissionsResultSchema
     (fst (listFormSubmissions w s2n siteId elementId limit offset)) \<and>
   populated ListCustomCodeResultSchema (fst (listCustomCode w s2n siteId limit offset)) \<and>
   populated AddCustomCodeResultSchema
     (fst (addCustomCode w siteId target pageId sourceCode displayName version location)) \<and>
   populated SendResultSchema (sendEmail r i) \<and>
   populated BatchSendResultSchema (sendBatchEmails r emails) \<and>
   populated GetEmailResultSchema (getEmail r emailId) \<and>
   populated ListEmailsResultSchema (listEmails r) \<and>
   populated CreateContactResultSchema (createContact r c) \<and>
   populated ListContactsResultSchema (listContacts r) \<and>
   populated RemoveContactResultSchema (removeContact r id') \<and>
   populated ListTemplatesResultSchema (listTemplates r lim after before) \<and>
   populated GetTemplateResultSchema (getTemplate r id')"
  by (intro conjI listSites_populated publishSite_populated listPages_populated
        listForms_populated listFormSubmissions_populated listCustomCode_populated
        addCustomCode_populated sendEmail_populated sendBatchEmails_populated
        getEmail_populated listEmails_populated createContact_populated listContacts_populated
        removeContact_populated listTemplates_populated getTemplate_populated)

lemma records_are_projections:
  "(fetch w 0 = (\<lambda>req. Responds resp) \<and> ok resp \<and> resp_json resp = Inr response \<longrightarrow>
      (listSites_try w [] = (Inr out, calls) \<longrightarrow>
         projected siteInfo (coalesce (field response ''sites'') (Arr [])) (field out ''sites'')) \<and>
      (publishSite_try w siteId customDomains publishToWebflowSubdomain [] = (Inr out, calls) \<longrightarrow>
         from_upstream [(''publishedDomains'', [''customDomains''])] response out) \<and>
      (listPages_try w s2n siteId limit offset [] = (Inr out, calls) \<longrightarrow>
         projected pageInfo (coalesce (field response ''pages'') (Arr [])) (field out ''pages'')
         \<and> from_upstream [(''pagination'', [''pagination''])] response out) \<and>
      (listForms_try w s2n siteId limit offset [] = (Inr out, calls) \<longrightarrow>
         projected formInfo (coalesce (field response ''forms'') (Arr [])) (field out ''forms'')
         \<and> from_upstream [(''pagination'', [''pagination''])] response out) \<and>
      (listFormSubmissions_try w s2n siteId elementId limit offset [] = (Inr out, calls) \<longrightarrow>
         projected submissionInfo (coalesce (field response ''formSubmissions'') (Arr []))
           (field out ''formSubmissions'')
         \<and> from_upstream [(''pagination'', [''pagination''])] response out) \<and>
      (listCustomCode_try w s2n siteId limit offset [] = (Inr out, calls) \<longrightarrow>
         projected blockInfo (coalesce (field response ''blocks'') (Arr [])) (field out ''blocks'')
         \<and> from_upstream [(''pagination'', [''pagination''])] response out)) \<and>
   (emails_list r = Resolves data None \<and> listEmails_try r = Inr out \<longrightarrow>
      projected emailInfo (coalesce (optional_field data ''data'') (Arr [])) (field out ''emails'')) \<and>
   (contacts_list r = Resolves data None \<and> listContacts_try r = Inr out \<longrightarrow>
      projected contactInfo (coalesce (optional_field data ''data'') (Arr []))
        (field out ''contacts'')) \<and>
   (templates_list r (listTemplates_params lim after before) = Resolves data None
      \<and> listTemplates_try r lim after before = Inr out \<longrightarrow>
      projected templateInfo (coalesce (field data ''data'') (Arr [])) (field out ''templates'')) \<and>
   (templates_get r id' = Resolves data None \<and> getTemplate_try r id' = Inr out \<longrightarrow>
      (field out ''variables'' = Undefined
        \<or> projected variableInfo (field data ''variables'') (field out ''variables''))
      \<and> from_upstream
          [(''name'', [''name'']), (''alias'', [''alias'']), (''status'', [''status'']),
           (''from'', [''from'']), (''subject'', [''subject'']),
           (''replyTo'', [''reply_to'', ''replyTo'']), (''variables'', [''variables'']),
           (''createdAt'', [''created_at'', ''createdAt'']),
           (''updatedAt'', [''updated_at'', ''updatedAt'']),
           (''publishedAt'', [''published_at'', ''publishedAt''])] data out)"
proof (intro conjI)
  show "fetch w 0 = (\<lambda>req. Responds resp) \<and> ok resp \<and> resp_json resp = Inr response \<longrightarrow>
      (listSites_try w [] = (Inr out, calls) \<longrightarrow>
         projected siteInfo (coalesce (field response ''sites'') (Arr [])) (field out ''sites'')) \<and>
      (publishSite_try w siteId customDomains publishToWebflowSubdomain [] = (Inr out, calls) \<longrightarrow>
         from_upstream [(''publishedDomains'', [''customDomains''])] response out) \<and>
      (listPages_try w s2n siteId limit offset [] = (Inr out, calls) \<longrightarrow>
         projected pageInfo (coalesce (field response ''pages'') (Arr [])) (field out ''pages'')
         \<and> from_upstream [(''pagination'', [''pagination''])] response out) \<and>
      (listForms_try w s2n siteId limit offset [] = (Inr out, calls) \<longrightarrow>
         projected formInfo (coalesce (field response ''forms'') (Arr [])) (field out ''forms'')
         \<and> from_upstream [(''pagination'', [''pagination''])] response out) \<and>
      (listFormSubmissions_try w s2n siteId elementId limit offset [] = (Inr out, calls) \<longrightarrow>
         projected submissionInfo (coalesce (field response ''formSubmissions'') (Arr []))
           (field out ''formSubmissions'')
         \<and> from_upstream [(''pagination'', [''pagination''])] response out) \<and>
      (listCustomCode_try w s2n siteId limit offset [] = (Inr out, calls) \<longrightarrow>
         projected blockInfo (coalesce (field response ''blocks'') (Arr [])) (field out ''blocks'')
         \<and> from_upstream [(''pagination'', [''pagination''])] response out)"
  proof (intro impI)
    assume "fetch w 0 = (\<lambda>req. Responds resp) \<and> ok resp \<and> resp_json resp = Inr response"
    then have n: "fetch w 0 = (\<lambda>req. Responds resp)" "ok resp" "resp_json resp = Inr response"
      by simp_all
    note s = webflow_sources [OF n]
    show "(listSites_try w [] = (Inr out, calls) \<longrightarrow>
         projected siteInfo (coalesce (field response ''sites'') (Arr [])) (field out ''sites'')) \<and>
      (publishSite_try w siteId customDomains publishToWebflowSubdomain [] = (Inr out, calls) \<longrightarrow>
         from_upstream [(''publishedDomains'', [''customDomains''])] response out) \<and>
      (listPages_try w s2n siteId limit offset [] = (Inr out, calls) \<longrightarrow>
         projected pageInfo (coalesce (field response ''pages'') (Arr [])) (field out ''pages'')
         \<and> from_upstream [(''pagination'', [''pagination''])] response out) \<and>
      (listForms_try w s2n siteId limit offset [] = (Inr out, calls) \<longrightarrow>
         projected formInfo (coalesce (field response ''forms'') (Arr [])) (field out ''forms'')
         \<and> from_upstream [(''pagination'', [''pagination''])] response out) \<and>
      (listFormSubmissions_try w s2n siteId elementId limit offset [] = (Inr out, calls) \<longrightarrow>
         projected submissionInfo (coalesce (field response ''formSubmissions'') (Arr []))
           (field out ''formSubmissions'')
         \<and> from_upstream [(''pagination'', [''pagination''])] response out) \<and>
      (listCustomCode_try w s2n siteId limit offset [] = (Inr out, calls) \<longrightarrow>
         projected blockInfo (coalesce (field response ''blocks'') (Arr [])) (field out ''blocks'')
         \<and> from_upstream [(''pagination'', [''pagination''])] response out)"
      using s(1) [of out calls] s(2) [of siteId customDomains publishToWebflowSubdomain out calls]
        s(3) [of s2n siteId limit offset out calls] s(4) [of s2n siteId limit offset out calls]
        s(5) [of s2n siteId elementId limit offset out calls]
        s(6) [of s2n siteId limit offset out calls]
      by blast
  qed
qed (use resend_sources(1) [where r = r and data = data and out = out]
         resend_sources(2) [where r = r and data = data and out = out]
         resend_sources(3) [where r = r and data = data and out = out and lim = lim
           and after = after and before = before]
         resend_sources(4) [where r = r and data = data and out = out and id' = id']
     in blast)+

lemma optional_fields_from_upstream:
  "(siteInfo raw = Inr out \<longrightarrow>
      from_upstream
        [(''lastPublished'', [''last_published'', ''lastPublished'']),
         (''lastUpdated'', [''last_updated'', ''lastUpdated'']),
         (''previewUrl'', [''previewUrl'']), (''timeZone'', [''timeZone'']),
         (''customDomains'', [''customDomains''])] raw out) \<and>
   (pageInfo raw = Inr out \<longrightarrow>
      from_upstream
        [(''archived'', [''archived'']), (''draft'', [''draft'']),
         (''createdOn'', [''created_on'', ''createdOn'']),
         (''lastUpdated'', [''last_updated'', ''lastUpdated'']),
         (''publishedPath'', [''publishedPath'']), (''seo'', [''seo''])] raw out
      \<and> (field out ''seo'' = Undefined \<or>
         from_upstream [(''title'', [''title'']), (''description'', [''description''])]
           (field raw ''seo'') (field out ''seo''))) \<and>
   (formInfo raw = Inr out \<longrightarrow>
      from_upstream
        [(''pageId'', [''pageId'']), (''pageName'', [''pageName'']),
         (''formElementId'', [''form_element_id'', ''formElementId'']),
         (''fields'', [''fields'']),
         (''createdOn'', [''created_on'', ''createdOn'']),
         (''lastUpdated'', [''last_updated'', ''lastUpdated''])] raw out
      \<and> (\<forall>(k, f) \<in> set (entries (field out ''fields'')).
           \<exists>x. (k, x) \<in> set (entries (field raw ''fields'')) \<and>
               from_upstream [(''displayName'', [''displayName'']), (''type'', [''type''])] x f)) \<and>
   (submissionInfo raw = Inr out \<longrightarrow>
      from_upstream
        [(''displayName'', [''displayName'']),
         (''dateSubmitted'', [''date_submitted'', ''dateSubmitted''])] raw out) \<and>
   (blockInfo raw = Inr out \<longrightarrow>
      from_upstream
        [(''pageId'', [''pageId'']), (''type'', [''type'']),
         (''createdOn'', [''created_on'', ''createdOn'']),
         (''lastUpdated'', [''last_updated'', ''lastUpdated''])] raw out) \<and>
   (contactInfo raw = Inr out \<longrightarrow>
      from_upstream
        [(''firstName'', [''first_name'', ''firstName'']),
         (''lastName'', [''last_name'', ''lastName''])] raw out) \<and>
   (templateInfo raw = Inr out \<longrightarrow>
      from_upstream
        [(''alias'', [''alias'']), (''createdAt'', [''created_at'', ''createdAt'']),
         (''updatedAt'', [''updated_at'', ''updatedAt'']),
         (''publishedAt'', [''published_at'', ''publishedAt''])] raw out) \<and>
   (variableInfo raw = Inr out \<longrightarrow>
      from_upstream [(''fallbackValue'', [''fallback_value'', ''fallbackValue''])] raw out)"
  using siteInfo_upstream [of raw out] pageInfo_populated(2,3) [of raw out]
    formInfo_populated(2,3) [of raw out] submissionInfo_populated(2) [of raw out]
    blockInfo_populated(2) [of raw out] contactInfo_populated(2) [of raw out]
    templateInfo_populated(2) [of raw out] variableInfo_populated(2) [of raw out]
  by blast

lemmas fixtures = populous_def one_of_each_def raw_site_def raw_page_def raw_form_def
  raw_submission_def raw_block_def raw_domain_def raw_contact_def raw_template_def raw_email_def
  raw_variable_def

lemmas projections = entries_def optional_field_def toStringArray_def stringField_or_def
  given_def listTemplates_params_def siteInfo_def domainInfo_def pageInfo_def formInfo_def
  fieldInfo_def
  parseFormFields_def submissionInfo_def blockInfo_def scriptInfo_def emailInfo_def
  contactInfo_def templateInfo_def variableInfo_def listSites_def listSites_try_def
  publishSite_def publishSite_try_def publishSite_body_def listPages_def listPages_try_def
  listForms_def listForms_try_def listFormSubmissions_def listFormSubmissions_try_def
  listCustomCode_def listCustomCode_try_def listEmails_def listEmails_try_def
  listContacts_def listContacts_try_def listTemplates_def listTemplates_try_def
  getTemplate_def getTemplate_try_def getEmail_def getEmail_try_def

text \<open>
  Claim C9, as amended. For every output record produced by any tool from any upstream
  response, every required field of the declared output shape is populated (with the
  empty string, zero or \<open>false\<close> as default rather than being absent). The items of a
  list result are the projections of the items of the upstream list, in order. Every
  optional field that is copied from the upstream response is present only when the
  upstream provided a truthy value for it, except those the code fills with a default on
  success: \<open>from\<close>, \<open>to\<close>, \<open>subject\<close>, \<open>lastEvent\<close> and \<open>createdAt\<close> of \<open>getEmail\<close>,
  \<open>lastEvent\<close> and \<open>createdAt\<close> of each item of \<open>listEmails\<close>, \<open>formResponse\<close> of each
  form submission and \<open>hasMore\<close> of \<open>listTemplates\<close>. The optional \<open>error\<close> field and
  \<open>appliedTo\<close> of \<open>addCustomCode\<close> report the outcome of the tool and are not taken from
  upstream data. The tables below name, for each optional field, the upstream keys it is
  read from.
\<close>

theorem output_records_invariant:
  "(populated ListSitesResultSchema (fst (listSites w)) \<and>
   populated PublishSiteResultSchema
     (fst (publishSite w siteId customDomains publishToWebflowSubdomain)) \<and>
   populated ListPagesResultSchema (fst (listPages w s2n siteId limit offset)) \<and>
   populated ListFormsResultSchema (fst (listForms w s2n siteId limit offset)) \<and>
   populated ListFormSubmissionsResultSchema
     (fst (listFormSubmissions w s2n siteId elementId limit offset)) \<and>
   populated ListCustomCodeResultSchema (fst (listCustomCode w s2n siteId limit offset)) \<and>
   populated AddCustomCodeResultSchema
     (fst (addCustomCode w siteId target pageId sourceCode displayName version location)) \<and>
   populated SendResultSchema (sendEmail r i) \<and>
   populated BatchSendResultSchema (sendBatchEmails r emails) \<and>
   populated GetEmailResultSchema (getEmail r emailId) \<and>
   populated ListEmailsResultSchema (listEmails r) \<and>
   populated CreateContactResultSchema (createContact r c) \<and>
   populated ListContactsResultSchema (listContacts r) \<and>
   populated RemoveContactResultSchema (removeContact r id') \<and>
   populated ListTemplatesResultSchema (listTemplates r lim after before) \<and>
   populated GetTemplateResultSchema (getTemplate r id')) \<and>
  ((fetch w 0 = (\<lambda>req. Responds resp) \<and> ok resp \<and> resp_json resp = Inr response \<longrightarrow>
      (listSites_try w [] = (Inr out, calls) \<longrightarrow>
         projected siteInfo (coalesce (field response ''sites'') (Arr [])) (field out ''sites'')) \<and>
      (publishSite_try w siteId customDomains publishToWebflowSubdomain [] = (Inr out, calls) \<longrightarrow>
         from_upstream [(''publishedDomains'', [''customDomains''])] response out) \<and>
      (listPages_try w s2n siteId limit offset [] = (Inr out, calls) \<longrightarrow>
         projected pageInfo (coalesce (field response ''pages'') (Arr [])) (field out ''pages'')
         \<and> from_upstream [(''pagination'', [''pagination''])] response out) \<and>
      (listForms_try w s2n siteId limit offset [] = (Inr out, calls) \<longrightarrow>
         projected formInfo (coalesce (field response ''forms'') (Arr [])) (field out ''forms'')
         \<and> from_upstream [(''pagination'', [''pagination''])] response out) \<and>
      (listFormSubmissions_try w s2n siteId elementId limit offset [] = (Inr out, calls) \<longrightarrow>
         projected submissionInfo (coalesce (field response ''formSubmissions'') (Arr []))
           (field out ''formSubmissions'')
         \<and> from_upstream [(''pagination'', [''pagination''])] response out) \<and>
      (listCustomCode_try w s2n siteId limit offset [] = (Inr out, calls) \<longrightarrow>
         projected blockInfo (coalesce (field response ''blocks'') (Arr [])) (field out ''blocks'')
         \<and> from_upstream [(''pagination'', [''pagination''])] response out)) \<and>
   (emails_list r = Resolves data None \<and> listEmails_try r = Inr out \<longrightarrow>
      projected emailInfo (coalesce (optional_field data ''data'') (Arr [])) (field out ''emails'')) \<and>
   (contacts_list r = Resolves data None \<and> listContacts_try r = Inr out \<longrightarrow>
      projected contactInfo (coalesce (optional_field data ''data'') (Arr []))
        (field out ''contacts'')) \<and>
   (templates_list r (listTemplates_params lim after before) = Resolves data None
      \<and> listTemplates_try r lim after before = Inr out \<longrightarrow>
      projected templateInfo (coalesce (field data ''data'') (Arr [])) (field out ''templates'')) \<and>
   (templates_get r id' = Resolves data None \<and> getTemplate_try r id' = Inr out \<longrightarrow>
      (field out ''variables'' = Undefined
        \<or> projected variableInfo (field data ''variables'') (field out ''variables''))
      \<and> from_upstream
          [(''name'', [''name'']), (''alias'', [''alias'']), (''status'', [''status'']),
           (''from'', [''from'']), (''subject'', [''subject'']),
           (''replyTo'', [''reply_to'', ''replyTo'']), (''variables'', [''variables'']),
           (''createdAt'', [''created_at'', ''createdAt'']),
           (''updatedAt'', [''updated_at'', ''updatedAt'']),
           (''publishedAt'', [''published_at'', ''publishedAt''])] data out)) \<and>
  ((siteInfo raw = Inr out \<longrightarrow>
      from_upstream
        [(''lastPublished'', [''last_published'', ''lastPublished'']),
         (''lastUpdated'', [''last_updated'', ''lastUpdated'']),
         (''previewUrl'', [''previewUrl'']), (''timeZone'', [''timeZone'']),
         (''customDomains'', [''customDomains''])] raw out) \<and>
   (pageInfo raw = Inr out \<longrightarrow>
      from_upstream
        [(''archived'', [''archived'']), (''draft'', [''draft'']),
         (''createdOn'', [''created_on'', ''createdOn'']),
         (''lastUpdated'', [''last_updated'', ''lastUpdated'']),
         (''publishedPath'', [''publishedPath'']), (''seo'', [''seo''])] raw out
      \<and> (field out ''seo'' = Undefined \<or>
         from_upstream [(''title'', [''title'']), (''description'', [''description''])]
           (field raw ''seo'') (field out ''seo''))) \<and>
   (formInfo raw = Inr out \<longrightarrow>
      from_upstream
        [(''pageId'', [''pageId'']), (''pageName'', [''pageName'']),
         (''formElementId'', [''form_element_id'', ''formElementId'']),
         (''fields'', [''fields'']),
         (''createdOn'', [''created_on'', ''createdOn'']),
         (''lastUpdated'', [''last_updated'', ''lastUpdated''])] raw out
      \<and> (\<forall>(k, f) \<in> set (entries (field out ''fields'')).
           \<exists>x. (k, x) \<in> set (entries (field raw ''fields'')) \<and>
               from_upstream [(''displayName'', [''displayName'']), (''type'', [''type''])] x f)) \<and>
   (submissionInfo raw = Inr out \<longrightarrow>
      from_upstream
        [(''displayName'', [''displayName'']),
         (''dateSubmitted'', [''date_submitted'', ''dateSubmitted''])] raw out) \<and>
   (blockInfo raw = Inr out \<longrightarrow>
      from_upstream
        [(''pageId'', [''pageId'']), (''type'', [''type'']),
         (''createdOn'', [''created_on'', ''createdOn'']),
         (''lastUpdated'', [''last_updated'', ''lastUpdated''])] raw out) \<and>
   (contactInfo raw = Inr out \<longrightarrow>
      from_upstream
        [(''firstName'', [''first_name'', ''firstName'']),
         (''lastName'', [''last_name'', ''lastName''])] raw out) \<and>
   (templateInfo raw = Inr out \<longrightarrow>
      from_upstream
        [(''alias'', [''alias'']), (''createdAt'', [''created_at'', ''createdAt'']),
         (''updatedAt'', [''updated_at'', ''updatedAt'']),
         (''publishedAt'', [''published_at'', ''publishedAt''])] raw out) \<and>
   (variableInfo raw = Inr out \<longrightarrow>
      from_upstream [(''fallbackValue'', [''fallback_value'', ''fallbackValue''])] raw out))"
  by (rule conjI [OF required_fields_populated
        conjI [OF records_are_projections optional_fields_from_upstream]])

text \<open>
  One record of each kind, from an upstream that supplies every list: each hypothesis of
  the invariant is met there.
\<close>

theorem output_records_invariant_witness:
  "(fetch populous 0 = (\<lambda>req. Responds (mockApiResponse one_of_each [] True 200))
    \<and> ok (mockApiResponse one_of_each [] True 200)
    \<and> resp_json (mockApiResponse one_of_each [] True 200) = Inr one_of_each) \<and>
   (populated ListSitesResultSchema (fst (listSites populous))) \<and>
   (listSites_try populous []
      = (Inr (projr (fst (listSites_try populous []))),
         snd (listSites_try populous []))) \<and>
   (projected siteInfo (coalesce (field one_of_each ''sites'') (Arr []))
      (field (projr (fst (listSites_try populous []))) ''sites'')) \<and>
   (publishSite_try populous (Some ''site-1'') None (Some True) []
      = (Inr (projr (fst (publishSite_try populous (Some ''site-1'') None (Some True) []))),
         snd (publishSite_try populous (Some ''site-1'') None (Some True) []))) \<and>
   (from_upstream [(''publishedDomains'', [''customDomains''])] one_of_each
      (projr (fst (publishSite_try populous (Some ''site-1'') None (Some True) [])))) \<and>
   (listPages_try populous nonnumeric (Some ''site-1'') None None []
      = (Inr (projr (fst (listPages_try populous nonnumeric (Some ''site-1'') None None []))),
         snd (listPages_try populous nonnumeric (Some ''site-1'') None None []))) \<and>
   (projected pageInfo (coalesce (field one_of_each ''pages'') (Arr []))
      (field (projr (fst (listPages_try populous nonnumeric (Some ''site-1'') None None []))) ''pages'')
    \<and> from_upstream [(''pagination'', [''pagination''])] one_of_each
      (projr (fst (listPages_try populous nonnumeric (Some ''site-1'') None None [])))) \<and>
   (listForms_try populous nonnumeric (Some ''site-1'') None None []
      = (Inr (projr (fst (listForms_try populous nonnumeric (Some ''site-1'') None None []))),
         snd (listForms_try populous nonnumeric (Some ''site-1'') None None []))) \<and>
   (projected formInfo (coalesce (field one_of_each ''forms'') (Arr []))
      (field (projr (fst (listForms_try populous nonnumeric (Some ''site-1'') None None []))) ''forms'')
    \<and> from_upstream [(''pagination'', [''pagination''])] one_of_each
      (projr (fst (listForms_try populous nonnumeric (Some ''site-1'') None None [])))) \<and>
   (listFormSubmissions_try populous nonnumeric (Some ''site-1'') None None None []
      = (Inr (projr (fst (listFormSubmissions_try populous nonnumeric (Some ''site-1'') None None None []))),
         snd (listFormSubmissions_try populous nonnumeric (Some ''site-1'') None None None []))) \<and>
   (projected submissionInfo (coalesce (field one_of_each ''formSubmissions'') (Arr []))
      (field (projr (fst (listFormSubmissions_try populous nonnumeric (Some ''site-1'') None None None []))) ''formSubmissions'')
    \<and> from_upstream [(''pagination'', [''pagination''])] one_of_each
      (projr (fst (listFormSubmissions_try populous nonnumeric (Some ''site-1'') None None None [])))) \<and>
   (listCustomCode_try populous nonnumeric (Some ''site-1'') None None []
      = (Inr (projr (fst (listCustomCode_try populous nonnumeric (Some ''site-1'') None None []))),
         snd (listCustomCode_try populous nonnumeric (Some ''site-1'') None None []))) \<and>
   (projected blockInfo (coalesce (field one_of_each ''blocks'') (Arr []))
      (field (projr (fst (listCustomCode_try populous nonnumeric (Some ''site-1'') None None []))) ''blocks'')
    \<and> from_upstream [(''pagination'', [''pagination''])] one_of_each
      (projr (fst (listCustomCode_try populous nonnumeric (Some ''site-1'') None None [])))) \<and>
   (emails_list (mockResend (Resolves (Obj [(''data'', Arr [raw_email])]) None)) = Resolves (Obj [(''data'', Arr [raw_email])]) None
    \<and> listEmails_try (mockResend (Resolves (Obj [(''data'', Arr [raw_email])]) None))
        = Inr (projr (listEmails_try (mockResend (Resolves (Obj [(''data'', Arr [raw_email])]) None))))) \<and>
   (projected emailInfo (coalesce (optional_field (Obj [(''data'', Arr [raw_email])]) ''data'') (Arr []))
      (field (projr (listEmails_try (mockResend (Resolves (Obj [(''data'', Arr [raw_email])]) None)))) ''emails'')) \<and>
   (contacts_list (mockResend (Resolves (Obj [(''data'', Arr [raw_contact])]) None)) = Resolves (Obj [(''data'', Arr [raw_contact])]) None
    \<and> listContacts_try (mockResend (Resolves (Obj [(''data'', Arr [raw_contact])]) None))
        = Inr (projr (listContacts_try (mockResend (Resolves (Obj [(''data'', Arr [raw_contact])]) None))))) \<and>
   (projected contactInfo (coalesce (optional_field (Obj [(''data'', Arr [raw_contact])]) ''data'') (Arr []))
      (field (projr (listContacts_try (mockResend (Resolves (Obj [(''data'', Arr [raw_contact])]) None)))) ''contacts'')) \<and>
   (templates_list (mockResend (Resolves (Obj [(''data'', Arr [raw_template])]) None)) (listTemplates_params None None None) = Resolves (Obj [(''data'', Arr [raw_template])]) None
    \<and> listTemplates_try (mockResend (Resolves (Obj [(''data'', Arr [raw_template])]) None)) None None None
        = Inr (projr (listTemplates_try (mockResend (Resolves (Obj [(''data'', Arr [raw_template])]) None)) None None None))) \<and>
   (projected templateInfo (coalesce (field (Obj [(''data'', Arr [raw_template])]) ''data'') (Arr []))
      (field (projr (listTemplates_try (mockResend (Resolves (Obj [(''data'', Arr [raw_template])]) None)) None None None)) ''templates'')) \<and>
   (templates_get (mockResend (Resolves (raw_template) None)) ''template-1'' = Resolves (raw_template) None
    \<and> getTemplate_try (mockResend (Resolves (raw_template) None)) ''template-1''
        = Inr (projr (getTemplate_try (mockResend (Resolves (raw_template) None)) ''template-1''))) \<and>
   ((field (projr (getTemplate_try (mockResend (Resolves (raw_template) None)) ''template-1'')) ''variables'' = Undefined
      \<or> projected variableInfo (field raw_template ''variables'')
          (field (projr (getTemplate_try (mockResend (Resolves (raw_template) None)) ''template-1'')) ''variables''))
    \<and> from_upstream
        [(''name'', [''name'']), (''alias'', [''alias'']), (''status'', [''status'']),
         (''from'', [''from'']), (''subject'', [''subject'']),
         (''replyTo'', [''reply_to'', ''replyTo'']), (''variables'', [''variables'']),
         (''createdAt'', [''created_at'', ''createdAt'']),
         (''updatedAt'', [''updated_at'', ''updatedAt'']),
         (''publishedAt'', [''published_at'', ''publishedAt''])] raw_template
        (projr (getTemplate_try (mockResend (Resolves (raw_template) None)) ''template-1''))) \<and>
   (siteInfo raw_site = Inr (projr (siteInfo raw_site))) \<and>
   (from_upstream
      [(''lastPublished'', [''last_published'', ''lastPublished'']),
       (''lastUpdated'', [''last_updated'', ''lastUpdated'']),
       (''previewUrl'', [''previewUrl'']), (''timeZone'', [''timeZone'']),
       (''customDomains'', [''customDomains''])] raw_site
      (projr (siteInfo raw_site))) \<and>
   (pageInfo raw_page = Inr (projr (pageInfo raw_page))) \<and>
   (from_upstream
      [(''archived'', [''archived'']), (''draft'', [''draft'']),
       (''createdOn'', [''created_on'', ''createdOn'']),
       (''lastUpdated'', [''last_updated'', ''lastUpdated'']),
       (''publishedPath'', [''publishedPath'']), (''seo'', [''seo''])] raw_page
      (projr (pageInfo raw_page))
    \<and> (field (projr (pageInfo raw_page)) ''seo'' = Undefined \<or>
       from_upstream [(''title'', [''title'']), (''description'', [''description''])]
         (field raw_page ''seo'') (field (projr (pageInfo raw_page)) ''seo''))) \<and>
   (formInfo raw_form = Inr (projr (formInfo raw_form))) \<and>
   (from_upstream
      [(''pageId'', [''pageId'']), (''pageName'', [''pageName'']),
       (''formElementId'', [''form_element_id'', ''formElementId'']),
       (''fields'', [''fields'']),
       (''createdOn'', [''created_on'', ''createdOn'']),
       (''lastUpdated'', [''last_updated'', ''lastUpdated''])] raw_form
      (projr (formInfo raw_form))
    \<and> list_all (\<lambda>(k, f).
         \<exists>x. (k, x) \<in> set (entries (field raw_form ''fields'')) \<and>
             from_upstream [(''displayName'', [''displayName'']), (''type'', [''type''])] x f)
       (entries (field (projr (formInfo raw_form)) ''fields''))) \<and>
   (submissionInfo raw_submission = Inr (projr (submissionInfo raw_submission))) \<and>
   (from_upstream
      [(''displayName'', [''displayName'']),
       (''dateSubmitted'', [''date_submitted'', ''dateSubmitted''])] raw_submission
      (projr (submissionInfo raw_submission))) \<and>
   (blockInfo raw_block = Inr (projr (blockInfo raw_block))) \<and>
   (from_upstream
      [(''pageId'', [''pageId'']), (''type'', [''type'']),
       (''createdOn'', [''created_on'', ''createdOn'']),
       (''lastUpdated'', [''last_updated'', ''lastUpdated''])] raw_block
      (projr (blockInfo raw_block))) \<and>
   (contactInfo raw_contact = Inr (projr (contactInfo raw_contact))) \<and>
   (from_upstream
      [(''firstName'', [''first_name'', ''firstName'']),
       (''lastName'', [''last_name'', ''lastName''])] raw_contact
      (projr (contactInfo raw_contact))) \<and>
   (templateInfo raw_template = Inr (projr (templateInfo raw_template))) \<and>
   (from_upstream
      [(''alias'', [''alias'']), (''createdAt'', [''created_at'', ''createdAt'']),
       (''updatedAt'', [''updated_at'', ''updatedAt'']),
       (''publishedAt'', [''published_at'', ''publishedAt''])] raw_template
      (projr (templateInfo raw_template))) \<and>
   (variableInfo raw_variable = Inr (projr (variableInfo raw_variable))) \<and>
   (from_upstream
      [(''fallbackValue'', [''fallback_value'', ''fallbackValue''])] raw_variable
      (projr (variableInfo raw_variable)))"
proof -
  note populated_all = output_records_invariant [THEN conjunct1]
  note sources = output_records_invariant [THEN conjunct2, THEN conjunct1]
  note optionals = output_records_invariant [THEN conjunct2, THEN conjunct2]
  have net: "fetch populous 0 = (\<lambda>req. Responds (mockApiResponse one_of_each [] True 200))
      \<and> ok (mockApiResponse one_of_each [] True 200)
      \<and> resp_json (mockApiResponse one_of_each [] True 200) = Inr one_of_each"
    by (simp add: populous_def stubEnv_def mockFetch_def mockApiResponse_def fun_eq_iff)
  note webflow = sources [THEN conjunct1, THEN mp, OF net]
  have p1: "populated ListSitesResultSchema (fst (listSites populous))"
    by (rule populated_all [THEN conjunct1])
  have sites_run: "listSites_try populous []
      = (Inr (projr (fst (listSites_try populous []))),
         snd (listSites_try populous []))"
    by (simp add: run_webflow run_values fixtures projections)
  note sites = webflow [THEN conjunct1, THEN mp, OF sites_run]
  have published_run: "publishSite_try populous (Some ''site-1'') None (Some True) []
      = (Inr (projr (fst (publishSite_try populous (Some ''site-1'') None (Some True) []))),
         snd (publishSite_try populous (Some ''site-1'') None (Some True) []))"
    by (simp add: run_webflow run_values fixtures projections)
  note published = webflow [THEN conjunct2, THEN conjunct1, THEN mp, OF published_run]
  have pages_run: "listPages_try populous nonnumeric (Some ''site-1'') None None []
      = (Inr (projr (fst (listPages_try populous nonnumeric (Some ''site-1'') None None []))),
         snd (listPages_try populous nonnumeric (Some ''site-1'') None None []))"
    by (simp add: run_webflow run_values fixtures projections)
  note pages = webflow [THEN conjunct2, THEN conjunct2, THEN conjunct1, THEN mp, OF pages_run]
  note pages_1 = pages [THEN conjunct1] and pages_2 = pages [THEN conjunct2]
  have forms_run: "listForms_try populous nonnumeric (Some ''site-1'') None None []
      = (Inr (projr (fst (listForms_try populous nonnumeric (Some ''site-1'') None None []))),
         snd (listForms_try populous nonnumeric (Some ''site-1'') None None []))"
    by (simp add: run_webflow run_values fixtures projections)
  note forms = webflow [THEN conjunct2, THEN conjunct2, THEN conjunct2, THEN conjunct1, THEN mp, OF forms_run]
  note forms_1 = forms [THEN conjunct1] and forms_2 = forms [THEN conjunct2]
  have submissions_run: "listFormSubmissions_try populous nonnumeric (Some ''site-1'') None None None []
      = (Inr (projr (fst (listFormSubmissions_try populous nonnumeric (Some ''site-1'') None None None []))),
         snd (listFormSubmissions_try populous nonnumeric (Some ''site-1'') None None None []))"
    by (simp add: run_webflow run_values fixtures projections)
  note submissions = webflow [THEN conjunct2, THEN conjunct2, THEN conjunct2, THEN conjunct2, THEN conjunct1, THEN mp, OF submissions_run]
  note submissions_1 = submissions [THEN conjunct1] and submissions_2 = submissions [THEN conjunct2]
  have blocks_run: "listCustomCode_try populous nonnumeric (Some ''site-1'') None None []
      = (Inr (projr (fst (listCustomCode_try populous nonnumeric (Some ''site-1'') None None []))),
         snd (listCustomCode_try populous nonnumeric (Some ''site-1'') None None []))"
    by (simp add: run_webflow run_values fixtures projections)
  note blocks = webflow [THEN conjunct2, THEN conjunct2, THEN conjunct2, THEN conjunct2, THEN conjunct2, THEN mp, OF blocks_run]
  note blocks_1 = blocks [THEN conjunct1] and blocks_2 = blocks [THEN conjunct2]
  have emails_run: "emails_list (mockResend (Resolves (Obj [(''data'', Arr [raw_email])]) None)) = Resolves (Obj [(''data'', Arr [raw_email])]) None
      \<and> listEmails_try (mockResend (Resolves (Obj [(''data'', Arr [raw_email])]) None))
          = Inr (projr (listEmails_try (mockResend (Resolves (Obj [(''data'', Arr [raw_email])]) None))))"
    by (simp add: run_resend run_values fixtures projections)
  note emails = sources [THEN conjunct2, THEN conjunct1, THEN mp, OF emails_run]
  have contacts_run: "contacts_list (mockResend (Resolves (Obj [(''data'', Arr [raw_contact])]) None)) = Resolves (Obj [(''data'', Arr [raw_contact])]) None
      \<and> listContacts_try (mockResend (Resolves (Obj [(''data'', Arr [raw_contact])]) None))
          = Inr (projr (listContacts_try (mockResend (Resolves (Obj [(''data'', Arr [raw_contact])]) None))))"
    by (simp add: run_resend run_values fixtures projections)
  note contacts = sources [THEN conjunct2, THEN conjunct2, THEN conjunct1, THEN mp, OF contacts_run]
  have templates_run: "templates_list (mockResend (Resolves (Obj [(''data'', Arr [raw_template])]) None)) (listTemplates_params None None None) = Resolves (Obj [(''data'', Arr [raw_template])]) None
      \<and> listTemplates_try (mockResend (Resolves (Obj [(''data'', Arr [raw_template])]) None)) None None None
          = Inr (projr (listTemplates_try (mockResend (Resolves (Obj [(''data'', Arr [raw_template])]) None)) None None None))"
    by (simp add: run_resend run_values fixtures projections)
  note templates = sources [THEN conjunct2, THEN conjunct2, THEN conjunct2, THEN conjunct1, THEN mp, OF templates_run]
  have template_run: "templates_get (mockResend (Resolves (raw_template) None)) ''template-1'' = Resolves (raw_template) None
      \<and> getTemplate_try (mockResend (Resolves (raw_template) None)) ''template-1''
          = Inr (projr (getTemplate_try (mockResend (Resolves (raw_template) None)) ''template-1''))"
    by (simp add: run_resend run_values fixtures projections)
  note template = sources [THEN conjunct2, THEN conjunct2, THEN conjunct2, THEN conjunct2, THEN mp, OF template_run]
  note template_1 = template [THEN conjunct1] and template_2 = template [THEN conjunct2]
  have siteInfo_run: "siteInfo raw_site = Inr (projr (siteInfo raw_site))"
    by (simp add: bindE_def run_values fixtures projections)
  note siteInfo = optionals [THEN conjunct1, THEN mp, OF siteInfo_run]
  have pageInfo_run: "pageInfo raw_page = Inr (projr (pageInfo raw_page))"
    by (simp add: bindE_def run_values fixtures projections)
  note pageInfo = optionals [THEN conjunct2, THEN conjunct1, THEN mp, OF pageInfo_run]
  note pageInfo_1 = pageInfo [THEN conjunct1] and pageInfo_2 = pageInfo [THEN conjunct2]
  have formInfo_run: "formInfo raw_form = Inr (projr (formInfo raw_form))"
    by (simp add: bindE_def run_values fixtures projections)
  note formInfo = optionals [THEN conjunct2, THEN conjunct2, THEN conjunct1, THEN mp, OF formInfo_run]
  note formInfo_1 = formInfo [THEN conjunct1] and formInfo_2 = formInfo [THEN conjunct2]
  have submissionInfo_run: "submissionInfo raw_submission = Inr (projr (submissionInfo raw_submission))"
    by (simp add: bindE_def run_values fixtures projections)
  note submissionInfo = optionals [THEN conjunct2, THEN conjunct2, THEN conjunct2, THEN conjunct1, THEN mp, OF submissionInfo_run]
  have blockInfo_run: "blockInfo raw_block = Inr (projr (blockInfo raw_block))"
    by (simp add: bindE_def run_values fixtures projections)
  note blockInfo = optionals [THEN conjunct2, THEN conjunct2, THEN conjunct2, THEN conjunct2, THEN conjunct1, THEN mp, OF blockInfo_run]
  have contactInfo_run: "contactInfo raw_contact = Inr (projr (contactInfo raw_contact))"
    by (simp add: bindE_def run_values fixtures projections)
  note contactInfo = optionals [THEN conjunct2, THEN conjunct2, THEN conjunct2, THEN conjunct2, THEN conjunct2, THEN conjunct1, THEN mp, OF contactInfo_run]
  have templateInfo_run: "templateInfo raw_template = Inr (projr (templateInfo raw_template))"
    by (simp add: bindE_def run_values fixtures projections)
  note templateInfo = optionals [THEN conjunct2, THEN conjunct2, THEN conjunct2, THEN conjunct2, THEN conjunct2, THEN conjunct2, THEN conjunct1, THEN mp, OF templateInfo_run]
  have variableInfo_run: "variableInfo raw_variable = Inr (projr (variableInfo raw_variable))"
    by (simp add: bindE_def run_values fixtures projections)
  note variableInfo = optionals [THEN conjunct2, THEN conjunct2, THEN conjunct2, THEN conjunct2, THEN conjunct2, THEN conjunct2, THEN conjunct2, THEN mp, OF variableInfo_run]
  note fields = conjI [OF formInfo_1 formInfo_2 [folded list_all_iff]]
  show ?thesis
    by (rule conjI [OF net
      conjI [OF p1
      conjI [OF sites_run
      conjI [OF sites
      conjI [OF published_run
      conjI [OF published
      conjI [OF pages_run
      conjI [OF pages
      conjI [OF forms_run
      conjI [OF forms
      conjI [OF submissions_run
      conjI [OF submissions
      conjI [OF blocks_run
      conjI [OF blocks
      conjI [OF emails_run
      conjI [OF emails
      conjI [OF contacts_run
      conjI [OF contacts
      conjI [OF templates_run
      conjI [OF templates
      conjI [OF template_run
      conjI [OF template
      conjI [OF siteInfo_run
      conjI [OF siteInfo
      conjI [OF pageInfo_run
      conjI [OF pageInfo
      conjI [OF formInfo_run
      conjI [OF fields
      conjI [OF submissionInfo_run
      conjI [OF submissionInfo
      conjI [OF blockInfo_run
      conjI [OF blockInfo
      conjI [OF contactInfo_run
      conjI [OF contactInfo
      conjI [OF templateInfo_run
      conjI [OF templateInfo
      conjI [OF variableInfo_run
      variableInfo]]]]]]]]]]]]]]]]]]]]]]]]]]]]]]]]]]]]])
qed

text \<open>
  The claim as first stated asks this of every optional field. \<open>getEmail\<close> fills
  \<open>lastEvent\<close> (declared optional) with the empty string when the upstream has neither
  \<^verbatim>\<open>last_event\<close> nor \<^verbatim>\<open>lastEvent\<close>, so the field is present although the upstream
  provided no value for it.
\<close>

theorem getEmail_defaults_counterexample:
  "getEmail (mockResend (Resolves (Obj [(''id'', Str ''email-123'')]) None)) ''email-123''
     = Obj [(''success'', Bool True), (''id'', Str ''email-123''), (''from'', Str []),
            (''to'', Arr []), (''subject'', Str []), (''lastEvent'', Str []),
            (''createdAt'', Str [])]
   \<and> ''lastEvent'' \<in> set (optional_keys GetEmailResultSchema)
   \<and> field (Obj [(''id'', Str ''email-123'')]) ''last_event'' = Undefined
   \<and> field (Obj [(''id'', Str ''email-123'')]) ''lastEvent'' = Undefined"
  by (simp add: getEmail_def getEmail_try_def run_resend run_values stringField_or_def
        toStringArray_def optional_fields_declared)

end
